theory Spec2Isabelle
  imports Main "HOL-Library.Word" "HOL-Library.AList" "HOL-Library.Sublist"
begin

chapter \<open>The model\<close>

section \<open>Dynamic values, clocks and errors\<close>

text \<open>
  Go's \<^verbatim>\<open>map[string]interface{}\<close> holds decoded JSON. A value is one of the JSON
  shapes; the only shape the code ever inspects is the string (the type assertion
  \<^verbatim>\<open>v.(string)\<close>). A map is an association list read with \<open>map_of\<close> and written with
  \<open>AList.update\<close>, which replaces the value of a key that is present and adds the key
  otherwise, as the assignment \<^verbatim>\<open>m[k] = v\<close> does.
\<close>

datatype jvalue =
    JNull
  | JBool bool
  | JNumber int
  | JString string
  | JArray "jvalue list"
  | JObject "(string \<times> jvalue) list"

type_synonym jmap = "(string \<times> jvalue) list"

text \<open>The type assertion \<^verbatim>\<open>v, ok := m[k].(string)\<close>: \<open>None\<close> is \<^verbatim>\<open>ok == false\<close>.\<close>

definition as_string :: "jmap \<Rightarrow> string \<Rightarrow> string option" where
  "as_string m k = (case map_of m k of Some (JString s) \<Rightarrow> Some s | _ \<Rightarrow> None)"

text \<open>
  Every \<^verbatim>\<open>time.Now().Format(time.RFC3339)\<close> of an operation is a reading of the clock.
  An operation takes a clock \<open>clk\<close>, and \<open>clk n\<close> is what its \<open>n\<close>-th call site of
  \<^verbatim>\<open>time.Now()\<close> reads (two call sites of one operation may read different seconds).
\<close>

type_synonym clock = "nat \<Rightarrow> string"

text \<open>
  The errors the code builds with \<^verbatim>\<open>fmt.Errorf\<close>, one constructor per message, with
  the identifier the message names.
\<close>

datatype error =
    DrugAlreadyExists string        \<comment> \<open>drug %s already exists in (common) ledger\<close>
  | DrugNotFound string             \<comment> \<open>drug %s not found in (common) ledger\<close>
  | ShipmentAlreadyExists string    \<comment> \<open>shipment %s already exists in (common) ledger\<close>
  | ShipmentNotFound string         \<comment> \<open>shipment %s not found in (common) ledger\<close>
  | BlockHeightSequenceBroken nat   \<comment> \<open>block height sequence broken at block %d\<close>
  | PreviousBlockHashMismatch nat   \<comment> \<open>previous block hash mismatch at block %d\<close>
  | DbDrugNotFound string           \<comment> \<open>failed to get drug from database: drug not found: %s\<close>
  | DbShipmentNotFound string       \<comment> \<open>failed to get shipment from database: shipment not found: %s\<close>
  | DbDecodeError                   \<comment> \<open>json.Unmarshal of a store row into the struct failed\<close>
  | DrugNotInCommonLedger string    \<comment> \<open>drug not found in common ledger: %s\<close>
  | TransactionNotFound string      \<comment> \<open>transaction not found: %s\<close>
  | InvalidTransactionDataFormat    \<comment> \<open>invalid transaction data format\<close>
  | MissingRequiredField string     \<comment> \<open>missing required field: %s\<close>
  | UnhandledTable string           \<comment> \<open>unhandled table in webhook: %s\<close>
  | NoValidRecordID string          \<comment> \<open>no valid record ID found for table %s\<close>
  | Panic                           \<comment> \<open>a failed type assertion without the ok form\<close>

section \<open>The manufacturer ledger and the common ledger\<close>

record Status =
  st_Status :: string
  st_Timestamp :: string
  st_Details :: string

record DrugRecord =
  dr_DrugID :: string
  dr_Status :: string
  dr_CreatedAt :: string
  dr_RevertedAt :: string
  dr_CurrentStatus :: string
  dr_History :: "Status list"

record ShipmentRecord =
  sr_ShipmentID :: string
  sr_DrugID :: string
  sr_Status :: string
  sr_CreatedAt :: string
  sr_CurrentStatus :: string
  sr_History :: "Status list"

record ManufacturerLedger =
  ml_ManufacturerID :: string
  ml_Drugs :: "DrugRecord list"
  ml_Shipments :: "ShipmentRecord list"
  ml_LastUpdated :: string

record CommonDrugRecord =
  cd_DrugID :: string
  cd_ManufacturerID :: string
  cd_Status :: string
  cd_CreatedAt :: string
  cd_CurrentStatus :: string
  cd_History :: "Status list"
  cd_VerificationHash :: string

record CommonShipmentRecord =
  cs_ShipmentID :: string
  cs_DrugID :: string
  cs_ManufacturerID :: string
  cs_DistributorID :: string
  cs_Status :: string
  cs_CreatedAt :: string
  cs_CurrentStatus :: string
  cs_History :: "Status list"

record CommonLedger =
  cl_Drugs :: "CommonDrugRecord list"
  cl_Shipments :: "CommonShipmentRecord list"
  cl_LastUpdated :: string

text \<open>
  The loop \<^verbatim>\<open>for i := range xs { if p(xs[i]) { xs[i] = f(xs[i]); break } }\<close>: the first
  element that satisfies \<open>p\<close> is rewritten, \<open>None\<close> when the loop falls through.
\<close>

fun update_first :: "('a \<Rightarrow> bool) \<Rightarrow> ('a \<Rightarrow> 'a) \<Rightarrow> 'a list \<Rightarrow> 'a list option" where
  "update_first p f [] = None"
| "update_first p f (x # xs) =
     (if p x then Some (f x # xs)
      else (case update_first p f xs of None \<Rightarrow> None | Some ys \<Rightarrow> Some (x # ys)))"

text \<open>The loop \<^verbatim>\<open>for _, x := range xs { if p(x) { return g(x) } }\<close>.\<close>

fun find_first :: "('a \<Rightarrow> bool) \<Rightarrow> 'a list \<Rightarrow> 'a option" where
  "find_first p [] = None"
| "find_first p (x # xs) = (if p x then Some x else find_first p xs)"

text \<open>
  A method with a pointer receiver that returns \<^verbatim>\<open>error\<close> becomes a function to the
  receiver after the call and the error (\<open>None\<close> is \<^verbatim>\<open>nil\<close>).
\<close>

definition NewManufacturerLedger :: "clock \<Rightarrow> string \<Rightarrow> ManufacturerLedger" where
  "NewManufacturerLedger clk manufacturerID =
     \<lparr>ml_ManufacturerID = manufacturerID, ml_Drugs = [], ml_Shipments = [],
      ml_LastUpdated = clk 0\<rparr>"

definition AddDrugRecord ::
  "clock \<Rightarrow> string \<Rightarrow> string \<Rightarrow> ManufacturerLedger \<Rightarrow> ManufacturerLedger \<times> error option" where
  "AddDrugRecord clk drugID status ml =
     (if list_ex (\<lambda>drug. dr_DrugID drug = drugID) (ml_Drugs ml)
      then (ml, Some (DrugAlreadyExists drugID))
      else
        (let drugRecord =
           \<lparr>dr_DrugID = drugID, dr_Status = status, dr_CreatedAt = clk 0,
            dr_RevertedAt = '''', dr_CurrentStatus = status,
            dr_History = [\<lparr>st_Status = status, st_Timestamp = clk 1, st_Details = ''''\<rparr>]\<rparr>
         in (ml\<lparr>ml_Drugs := ml_Drugs ml @ [drugRecord], ml_LastUpdated := clk 2\<rparr>, None)))"

definition UpdateDrugStatus ::
  "clock \<Rightarrow> string \<Rightarrow> string \<Rightarrow> string \<Rightarrow> ManufacturerLedger \<Rightarrow> ManufacturerLedger \<times> error option" where
  "UpdateDrugStatus clk drugID newStatus details ml =
     (case update_first (\<lambda>drug. dr_DrugID drug = drugID)
             (\<lambda>drug. drug\<lparr>dr_CurrentStatus := newStatus,
                           dr_History := dr_History drug @
                             [\<lparr>st_Status = newStatus, st_Timestamp = clk 0, st_Details = details\<rparr>]\<rparr>)
             (ml_Drugs ml) of
        Some drugs \<Rightarrow> (ml\<lparr>ml_Drugs := drugs, ml_LastUpdated := clk 1\<rparr>, None)
      | None \<Rightarrow> (ml, Some (DrugNotFound drugID)))"

definition AddShipmentRecord ::
  "clock \<Rightarrow> string \<Rightarrow> string \<Rightarrow> string \<Rightarrow> ManufacturerLedger \<Rightarrow> ManufacturerLedger \<times> error option" where
  "AddShipmentRecord clk shipmentID drugID status ml =
     (if list_ex (\<lambda>shipment. sr_ShipmentID shipment = shipmentID) (ml_Shipments ml)
      then (ml, Some (ShipmentAlreadyExists shipmentID))
      else
        (let shipmentRecord =
           \<lparr>sr_ShipmentID = shipmentID, sr_DrugID = drugID, sr_Status = status,
            sr_CreatedAt = clk 0, sr_CurrentStatus = status,
            sr_History = [\<lparr>st_Status = status, st_Timestamp = clk 1, st_Details = ''''\<rparr>]\<rparr>
         in (ml\<lparr>ml_Shipments := ml_Shipments ml @ [shipmentRecord], ml_LastUpdated := clk 2\<rparr>,
             None)))"

definition UpdateShipmentStatus ::
  "clock \<Rightarrow> string \<Rightarrow> string \<Rightarrow> string \<Rightarrow> ManufacturerLedger \<Rightarrow> ManufacturerLedger \<times> error option" where
  "UpdateShipmentStatus clk shipmentID newStatus details ml =
     (case update_first (\<lambda>shipment. sr_ShipmentID shipment = shipmentID)
             (\<lambda>shipment. shipment\<lparr>sr_CurrentStatus := newStatus,
                           sr_History := sr_History shipment @
                             [\<lparr>st_Status = newStatus, st_Timestamp = clk 0, st_Details = details\<rparr>]\<rparr>)
             (ml_Shipments ml) of
        Some shipments \<Rightarrow> (ml\<lparr>ml_Shipments := shipments, ml_LastUpdated := clk 1\<rparr>, None)
      | None \<Rightarrow> (ml, Some (ShipmentNotFound shipmentID)))"

definition GetDrugHistory :: "string \<Rightarrow> ManufacturerLedger \<Rightarrow> error + Status list" where
  "GetDrugHistory drugID ml =
     (case find_first (\<lambda>drug. dr_DrugID drug = drugID) (ml_Drugs ml) of
        Some drug \<Rightarrow> Inr (dr_History drug)
      | None \<Rightarrow> Inl (DrugNotFound drugID))"

definition GetShipmentHistory :: "string \<Rightarrow> ManufacturerLedger \<Rightarrow> error + Status list" where
  "GetShipmentHistory shipmentID ml =
     (case find_first (\<lambda>shipment. sr_ShipmentID shipment = shipmentID) (ml_Shipments ml) of
        Some shipment \<Rightarrow> Inr (sr_History shipment)
      | None \<Rightarrow> Inl (ShipmentNotFound shipmentID))"

text \<open>The methods of \<^verbatim>\<open>CommonLedger\<close> (common_ledger.go), suffixed \<open>_cl\<close>.\<close>

definition NewCommonLedger :: "clock \<Rightarrow> CommonLedger" where
  "NewCommonLedger clk = \<lparr>cl_Drugs = [], cl_Shipments = [], cl_LastUpdated = clk 0\<rparr>"

definition AddDrugRecord_cl ::
  "clock \<Rightarrow> string \<Rightarrow> string \<Rightarrow> string \<Rightarrow> string \<Rightarrow> CommonLedger \<Rightarrow> CommonLedger \<times> error option" where
  "AddDrugRecord_cl clk drugID manufacturerID status verificationHash cl =
     (if list_ex (\<lambda>drug. cd_DrugID drug = drugID) (cl_Drugs cl)
      then (cl, Some (DrugAlreadyExists drugID))
      else
        (let drugRecord =
           \<lparr>cd_DrugID = drugID, cd_ManufacturerID = manufacturerID, cd_Status = status,
            cd_CreatedAt = clk 0, cd_CurrentStatus = status,
            cd_History = [\<lparr>st_Status = status, st_Timestamp = clk 1, st_Details = ''''\<rparr>],
            cd_VerificationHash = verificationHash\<rparr>
         in (cl\<lparr>cl_Drugs := cl_Drugs cl @ [drugRecord], cl_LastUpdated := clk 2\<rparr>, None)))"

definition UpdateDrugStatus_cl ::
  "clock \<Rightarrow> string \<Rightarrow> string \<Rightarrow> string \<Rightarrow> CommonLedger \<Rightarrow> CommonLedger \<times> error option" where
  "UpdateDrugStatus_cl clk drugID newStatus details cl =
     (case update_first (\<lambda>drug. cd_DrugID drug = drugID)
             (\<lambda>drug. drug\<lparr>cd_CurrentStatus := newStatus,
                           cd_History := cd_History drug @
                             [\<lparr>st_Status = newStatus, st_Timestamp = clk 0, st_Details = details\<rparr>]\<rparr>)
             (cl_Drugs cl) of
        Some drugs \<Rightarrow> (cl\<lparr>cl_Drugs := drugs, cl_LastUpdated := clk 1\<rparr>, None)
      | None \<Rightarrow> (cl, Some (DrugNotFound drugID)))"

definition AddShipmentRecord_cl ::
  "clock \<Rightarrow> string \<Rightarrow> string \<Rightarrow> string \<Rightarrow> string \<Rightarrow> string \<Rightarrow> CommonLedger
     \<Rightarrow> CommonLedger \<times> error option" where
  "AddShipmentRecord_cl clk shipmentID drugID manufacturerID distributorID status cl =
     (if list_ex (\<lambda>shipment. cs_ShipmentID shipment = shipmentID) (cl_Shipments cl)
      then (cl, Some (ShipmentAlreadyExists shipmentID))
      else
        (let shipmentRecord =
           \<lparr>cs_ShipmentID = shipmentID, cs_DrugID = drugID, cs_ManufacturerID = manufacturerID,
            cs_DistributorID = distributorID, cs_Status = status, cs_CreatedAt = clk 0,
            cs_CurrentStatus = status,
            cs_History = [\<lparr>st_Status = status, st_Timestamp = clk 1, st_Details = ''''\<rparr>]\<rparr>
         in (cl\<lparr>cl_Shipments := cl_Shipments cl @ [shipmentRecord], cl_LastUpdated := clk 2\<rparr>,
             None)))"

definition UpdateShipmentStatus_cl ::
  "clock \<Rightarrow> string \<Rightarrow> string \<Rightarrow> string \<Rightarrow> CommonLedger \<Rightarrow> CommonLedger \<times> error option" where
  "UpdateShipmentStatus_cl clk shipmentID newStatus details cl =
     (case update_first (\<lambda>shipment. cs_ShipmentID shipment = shipmentID)
             (\<lambda>shipment. shipment\<lparr>cs_CurrentStatus := newStatus,
                           cs_History := cs_History shipment @
                             [\<lparr>st_Status = newStatus, st_Timestamp = clk 0, st_Details = details\<rparr>]\<rparr>)
             (cl_Shipments cl) of
        Some shipments \<Rightarrow> (cl\<lparr>cl_Shipments := shipments, cl_LastUpdated := clk 1\<rparr>, None)
      | None \<Rightarrow> (cl, Some (ShipmentNotFound shipmentID)))"

definition GetDrugHistory_cl :: "string \<Rightarrow> CommonLedger \<Rightarrow> error + Status list" where
  "GetDrugHistory_cl drugID cl =
     (case find_first (\<lambda>drug. cd_DrugID drug = drugID) (cl_Drugs cl) of
        Some drug \<Rightarrow> Inr (cd_History drug)
      | None \<Rightarrow> Inl (DrugNotFound drugID))"

definition GetShipmentHistory_cl :: "string \<Rightarrow> CommonLedger \<Rightarrow> error + Status list" where
  "GetShipmentHistory_cl shipmentID cl =
     (case find_first (\<lambda>shipment. cs_ShipmentID shipment = shipmentID) (cl_Shipments cl) of
        Some shipment \<Rightarrow> Inr (cs_History shipment)
      | None \<Rightarrow> Inl (ShipmentNotFound shipmentID))"

section \<open>The chain ledger\<close>

text \<open>
  Go's \<^verbatim>\<open>int\<close> is a 64-bit machine integer on the platforms the service builds for;
  \<open>+\<close> on words wraps as Go's does. \<^verbatim>\<open>Block.TxData\<close> is an \<^verbatim>\<open>interface{}\<close>, here a
  \<open>jvalue\<close>: what is written is always a JSON object.
\<close>

record Block =
  blk_BlockHeight :: "64 word"
  blk_TxHash :: string
  blk_TxData :: jvalue
  blk_Timestamp :: string
  blk_PreviousBlockHash :: string

record BlockchainLedger =
  bl_Blocks :: "Block list"
  bl_LastUpdated :: string
  bl_BlockHeight :: "64 word"

definition initial_ledger :: "string \<Rightarrow> BlockchainLedger" where
  "initial_ledger now = \<lparr>bl_Blocks = [], bl_LastUpdated = now, bl_BlockHeight = 0\<rparr>"

section \<open>The external store\<close>

text \<open>
  The Supabase client (package supabase) as a keyed document store: a table is the list of
  its rows, a row is a JSON object. \<^verbatim>\<open>Select\<close> keeps the rows whose columns equal the
  texts of the filter, \<^verbatim>\<open>Insert\<close> adds a row, \<^verbatim>\<open>Update\<close> merges the patch into every row
  whose id column (\<^verbatim>\<open>drug_id\<close> for drugs, \<^verbatim>\<open>shipment_id\<close> for shipments, \<^verbatim>\<open>id\<close> otherwise)
  equals the id. The store and the file system are taken to be reliable: a read returns
  what was last written and no call returns a transport error, so the branches of the code
  that only log such an error do not appear.
\<close>

type_synonym database = "string \<Rightarrow> jmap list"

definition row_eq :: "jmap \<Rightarrow> string \<times> string \<Rightarrow> bool" where
  "row_eq row kv = (map_of row (fst kv) = Some (JString (snd kv)))"

definition Supabase_Select :: "database \<Rightarrow> string \<Rightarrow> (string \<times> string) list \<Rightarrow> jmap list" where
  "Supabase_Select db table wh = filter (\<lambda>row. list_all (row_eq row) wh) (db table)"

definition Supabase_Insert :: "database \<Rightarrow> string \<Rightarrow> jmap \<Rightarrow> database" where
  "Supabase_Insert db table data = db(table := db table @ [data])"

definition merge_row :: "jmap \<Rightarrow> jmap \<Rightarrow> jmap" where
  "merge_row row patch = fold (\<lambda>kv. AList.update (fst kv) (snd kv)) patch row"

definition idColumn :: "string \<Rightarrow> string" where
  "idColumn table =
     (if table = ''drugs'' then ''drug_id''
      else if table = ''shipments'' then ''shipment_id''
      else ''id'')"

definition Supabase_Update :: "database \<Rightarrow> string \<Rightarrow> string \<Rightarrow> jmap \<Rightarrow> database" where
  "Supabase_Update db table ident data =
     db(table := map (\<lambda>row. if row_eq row (idColumn table, ident) then merge_row row data else row)
                     (db table))"

section \<open>The state of the service\<close>

text \<open>
  Everything the service keeps outside its process: the chain ledger file (\<open>None\<close> while
  it does not exist), the external store, the files of the data directory (name and
  content; writing a name again overwrites), one ledger file per manufacturer, the common
  ledger file, and the set of processed transaction hashes of the idempotency tracker.
\<close>

record world =
  BlockchainFile :: "BlockchainLedger option"
  Supabase :: database
  DataDir :: "(string \<times> jmap) list"
  ManufacturerLedgersDir :: "string \<Rightarrow> ManufacturerLedger option"
  CommonLedgerFile :: CommonLedger
  ProcessedTxs :: "string set"

definition WriteFile :: "string \<Rightarrow> jmap \<Rightarrow> world \<Rightarrow> world" where
  "WriteFile filePath data w = w\<lparr>DataDir := AList.update filePath data (DataDir w)\<rparr>"

definition SaveManufacturerLedger :: "ManufacturerLedger \<Rightarrow> world \<Rightarrow> world" where
  "SaveManufacturerLedger ledger w =
     w\<lparr>ManufacturerLedgersDir := (ManufacturerLedgersDir w)(ml_ManufacturerID ledger \<mapsto> ledger)\<rparr>"

text \<open>A manufacturer's ledger is created, and saved, the first time it is asked for.\<close>

definition GetManufacturerLedger :: "string \<Rightarrow> string \<Rightarrow> world \<Rightarrow> ManufacturerLedger \<times> world" where
  "GetManufacturerLedger now manufacturerID w =
     (case ManufacturerLedgersDir w manufacturerID of
        None \<Rightarrow>
          (let newLedger = \<lparr>ml_ManufacturerID = manufacturerID, ml_Drugs = [], ml_Shipments = [],
                            ml_LastUpdated = now\<rparr>
           in (newLedger, SaveManufacturerLedger newLedger w))
      | Some ledger \<Rightarrow> (ledger, w))"

definition GetCommonLedger :: "world \<Rightarrow> CommonLedger" where
  "GetCommonLedger w = CommonLedgerFile w"

definition SaveCommonLedger :: "CommonLedger \<Rightarrow> world \<Rightarrow> world" where
  "SaveCommonLedger ledger w = w\<lparr>CommonLedgerFile := ledger\<rparr>"

definition shift :: "nat \<Rightarrow> clock \<Rightarrow> clock" where
  "shift k clk = (\<lambda>n. clk (n + k))"

section \<open>Appending to the chain and checking it\<close>

definition EnsureBlockchainLedgerExists :: "string \<Rightarrow> world \<Rightarrow> world" where
  "EnsureBlockchainLedgerExists now w =
     (case BlockchainFile w of
        None \<Rightarrow> w\<lparr>BlockchainFile := Some (initial_ledger now)\<rparr>
      | Some _ \<Rightarrow> w)"

definition GetBlockchainLedger :: "string \<Rightarrow> world \<Rightarrow> BlockchainLedger \<times> world" where
  "GetBlockchainLedger now w =
     (case BlockchainFile w of
        None \<Rightarrow> (initial_ledger now, w\<lparr>BlockchainFile := Some (initial_ledger now)\<rparr>)
      | Some ledger \<Rightarrow> (ledger, w))"

text \<open>
  The part of \<^verbatim>\<open>AddTransactionToBlockchain\<close> that runs when the transaction data has a
  string \<^verbatim>\<open>manufacturer\<close>: a drug record is appended to the manufacturer's ledger and to
  the common ledger, with the transaction hash as the verification hash.
\<close>

definition add_drug_to_ledgers :: "clock \<Rightarrow> string \<Rightarrow> string \<Rightarrow> string \<Rightarrow> world \<Rightarrow> world" where
  "add_drug_to_ledgers clk drugID manufacturerID txHash w =
     (let (manufacturerLedger, w1) = GetManufacturerLedger (clk 0) manufacturerID w;
          timestamp = clk 1;
          history = [\<lparr>st_Status = ''created'', st_Timestamp = timestamp,
                      st_Details = ''Drug created''\<rparr>];
          drugRecord = \<lparr>dr_DrugID = drugID, dr_Status = ''created'', dr_CreatedAt = timestamp,
                        dr_RevertedAt = '''', dr_CurrentStatus = ''created'',
                        dr_History = history\<rparr>;
          w2 = SaveManufacturerLedger
                 (manufacturerLedger\<lparr>ml_Drugs := ml_Drugs manufacturerLedger @ [drugRecord],
                                      ml_LastUpdated := timestamp\<rparr>) w1;
          commonLedger = GetCommonLedger w2;
          commonDrugRecord = \<lparr>cd_DrugID = drugID, cd_ManufacturerID = manufacturerID,
                              cd_Status = ''created'', cd_CreatedAt = timestamp,
                              cd_CurrentStatus = ''created'', cd_History = history,
                              cd_VerificationHash = txHash\<rparr>
      in SaveCommonLedger
           (commonLedger\<lparr>cl_Drugs := cl_Drugs commonLedger @ [commonDrugRecord],
                          cl_LastUpdated := timestamp\<rparr>) w2)"

text \<open>
  \<^verbatim>\<open>AddTransactionToBlockchain\<close>. The block is appended and the ledger file rewritten; a
  row goes to the \<^verbatim>\<open>blockchain_ledger\<close> table; then the row of the drug (or else of the
  shipment) the data names gets the hash and the data is saved as a record file. The
  assignment \<^verbatim>\<open>txData["blockchain_tx_id"] = txHash\<close> comes after the ledger file is
  written, so it shows in the record file only; no caller reads the map afterwards.
\<close>

definition AddTransactionToBlockchain :: "clock \<Rightarrow> jmap \<Rightarrow> string \<Rightarrow> world \<Rightarrow> world" where
  "AddTransactionToBlockchain clk txData txHash w =
     (let (ledger, w1) = GetBlockchainLedger (clk 0) w;
          currentHeight = bl_BlockHeight ledger;
          newHeight = currentHeight + 1;
          previousBlockHash =
            (if length (bl_Blocks ledger) > 0 then blk_TxHash (last (bl_Blocks ledger)) else '''');
          newBlock = \<lparr>blk_BlockHeight = newHeight, blk_TxHash = txHash,
                      blk_TxData = JObject txData, blk_Timestamp = clk 1,
                      blk_PreviousBlockHash = previousBlockHash\<rparr>;
          w2 = w1\<lparr>BlockchainFile :=
                    Some (ledger\<lparr>bl_Blocks := bl_Blocks ledger @ [newBlock],
                                 bl_BlockHeight := newHeight, bl_LastUpdated := clk 2\<rparr>)\<rparr>;
          w3 = w2\<lparr>Supabase := Supabase_Insert (Supabase w2) ''blockchain_ledger''
                    [(''tx_hash'', JString txHash), (''tx_data'', JObject txData),
                     (''block_height'', JNumber (sint newHeight)),
                     (''timestamp'', JString (clk 3))]\<rparr>
      in (case as_string txData ''drug_id'' of
            Some drugID \<Rightarrow>
              (let w4 = w3\<lparr>Supabase := Supabase_Update (Supabase w3) ''drugs'' drugID
                               [(''blockchain_tx_id'', JString txHash)]\<rparr>;
                   txData' = AList.update ''blockchain_tx_id'' (JString txHash) txData;
                   w5 = WriteFile (''drug_'' @ drugID @ ''.json'') txData' w4
               in (case as_string txData' ''manufacturer'' of
                     Some manufacturerID \<Rightarrow>
                       add_drug_to_ledgers (shift 4 clk) drugID manufacturerID txHash w5
                   | None \<Rightarrow> w5))
          | None \<Rightarrow>
              (case as_string txData ''shipment_id'' of
                 Some shipmentID \<Rightarrow>
                   (let w4 = w3\<lparr>Supabase := Supabase_Update (Supabase w3) ''shipments'' shipmentID
                                    [(''blockchain_tx_id'', JString txHash)]\<rparr>;
                        txData' = AList.update ''blockchain_tx_id'' (JString txHash) txData
                    in WriteFile (''shipment_'' @ shipmentID @ ''.json'') txData' w4)
               | None \<Rightarrow> w3)))"

text \<open>
  The loop of \<^verbatim>\<open>checkConsistency\<close>, \<^verbatim>\<open>for i := 1; i < len(Blocks); i++\<close>, comparing
  \<^verbatim>\<open>Blocks[i]\<close> with \<^verbatim>\<open>Blocks[i-1]\<close>: \<open>i\<close> is the index of \<open>currentBlock\<close>.
\<close>

fun check_blocks :: "nat \<Rightarrow> Block \<Rightarrow> Block list \<Rightarrow> bool \<times> error option" where
  "check_blocks i previousBlock [] = (True, None)"
| "check_blocks i previousBlock (currentBlock # rest) =
     (if blk_BlockHeight currentBlock \<noteq> blk_BlockHeight previousBlock + 1
      then (False, Some (BlockHeightSequenceBroken i))
      else if blk_PreviousBlockHash currentBlock \<noteq> blk_TxHash previousBlock
      then (False, Some (PreviousBlockHashMismatch i))
      else check_blocks (i + 1) currentBlock rest)"

definition checkConsistency :: "string \<Rightarrow> world \<Rightarrow> (bool \<times> error option) \<times> world" where
  "checkConsistency now w =
     (let (ledger, w1) = GetBlockchainLedger now w
      in (case bl_Blocks ledger of
            [] \<Rightarrow> ((True, None), w1)
          | firstBlock # rest \<Rightarrow> (check_blocks 1 firstBlock rest, w1)))"

text \<open>
  \<^verbatim>\<open>RunConsistencyCheck\<close> first probes the store; \<open>db_reachable\<close> is whether the probe
  returned without error. The result's status is one of \<^verbatim>\<open>failed\<close>, \<^verbatim>\<open>error\<close>,
  \<^verbatim>\<open>consistent\<close>, \<^verbatim>\<open>inconsistent\<close>.
\<close>

record ConsistencyCheckResult =
  ccr_Status :: string
  ccr_Error :: "error option"
  ccr_Timestamp :: string
  ccr_Recommendation :: string

definition RunConsistencyCheck :: "bool \<Rightarrow> clock \<Rightarrow> world \<Rightarrow> ConsistencyCheckResult \<times> world" where
  "RunConsistencyCheck db_reachable clk w =
     (if \<not> db_reachable
      then (\<lparr>ccr_Status = ''failed'', ccr_Error = None, ccr_Timestamp = clk 0,
             ccr_Recommendation = ''''\<rparr>, w)
      else
        (let ((isConsistent, err), w1) = checkConsistency (clk 1) w
         in (case err of
               Some e \<Rightarrow> (\<lparr>ccr_Status = ''error'', ccr_Error = Some e, ccr_Timestamp = clk 2,
                            ccr_Recommendation = ''''\<rparr>, w1)
             | None \<Rightarrow>
                 (if isConsistent
                  then (\<lparr>ccr_Status = ''consistent'', ccr_Error = None, ccr_Timestamp = clk 3,
                         ccr_Recommendation = ''''\<rparr>, w1)
                  else (\<lparr>ccr_Status = ''inconsistent'', ccr_Error = None, ccr_Timestamp = clk 4,
                         ccr_Recommendation = ''Run manual verification and repair process''\<rparr>,
                        w1)))))"

text \<open>A run of appends: each takes its own clock, transaction data and hash.\<close>

fun append_all :: "(clock \<times> jmap \<times> string) list \<Rightarrow> world \<Rightarrow> world" where
  "append_all [] w = w"
| "append_all ((clk, txData, txHash) # txs) w =
     append_all txs (AddTransactionToBlockchain clk txData txHash w)"

definition chain_blocks :: "world \<Rightarrow> Block list" where
  "chain_blocks w = (case BlockchainFile w of None \<Rightarrow> [] | Some ledger \<Rightarrow> bl_Blocks ledger)"

section \<open>Auxiliary notions for the proofs\<close>

text \<open>Consecutive blocks are linked: heights go up by one and each block names the hash of
  the block before it.\<close>

fun linked :: "Block list \<Rightarrow> bool" where
  "linked [] = True"
| "linked [b] = True"
| "linked (a # b # bs) =
     (blk_BlockHeight b = blk_BlockHeight a + 1 \<and> blk_PreviousBlockHash b = blk_TxHash a \<and>
      linked (b # bs))"

text \<open>What \<^verbatim>\<open>AddTransactionToBlockchain\<close> does to the ledger it has read.\<close>

definition append_block :: "clock \<Rightarrow> jmap \<Rightarrow> string \<Rightarrow> BlockchainLedger \<Rightarrow> BlockchainLedger" where
  "append_block clk txData txHash ledger =
     ledger\<lparr>bl_Blocks := bl_Blocks ledger @
        [\<lparr>blk_BlockHeight = bl_BlockHeight ledger + 1, blk_TxHash = txHash,
          blk_TxData = JObject txData, blk_Timestamp = clk 1,
          blk_PreviousBlockHash =
            (if length (bl_Blocks ledger) > 0 then blk_TxHash (last (bl_Blocks ledger)) else '''')\<rparr>],
        bl_BlockHeight := bl_BlockHeight ledger + 1, bl_LastUpdated := clk 2\<rparr>"

text \<open>The invariant of the ledger file: linked blocks, the first block at height 1 with
  no predecessor, and the ledger's height that of its last block.\<close>

definition chain_inv :: "BlockchainLedger \<Rightarrow> bool" where
  "chain_inv l =
     (linked (bl_Blocks l) \<and>
      (case bl_Blocks l of
         [] \<Rightarrow> bl_BlockHeight l = 0
       | b # bs \<Rightarrow> blk_BlockHeight b = 1 \<and> blk_PreviousBlockHash b = [] \<and>
                   blk_BlockHeight (last (b # bs)) = bl_BlockHeight l))"

text \<open>A service that has stored nothing yet, and sample inputs.\<close>

definition empty_world :: world where
  "empty_world =
     \<lparr>BlockchainFile = None, Supabase = (\<lambda>table. []), DataDir = [],
      ManufacturerLedgersDir = (\<lambda>manufacturerID. None),
      CommonLedgerFile = \<lparr>cl_Drugs = [], cl_Shipments = [], cl_LastUpdated = []\<rparr>,
      ProcessedTxs = {}\<rparr>"

definition noon :: clock where
  "noon = (\<lambda>n. ''2024-05-01T12:00:00Z'')"

definition three_txs :: "(clock \<times> jmap \<times> string) list" where
  "three_txs =
     [(noon, [(''drug_id'', JString ''D1''), (''manufacturer'', JString ''M1'')], ''aa01''),
      (noon, [(''shipment_id'', JString ''S1'')], ''bb02''),
      (noon, [(''note'', JNumber 7)], ''cc03'')]"

text \<open>The number of history entries a ledger holds, over all its drugs and shipments.\<close>

definition history_entries_ml :: "ManufacturerLedger \<Rightarrow> nat" where
  "history_entries_ml ml =
     sum_list (map (\<lambda>d. length (dr_History d)) (ml_Drugs ml)) +
     sum_list (map (\<lambda>s. length (sr_History s)) (ml_Shipments ml))"

definition history_entries_cl :: "CommonLedger \<Rightarrow> nat" where
  "history_entries_cl cl =
     sum_list (map (\<lambda>d. length (cd_History d)) (cl_Drugs cl)) +
     sum_list (map (\<lambda>s. length (cs_History s)) (cl_Shipments cl))"

text \<open>A manufacturer ledger and a common ledger with one drug and one shipment, and a clock
  whose readings differ.\<close>

definition sample_ml :: ManufacturerLedger where
  "sample_ml =
     \<lparr>ml_ManufacturerID = ''M1'',
      ml_Drugs = [\<lparr>dr_DrugID = ''D1'', dr_Status = ''created'',
                   dr_CreatedAt = ''2024-04-30T09:00:00Z'', dr_RevertedAt = [],
                   dr_CurrentStatus = ''created'',
                   dr_History = [\<lparr>st_Status = ''created'',
                                  st_Timestamp = ''2024-04-30T09:00:00Z'',
                                  st_Details = ''Drug created''\<rparr>]\<rparr>],
      ml_Shipments = [\<lparr>sr_ShipmentID = ''S1'', sr_DrugID = ''D1'', sr_Status = ''created'',
                       sr_CreatedAt = ''2024-04-30T10:00:00Z'', sr_CurrentStatus = ''created'',
                       sr_History = [\<lparr>st_Status = ''created'',
                                      st_Timestamp = ''2024-04-30T10:00:00Z'',
                                      st_Details = ''Shipment created''\<rparr>]\<rparr>],
      ml_LastUpdated = ''2024-04-30T10:00:00Z''\<rparr>"

definition sample_cl :: CommonLedger where
  "sample_cl =
     \<lparr>cl_Drugs = [\<lparr>cd_DrugID = ''D1'', cd_ManufacturerID = ''M1'', cd_Status = ''created'',
                   cd_CreatedAt = ''2024-04-30T09:00:00Z'', cd_CurrentStatus = ''created'',
                   cd_History = [\<lparr>st_Status = ''created'',
                                  st_Timestamp = ''2024-04-30T09:00:00Z'',
                                  st_Details = ''Drug created''\<rparr>],
                   cd_VerificationHash = ''vh-D1''\<rparr>],
      cl_Shipments = [\<lparr>cs_ShipmentID = ''S1'', cs_DrugID = ''D1'', cs_ManufacturerID = ''M1'',
                       cs_DistributorID = ''X1'', cs_Status = ''created'',
                       cs_CreatedAt = ''2024-04-30T10:00:00Z'', cs_CurrentStatus = ''created'',
                       cs_History = [\<lparr>st_Status = ''created'',
                                      st_Timestamp = ''2024-04-30T10:00:00Z'',
                                      st_Details = ''Shipment created''\<rparr>]\<rparr>],
      cl_LastUpdated = ''2024-04-30T10:00:00Z''\<rparr>"

definition ticking :: clock where
  "ticking = (\<lambda>n. if n = 0 then ''2024-05-01T12:00:00Z''
                  else if n = 1 then ''2024-05-01T12:00:01Z'' else ''2024-05-01T12:00:02Z'')"

section \<open>Webhook ingest: the request handler\<close>

text \<open>
  \<^verbatim>\<open>HandleWebhook\<close> sees the configured secret, the \<^verbatim>\<open>X-Webhook-Signature\<close> header
  (\<open>None\<close> when the request has none; \<^verbatim>\<open>c.Get\<close> then returns the empty string) and the body
  as \<^verbatim>\<open>BodyParser\<close> decodes it (\<open>None\<close> when it does not parse). It answers with an HTTP
  status and starts at most one background task.
\<close>

record WebhookPayload =
  wp_Type :: string
  wp_Table :: string
  wp_Record :: jmap
  wp_OldRecord :: jmap
  wp_Schema :: string
  wp_Timestamp :: string

datatype dispatch =
    Go_processRecordWithRetry string jmap
  | Go_processDeleteWithRetry string jmap
  | NoTask

definition header_Get :: "string option \<Rightarrow> string" where
  "header_Get h = (case h of None \<Rightarrow> '''' | Some v \<Rightarrow> v)"

definition verifySignature :: "string \<Rightarrow> string \<Rightarrow> bool" where
  "verifySignature Secret signature = (if signature = '''' then False else signature = Secret)"

definition HandleWebhook :: "string \<Rightarrow> string option \<Rightarrow> WebhookPayload option \<Rightarrow> nat \<times> dispatch" where
  "HandleWebhook Secret header body =
     (if Secret \<noteq> '''' \<and> \<not> verifySignature Secret (header_Get header) then (401, NoTask)
      else
        (case body of
           None \<Rightarrow> (400, NoTask)
         | Some payload \<Rightarrow>
             (if wp_Type payload = ''INSERT'' \<or> wp_Type payload = ''UPDATE''
              then (200, Go_processRecordWithRetry (wp_Table payload) (wp_Record payload))
              else if wp_Type payload = ''DELETE''
              then (200, Go_processDeleteWithRetry (wp_Table payload) (wp_OldRecord payload))
              else (200, NoTask))))"

text \<open>A webhook payload for an inserted drug row.\<close>

definition sample_insert :: WebhookPayload where
  "sample_insert =
     \<lparr>wp_Type = ''INSERT'', wp_Table = ''drugs'',
      wp_Record = [(''drug_id'', JString ''D1''), (''name'', JString ''Aspirin'')],
      wp_OldRecord = [], wp_Schema = ''public'', wp_Timestamp = ''2024-05-01T12:00:00Z''\<rparr>"

section \<open>Transactions and their hashes\<close>

text \<open>
  The functions of blockchain.go take two library functions as parameters: \<open>H\<close>, the hex
  text of the SHA-256 digest of a byte string, and \<open>J\<close>, \<^verbatim>\<open>json.Marshal\<close> on a map. The
  theorems hold for every \<open>H\<close> and \<open>J\<close>. \<^verbatim>\<open>fmt.Sprintf("%s%s%s", a, b, c)\<close> is \<open>a @ b @ c\<close>.
\<close>

record Transaction =
  tx_Timestamp :: string
  tx_Data :: jmap
  tx_PreviousHash :: string
  tx_Hash :: string

definition CalculateHash :: "(string \<Rightarrow> string) \<Rightarrow> (jmap \<Rightarrow> string) \<Rightarrow> Transaction \<Rightarrow> Transaction" where
  "CalculateHash H J tx =
     (let dataJSON = J (tx_Data tx);
          data = tx_Timestamp tx @ dataJSON @ tx_PreviousHash tx
      in tx\<lparr>tx_Hash := H data\<rparr>)"

definition NewTransaction :: "(string \<Rightarrow> string) \<Rightarrow> (jmap \<Rightarrow> string) \<Rightarrow> string \<Rightarrow> jmap \<Rightarrow> Transaction" where
  "NewTransaction H J now data =
     CalculateHash H J
       \<lparr>tx_Timestamp = now, tx_Data = data, tx_PreviousHash = '''', tx_Hash = ''''\<rparr>"

definition SetPreviousHash ::
  "(string \<Rightarrow> string) \<Rightarrow> (jmap \<Rightarrow> string) \<Rightarrow> string \<Rightarrow> Transaction \<Rightarrow> Transaction" where
  "SetPreviousHash H J previousHash tx = CalculateHash H J (tx\<lparr>tx_PreviousHash := previousHash\<rparr>)"

text \<open>\<^verbatim>\<open>ValidateTransaction\<close>; \<open>now\<close> is what \<^verbatim>\<open>time.Now()\<close> reads inside the
  \<^verbatim>\<open>NewTransaction\<close> it calls.\<close>

definition ValidateTransaction ::
  "(string \<Rightarrow> string) \<Rightarrow> (jmap \<Rightarrow> string) \<Rightarrow> string \<Rightarrow> string \<Rightarrow> jmap \<Rightarrow> bool" where
  "ValidateTransaction H J now txHash txData =
     (let tx = NewTransaction H J now txData;
          tx' = (case as_string txData ''previous_hash'' of
                   Some prevHash \<Rightarrow> SetPreviousHash H J prevHash tx
                 | None \<Rightarrow> tx)
      in tx_Hash tx' = txHash)"

text \<open>\<^verbatim>\<open>GenerateTransactionHash\<close>: \<open>uuid\<close> is the identifier \<^verbatim>\<open>uuid.New()\<close> draws and
  \<open>timestamp\<close> the clock reading in nanoseconds.\<close>

definition GenerateTransactionHash ::
  "(string \<Rightarrow> string) \<Rightarrow> (jmap \<Rightarrow> string) \<Rightarrow> string \<Rightarrow> string \<Rightarrow> jmap \<Rightarrow> string" where
  "GenerateTransactionHash H J uuid timestamp data = H (uuid @ timestamp @ J data)"

text \<open>Reading a map at a key that may be missing gives \<^verbatim>\<open>nil\<close>.\<close>

definition map_get :: "jmap \<Rightarrow> string \<Rightarrow> jvalue" where
  "map_get m k = (case map_of m k of Some v \<Rightarrow> v | None \<Rightarrow> JNull)"

fun first_missing :: "string list \<Rightarrow> jmap \<Rightarrow> string option" where
  "first_missing [] m = None"
| "first_missing (field # rest) m =
     (if map_of m field = None then Some field else first_missing rest m)"

record DrugTransaction =
  dt_Transaction :: Transaction
  dt_DrugID :: string

definition NewDrugTransaction ::
  "(string \<Rightarrow> string) \<Rightarrow> (jmap \<Rightarrow> string) \<Rightarrow> clock \<Rightarrow> jmap \<Rightarrow> error + DrugTransaction" where
  "NewDrugTransaction H J clk drugData =
     (case first_missing [''drug_id'', ''manufacturer'', ''name'', ''batch_number'',
                          ''manufacture_date'', ''expiry_date''] drugData of
        Some field \<Rightarrow> Inl (MissingRequiredField field)
      | None \<Rightarrow>
          (let txData =
                 [(''drug_id'', map_get drugData ''drug_id''),
                  (''manufacturer_id'', map_get drugData ''manufacturer''),
                  (''name'', map_get drugData ''name''),
                  (''batch_number'', map_get drugData ''batch_number''),
                  (''manufacture_date'', map_get drugData ''manufacture_date''),
                  (''expiry_date'', map_get drugData ''expiry_date''),
                  (''status'', JString ''created''),
                  (''created_at'', JString (clk 0))]
           in (case as_string drugData ''drug_id'' of
                 None \<Rightarrow> Inl Panic
               | Some drugID \<Rightarrow>
                   Inr \<lparr>dt_Transaction = NewTransaction H J (clk 1) txData,
                        dt_DrugID = drugID\<rparr>)))"

record ShipmentTransaction =
  sht_Transaction :: Transaction
  sht_ShipmentID :: string

definition NewShipmentTransaction ::
  "(string \<Rightarrow> string) \<Rightarrow> (jmap \<Rightarrow> string) \<Rightarrow> clock \<Rightarrow> jmap \<Rightarrow> error + ShipmentTransaction" where
  "NewShipmentTransaction H J clk shipmentData =
     (if map_of shipmentData ''shipment_id'' = None
      then Inl (MissingRequiredField ''shipment_id'')
      else (case as_string shipmentData ''shipment_id'' of
              None \<Rightarrow> Inl Panic
            | Some shipmentID \<Rightarrow>
                Inr \<lparr>sht_Transaction = NewTransaction H J (clk 0) shipmentData,
                     sht_ShipmentID = shipmentID\<rparr>))"

text \<open>Stand-ins for the two library functions in the examples: a hash without collisions
  and a serialiser that writes the keys and the string values.\<close>

definition toy_hash :: "string \<Rightarrow> string" where
  "toy_hash s = ''#'' @ s"

definition toy_marshal :: "jmap \<Rightarrow> string" where
  "toy_marshal m =
     concat (map (\<lambda>kv. fst kv @ ''='' @ (case snd kv of JString s \<Rightarrow> s | _ \<Rightarrow> ''?'') @ '';'') m)"

text \<open>The data of a sample transaction.\<close>

definition sample_data :: jmap where
  "sample_data = [(''drug_id'', JString ''D1''), (''name'', JString ''Aspirin'')]"

section \<open>The blockchain service\<close>

text \<open>
  \<^verbatim>\<open>BlockchainService.CreateTransaction\<close> adds the type, a timestamp and the hash to the
  data and appends it to the chain. With a reliable store the append returns no error, so
  the result is the hash and the new state. \<open>uuid\<close> is the identifier drawn for the hash.
\<close>

definition CreateTransaction ::
  "(string \<Rightarrow> string) \<Rightarrow> (jmap \<Rightarrow> string) \<Rightarrow> clock \<Rightarrow> string \<Rightarrow> string \<Rightarrow> jmap \<Rightarrow> world
     \<Rightarrow> string \<times> world" where
  "CreateTransaction H J clk uuid txType data w =
     (let data1 = AList.update ''tx_type'' (JString txType) data;
          data2 = AList.update ''timestamp'' (JString (clk 0)) data1;
          txHash = GenerateTransactionHash H J uuid (clk 1) data2;
          data3 = AList.update ''tx_hash'' (JString txHash) data2
      in (txHash, AddTransactionToBlockchain (shift 2 clk) data3 txHash w))"

definition VerifyTransaction ::
  "(string \<Rightarrow> string) \<Rightarrow> (jmap \<Rightarrow> string) \<Rightarrow> clock \<Rightarrow> string \<Rightarrow> world \<Rightarrow> (error + bool) \<times> world" where
  "VerifyTransaction H J clk txID w =
     (let (ledger, w1) = GetBlockchainLedger (clk 0) w
      in (case find_first (\<lambda>block. blk_TxHash block = txID) (bl_Blocks ledger) of
            Some block \<Rightarrow>
              (case blk_TxData block of
                 JObject txData \<Rightarrow> (Inr (ValidateTransaction H J (clk 1) txID txData), w1)
               | _ \<Rightarrow> (Inl InvalidTransactionDataFormat, w1))
          | None \<Rightarrow> (Inl (TransactionNotFound txID), w1)))"

definition RecordDrugStatusUpdate ::
  "(string \<Rightarrow> string) \<Rightarrow> (jmap \<Rightarrow> string) \<Rightarrow> clock \<Rightarrow> string \<Rightarrow> string \<Rightarrow> string \<Rightarrow> string
     \<Rightarrow> string \<Rightarrow> world \<Rightarrow> string \<times> world" where
  "RecordDrugStatusUpdate H J clk uuid drugID status updatedBy timestamp w =
     CreateTransaction H J clk uuid ''drug_update''
       [(''drug_id'', JString drugID), (''status'', JString status),
        (''updated_by'', JString updatedBy), (''updated_at'', JString timestamp)] w"

section \<open>Typed access to the external store\<close>

text \<open>
  The rows of the store as the structs of package models. A \<^verbatim>\<open>time.Time\<close> is kept as its
  RFC 3339 text. Decoding a row follows \<^verbatim>\<open>json.Unmarshal\<close>: a missing or null column
  leaves the zero value, a string is taken, any other shape is an error.
\<close>

record Drug =
  d_ID :: string
  d_ManufacturerID :: string
  d_Name :: string
  d_Description :: string
  d_Status :: string
  d_VerificationHash :: string
  d_BlockchainTxID :: string
  d_CreatedAt :: string
  d_UpdatedAt :: string

record Shipment =
  sh_ID :: string
  sh_DrugID :: string
  sh_ManufacturerID :: string
  sh_DistributorID :: string
  sh_Status :: string
  sh_BlockchainTxID :: string
  sh_CreatedAt :: string
  sh_UpdatedAt :: string

record DrugStatusUpdate =
  du_ID :: string
  du_DrugID :: string
  du_Status :: string
  du_Location :: string
  du_UpdatedBy :: string
  du_BlockchainTxID :: string
  du_Timestamp :: string

record ShipmentStatusUpdate =
  su_ID :: string
  su_ShipmentID :: string
  su_Status :: string
  su_Location :: string
  su_UpdatedBy :: string
  su_BlockchainTxID :: string
  su_Timestamp :: string

definition zero_time :: string where
  "zero_time = ''0001-01-01T00:00:00Z''"

definition str_field :: "string \<Rightarrow> jmap \<Rightarrow> string \<Rightarrow> string option" where
  "str_field zero row k =
     (case map_of row k of
        None \<Rightarrow> Some zero
      | Some JNull \<Rightarrow> Some zero
      | Some (JString s) \<Rightarrow> Some s
      | Some _ \<Rightarrow> None)"

definition decode_Drug :: "jmap \<Rightarrow> Drug option" where
  "decode_Drug row =
     (case (str_field '''' row ''id'', str_field '''' row ''manufacturer_id'',
            str_field '''' row ''name'', str_field '''' row ''description'',
            str_field '''' row ''status'', str_field '''' row ''verification_hash'',
            str_field '''' row ''blockchain_tx_id'', str_field zero_time row ''created_at'',
            str_field zero_time row ''updated_at'') of
        (Some i, Some m, Some n, Some ds, Some s, Some v, Some b, Some c, Some u) \<Rightarrow>
          Some \<lparr>d_ID = i, d_ManufacturerID = m, d_Name = n, d_Description = ds, d_Status = s,
                d_VerificationHash = v, d_BlockchainTxID = b, d_CreatedAt = c, d_UpdatedAt = u\<rparr>
      | _ \<Rightarrow> None)"

definition encode_Drug :: "Drug \<Rightarrow> jmap" where
  "encode_Drug drug =
     [(''id'', JString (d_ID drug)), (''manufacturer_id'', JString (d_ManufacturerID drug)),
      (''name'', JString (d_Name drug)), (''description'', JString (d_Description drug)),
      (''status'', JString (d_Status drug)),
      (''verification_hash'', JString (d_VerificationHash drug)),
      (''blockchain_tx_id'', JString (d_BlockchainTxID drug)),
      (''created_at'', JString (d_CreatedAt drug)), (''updated_at'', JString (d_UpdatedAt drug))]"

definition decode_Shipment :: "jmap \<Rightarrow> Shipment option" where
  "decode_Shipment row =
     (case (str_field '''' row ''id'', str_field '''' row ''drug_id'',
            str_field '''' row ''manufacturer_id'', str_field '''' row ''distributor_id'',
            str_field '''' row ''status'', str_field '''' row ''blockchain_tx_id'',
            str_field zero_time row ''created_at'', str_field zero_time row ''updated_at'') of
        (Some i, Some d, Some m, Some x, Some s, Some b, Some c, Some u) \<Rightarrow>
          Some \<lparr>sh_ID = i, sh_DrugID = d, sh_ManufacturerID = m, sh_DistributorID = x,
                sh_Status = s, sh_BlockchainTxID = b, sh_CreatedAt = c, sh_UpdatedAt = u\<rparr>
      | _ \<Rightarrow> None)"

definition encode_Shipment :: "Shipment \<Rightarrow> jmap" where
  "encode_Shipment shipment =
     [(''id'', JString (sh_ID shipment)), (''drug_id'', JString (sh_DrugID shipment)),
      (''manufacturer_id'', JString (sh_ManufacturerID shipment)),
      (''distributor_id'', JString (sh_DistributorID shipment)),
      (''status'', JString (sh_Status shipment)),
      (''blockchain_tx_id'', JString (sh_BlockchainTxID shipment)),
      (''created_at'', JString (sh_CreatedAt shipment)),
      (''updated_at'', JString (sh_UpdatedAt shipment))]"

definition encode_DrugStatusUpdate :: "DrugStatusUpdate \<Rightarrow> jmap" where
  "encode_DrugStatusUpdate u =
     [(''id'', JString (du_ID u)), (''drug_id'', JString (du_DrugID u)),
      (''status'', JString (du_Status u)), (''location'', JString (du_Location u)),
      (''updated_by'', JString (du_UpdatedBy u)),
      (''blockchain_tx_id'', JString (du_BlockchainTxID u)),
      (''timestamp'', JString (du_Timestamp u))]"

definition encode_ShipmentStatusUpdate :: "ShipmentStatusUpdate \<Rightarrow> jmap" where
  "encode_ShipmentStatusUpdate u =
     [(''id'', JString (su_ID u)), (''shipment_id'', JString (su_ShipmentID u)),
      (''status'', JString (su_Status u)), (''location'', JString (su_Location u)),
      (''updated_by'', JString (su_UpdatedBy u)),
      (''blockchain_tx_id'', JString (su_BlockchainTxID u)),
      (''timestamp'', JString (su_Timestamp u))]"

definition GetDrug :: "string \<Rightarrow> world \<Rightarrow> error + Drug" where
  "GetDrug drugID w =
     (case Supabase_Select (Supabase w) ''drugs'' [(''id'', drugID)] of
        [] \<Rightarrow> Inl (DbDrugNotFound drugID)
      | row # _ \<Rightarrow> (case decode_Drug row of None \<Rightarrow> Inl DbDecodeError | Some drug \<Rightarrow> Inr drug))"

definition InsertDrug :: "Drug \<Rightarrow> world \<Rightarrow> world" where
  "InsertDrug drug w = w\<lparr>Supabase := Supabase_Insert (Supabase w) ''drugs'' (encode_Drug drug)\<rparr>"

definition UpdateDrug :: "Drug \<Rightarrow> world \<Rightarrow> world" where
  "UpdateDrug drug w =
     w\<lparr>Supabase := Supabase_Update (Supabase w) ''drugs'' (d_ID drug) (encode_Drug drug)\<rparr>"

definition InsertDrugStatusUpdate :: "DrugStatusUpdate \<Rightarrow> world \<Rightarrow> world" where
  "InsertDrugStatusUpdate u w =
     w\<lparr>Supabase := Supabase_Insert (Supabase w) ''drug_status_updates''
                      (encode_DrugStatusUpdate u)\<rparr>"

definition GetShipment :: "string \<Rightarrow> world \<Rightarrow> error + Shipment" where
  "GetShipment shipmentID w =
     (case Supabase_Select (Supabase w) ''shipments'' [(''id'', shipmentID)] of
        [] \<Rightarrow> Inl (DbShipmentNotFound shipmentID)
      | row # _ \<Rightarrow>
          (case decode_Shipment row of
             None \<Rightarrow> Inl DbDecodeError
           | Some shipment \<Rightarrow> Inr shipment))"

definition InsertShipment :: "Shipment \<Rightarrow> world \<Rightarrow> world" where
  "InsertShipment shipment w =
     w\<lparr>Supabase := Supabase_Insert (Supabase w) ''shipments'' (encode_Shipment shipment)\<rparr>"

definition UpdateShipment :: "Shipment \<Rightarrow> world \<Rightarrow> world" where
  "UpdateShipment shipment w =
     w\<lparr>Supabase := Supabase_Update (Supabase w) ''shipments'' (sh_ID shipment)
                      (encode_Shipment shipment)\<rparr>"

definition InsertShipmentStatusUpdate :: "ShipmentStatusUpdate \<Rightarrow> world \<Rightarrow> world" where
  "InsertShipmentStatusUpdate u w =
     w\<lparr>Supabase := Supabase_Insert (Supabase w) ''shipment_status_updates''
                      (encode_ShipmentStatusUpdate u)\<rparr>"

section \<open>The ledger manager (package manager)\<close>

text \<open>
  The loop \<^verbatim>\<open>for i, x := range xs { if p(x) { xs[i] = f(xs[i]); break } }\<close> with nothing
  after it that looks at whether an element matched: the list is left as it is when the
  loop falls through.
\<close>

definition modify_first :: "('a \<Rightarrow> bool) \<Rightarrow> ('a \<Rightarrow> 'a) \<Rightarrow> 'a list \<Rightarrow> 'a list" where
  "modify_first p f xs = (case update_first p f xs of None \<Rightarrow> xs | Some ys \<Rightarrow> ys)"

text \<open>What the manager's loops assign to a record they match.\<close>

definition set_drug_status :: "string \<Rightarrow> string \<Rightarrow> string \<Rightarrow> DrugRecord \<Rightarrow> DrugRecord" where
  "set_drug_status status timestamp details drug =
     drug\<lparr>dr_Status := status, dr_CurrentStatus := status,
          dr_History := dr_History drug @
            [\<lparr>st_Status = status, st_Timestamp = timestamp, st_Details = details\<rparr>]\<rparr>"

definition set_common_drug_status ::
  "string \<Rightarrow> string \<Rightarrow> string \<Rightarrow> CommonDrugRecord \<Rightarrow> CommonDrugRecord" where
  "set_common_drug_status status timestamp details drug =
     drug\<lparr>cd_Status := status, cd_CurrentStatus := status,
          cd_History := cd_History drug @
            [\<lparr>st_Status = status, st_Timestamp = timestamp, st_Details = details\<rparr>]\<rparr>"

definition set_shipment_status ::
  "string \<Rightarrow> string \<Rightarrow> string \<Rightarrow> ShipmentRecord \<Rightarrow> ShipmentRecord" where
  "set_shipment_status status timestamp details shipment =
     shipment\<lparr>sr_Status := status, sr_CurrentStatus := status,
          sr_History := sr_History shipment @
            [\<lparr>st_Status = status, st_Timestamp = timestamp, st_Details = details\<rparr>]\<rparr>"

definition set_common_shipment_status ::
  "string \<Rightarrow> string \<Rightarrow> string \<Rightarrow> CommonShipmentRecord \<Rightarrow> CommonShipmentRecord" where
  "set_common_shipment_status status timestamp details shipment =
     shipment\<lparr>cs_Status := status, cs_CurrentStatus := status,
          cs_History := cs_History shipment @
            [\<lparr>st_Status = status, st_Timestamp = timestamp, st_Details = details\<rparr>]\<rparr>"

record UpdateShipmentStatusParams =
  usp_ShipmentID :: string
  usp_Status :: string
  usp_UserID :: string
  usp_Location :: string

record RevertDrugParams =
  rdp_DrugID :: string
  rdp_ManufacturerID :: string
  rdp_Reason :: string
  rdp_UserID :: string
  rdp_Location :: string

text \<open>
  \<^verbatim>\<open>LedgerManager.UpdateShipmentStatus\<close> of package manager. \<open>clk 0\<close> is \<^verbatim>\<open>now\<close>; the two
  chain transactions take the clock readings from 1 and from 10 on and the identifiers
  \<open>uuid 0\<close> and \<open>uuid 1\<close>. The result is the error (\<open>None\<close> is \<^verbatim>\<open>nil\<close>) and the state the call
  leaves, also when it returns early.
\<close>

definition manager_UpdateShipmentStatus ::
  "(string \<Rightarrow> string) \<Rightarrow> (jmap \<Rightarrow> string) \<Rightarrow> clock \<Rightarrow> (nat \<Rightarrow> string) \<Rightarrow> UpdateShipmentStatusParams
     \<Rightarrow> world \<Rightarrow> error option \<times> world" where
  "manager_UpdateShipmentStatus H J clk uuid params w =
     (let timestamp = clk 0;
          txData = [(''shipment_id'', JString (usp_ShipmentID params)),
                    (''status'', JString (usp_Status params)),
                    (''updated_by'', JString (usp_UserID params)),
                    (''updated_at'', JString timestamp)];
          (txHash, w1) = CreateTransaction H J (shift 1 clk) (uuid 0) ''shipment_update'' txData w
      in (case GetShipment (usp_ShipmentID params) w1 of
            Inl e \<Rightarrow> (Some e, w1)
          | Inr shipment \<Rightarrow>
              (let (manufacturerLedger, w2) =
                     GetManufacturerLedger (clk 9) (sh_ManufacturerID shipment) w1;
                   shipments1 =
                     modify_first (\<lambda>s. sr_ShipmentID s = usp_ShipmentID params)
                       (set_shipment_status (usp_Status params) timestamp
                          (''Shipment status updated to '' @ usp_Status params))
                       (ml_Shipments manufacturerLedger);
                   drugs1 =
                     (if usp_Status params = ''delivered''
                      then modify_first (\<lambda>drug. dr_DrugID drug = sh_DrugID shipment)
                             (set_drug_status ''delivered'' timestamp
                                (''Drug delivered via shipment '' @ usp_ShipmentID params))
                             (ml_Drugs manufacturerLedger)
                      else ml_Drugs manufacturerLedger);
                   w3 = SaveManufacturerLedger
                          (manufacturerLedger\<lparr>ml_Shipments := shipments1, ml_Drugs := drugs1,
                                               ml_LastUpdated := timestamp\<rparr>) w2;
                   commonLedger = GetCommonLedger w3;
                   cshipments1 =
                     modify_first (\<lambda>s. cs_ShipmentID s = usp_ShipmentID params)
                       (set_common_shipment_status (usp_Status params) timestamp
                          (''Shipment status updated to '' @ usp_Status params))
                       (cl_Shipments commonLedger);
                   cdrugs1 =
                     (if usp_Status params = ''delivered''
                      then modify_first (\<lambda>drug. cd_DrugID drug = sh_DrugID shipment)
                             (set_common_drug_status ''delivered'' timestamp
                                (''Drug delivered via shipment '' @ usp_ShipmentID params))
                             (cl_Drugs commonLedger)
                      else cl_Drugs commonLedger);
                   w4 = SaveCommonLedger
                          (commonLedger\<lparr>cl_Shipments := cshipments1, cl_Drugs := cdrugs1,
                                         cl_LastUpdated := timestamp\<rparr>) w3;
                   w5 = UpdateShipment
                          (shipment\<lparr>sh_Status := usp_Status params, sh_BlockchainTxID := txHash,
                                    sh_UpdatedAt := timestamp\<rparr>) w4;
                   w6 = InsertShipmentStatusUpdate
                          \<lparr>su_ID = '''', su_ShipmentID = usp_ShipmentID params,
                           su_Status = usp_Status params, su_Location = usp_Location params,
                           su_UpdatedBy = usp_UserID params, su_BlockchainTxID = txHash,
                           su_Timestamp = timestamp\<rparr> w5
               in if usp_Status params = ''delivered''
                  then
                    (let (drugStatusTxHash, w7) =
                           RecordDrugStatusUpdate H J (shift 10 clk) (uuid 1) (sh_DrugID shipment)
                             ''delivered'' (usp_UserID params) timestamp w6
                     in (case GetDrug (sh_DrugID shipment) w7 of
                           Inl e \<Rightarrow> (Some e, w7)
                         | Inr drug \<Rightarrow>
                             (let w8 = UpdateDrug
                                         (drug\<lparr>d_Status := ''delivered'',
                                               d_BlockchainTxID := drugStatusTxHash,
                                               d_UpdatedAt := timestamp\<rparr>) w7;
                                  w9 = InsertDrugStatusUpdate
                                         \<lparr>du_ID = '''', du_DrugID = sh_DrugID shipment,
                                          du_Status = ''delivered'',
                                          du_Location = usp_Location params,
                                          du_UpdatedBy = usp_UserID params,
                                          du_BlockchainTxID = drugStatusTxHash,
                                          du_Timestamp = timestamp\<rparr> w8
                              in (None, w9))))
                  else (None, w6))))"

text \<open>\<^verbatim>\<open>LedgerManager.RevertDrug\<close> of package manager. Only the manufacturer ledger's
  record has a \<^verbatim>\<open>reverted_at\<close>.\<close>

definition manager_RevertDrug ::
  "(string \<Rightarrow> string) \<Rightarrow> (jmap \<Rightarrow> string) \<Rightarrow> clock \<Rightarrow> (nat \<Rightarrow> string) \<Rightarrow> RevertDrugParams
     \<Rightarrow> world \<Rightarrow> error option \<times> world" where
  "manager_RevertDrug H J clk uuid params w =
     (let timestamp = clk 0;
          txData = [(''drug_id'', JString (rdp_DrugID params)),
                    (''reason'', JString (rdp_Reason params)),
                    (''updated_by'', JString (rdp_UserID params)),
                    (''updated_at'', JString timestamp)];
          (txHash, w1) = CreateTransaction H J (shift 1 clk) (uuid 0) ''drug_revert'' txData w
      in (case GetDrug (rdp_DrugID params) w1 of
            Inl e \<Rightarrow> (Some e, w1)
          | Inr drug \<Rightarrow>
              (let (manufacturerLedger, w2) =
                     GetManufacturerLedger (clk 9) (d_ManufacturerID drug) w1;
                   drugs1 =
                     modify_first (\<lambda>d. dr_DrugID d = rdp_DrugID params)
                       (\<lambda>d. (set_drug_status ''reverted'' timestamp
                                (''Drug reverted: '' @ rdp_Reason params) d)
                             \<lparr>dr_RevertedAt := timestamp\<rparr>)
                       (ml_Drugs manufacturerLedger);
                   w3 = SaveManufacturerLedger
                          (manufacturerLedger\<lparr>ml_Drugs := drugs1, ml_LastUpdated := timestamp\<rparr>)
                          w2;
                   commonLedger = GetCommonLedger w3;
                   cdrugs1 =
                     modify_first (\<lambda>d. cd_DrugID d = rdp_DrugID params)
                       (set_common_drug_status ''reverted'' timestamp
                          (''Drug reverted: '' @ rdp_Reason params))
                       (cl_Drugs commonLedger);
                   w4 = SaveCommonLedger
                          (commonLedger\<lparr>cl_Drugs := cdrugs1, cl_LastUpdated := timestamp\<rparr>) w3;
                   w5 = UpdateDrug
                          (drug\<lparr>d_Status := ''reverted'', d_BlockchainTxID := txHash,
                                d_UpdatedAt := timestamp\<rparr>) w4;
                   w6 = InsertDrugStatusUpdate
                          \<lparr>du_ID = '''', du_DrugID = rdp_DrugID params, du_Status = ''reverted'',
                           du_Location = rdp_Location params, du_UpdatedBy = rdp_UserID params,
                           du_BlockchainTxID = txHash, du_Timestamp = timestamp\<rparr> w5
               in (None, w6))))"

text \<open>\<^verbatim>\<open>LedgerManager.VerifyDrug\<close> of package manager.\<close>

definition manager_VerifyDrug ::
  "(string \<Rightarrow> string) \<Rightarrow> (jmap \<Rightarrow> string) \<Rightarrow> clock \<Rightarrow> string \<Rightarrow> world \<Rightarrow> (error + bool) \<times> world" where
  "manager_VerifyDrug H J clk drugID w =
     (case GetDrug drugID w of
        Inl e \<Rightarrow> (Inl e, w)
      | Inr drug \<Rightarrow>
          (let commonLedger = GetCommonLedger w
           in (case find_first (\<lambda>d. cd_DrugID d = drugID) (cl_Drugs commonLedger) of
                 None \<Rightarrow> (Inl (DrugNotInCommonLedger drugID), w)
               | Some commonDrug \<Rightarrow>
                   (if d_VerificationHash drug \<noteq> cd_VerificationHash commonDrug
                    then (Inr False, w)
                    else VerifyTransaction H J clk (d_BlockchainTxID drug) w))))"

text \<open>A state for the verification examples: drug D1 is in the store and in the common ledger
  with the same verification hash; its row names the chain transaction \<open>txid\<close>.\<close>

definition drug_row :: "string \<Rightarrow> string \<Rightarrow> jmap" where
  "drug_row vh txid =
     [(''id'', JString ''D1''), (''drug_id'', JString ''D1''),
      (''manufacturer_id'', JString ''M1''), (''name'', JString ''Aspirin''),
      (''status'', JString ''created''), (''verification_hash'', JString vh),
      (''blockchain_tx_id'', JString txid)]"

definition verify_world :: "string \<Rightarrow> string \<Rightarrow> Block list \<Rightarrow> world" where
  "verify_world vh txid blocks =
     empty_world
       \<lparr>BlockchainFile := Some \<lparr>bl_Blocks = blocks, bl_LastUpdated = ''2024-04-30T09:00:00Z'',
                                bl_BlockHeight = word_of_nat (length blocks)\<rparr>,
        Supabase := (\<lambda>table. if table = ''drugs'' then [drug_row vh txid] else []),
        CommonLedgerFile := sample_cl\<rparr>"

definition sample_block :: Block where
  "sample_block =
     \<lparr>blk_BlockHeight = 1, blk_TxHash = ''aa01'', blk_TxData = JObject sample_data,
      blk_Timestamp = ''2024-04-30T09:00:00Z'', blk_PreviousBlockHash = []\<rparr>"

text \<open>Auxiliary notions for the manager's operations: a row after its transaction id is
  written, the drugs of a ledger file that may not exist, and the data of the transactions
  the operations create.\<close>

definition patch_tx :: "string \<Rightarrow> jmap \<Rightarrow> jmap" where
  "patch_tx txHash row = merge_row row [(''blockchain_tx_id'', JString txHash)]"

definition drugs_of :: "ManufacturerLedger option \<Rightarrow> DrugRecord list" where
  "drugs_of f = (case f of None \<Rightarrow> [] | Some ledger \<Rightarrow> ml_Drugs ledger)"

text \<open>what CreateTransaction hands to the chain\<close>

definition tx_data :: "clock \<Rightarrow> string \<Rightarrow> string \<Rightarrow> jmap \<Rightarrow> jmap" where
  "tx_data clk txType txHash data =
     AList.update ''tx_hash'' (JString txHash)
       (AList.update ''timestamp'' (JString (clk 0))
          (AList.update ''tx_type'' (JString txType) data))"

definition shipment_update_data :: "clock \<Rightarrow> UpdateShipmentStatusParams \<Rightarrow> jmap" where
  "shipment_update_data clk params =
     [(''shipment_id'', JString (usp_ShipmentID params)),
      (''status'', JString (usp_Status params)),
      (''updated_by'', JString (usp_UserID params)),
      (''updated_at'', JString (clk 0))]"

definition drug_update_data :: "string \<Rightarrow> string \<Rightarrow> string \<Rightarrow> string \<Rightarrow> jmap" where
  "drug_update_data drugID status updatedBy timestamp =
     [(''drug_id'', JString drugID), (''status'', JString status),
      (''updated_by'', JString updatedBy), (''updated_at'', JString timestamp)]"

text \<open>A state for the cascade examples: shipment S1 of drug D1 of manufacturer M1, in the store
  and in both ledgers.\<close>

definition shipment_row :: jmap where
  "shipment_row =
     [(''id'', JString ''S1''), (''shipment_id'', JString ''S1''), (''drug_id'', JString ''D1''),
      (''manufacturer_id'', JString ''M1''), (''distributor_id'', JString ''X1''),
      (''status'', JString ''created''), (''blockchain_tx_id'', JString ''bb02'')]"

definition sample_shipment :: Shipment where
  "sample_shipment =
     \<lparr>sh_ID = ''S1'', sh_DrugID = ''D1'', sh_ManufacturerID = ''M1'', sh_DistributorID = ''X1'',
      sh_Status = ''created'', sh_BlockchainTxID = ''bb02'', sh_CreatedAt = zero_time,
      sh_UpdatedAt = zero_time\<rparr>"

definition cascade_world :: world where
  "cascade_world =
     empty_world
       \<lparr>Supabase := (\<lambda>table. if table = ''drugs'' then [drug_row ''vh-D1'' ''aa01'']
                             else if table = ''shipments'' then [shipment_row] else []),
        ManufacturerLedgersDir := (\<lambda>m. if m = ''M1'' then Some sample_ml else None),
        CommonLedgerFile := sample_cl\<rparr>"

definition sample_update :: "string \<Rightarrow> UpdateShipmentStatusParams" where
  "sample_update status =
     \<lparr>usp_ShipmentID = ''S1'', usp_Status = status, usp_UserID = ''U1'',
      usp_Location = ''Basel''\<rparr>"

definition two_uuids :: "nat \<Rightarrow> string" where
  "two_uuids n = (if n = 0 then ''uuid-0'' else ''uuid-1'')"

section \<open>The ledger manager of package blockchain\<close>

text \<open>
  The second \<^verbatim>\<open>LedgerManager\<close> (package blockchain) works on the two ledgers only. Its
  operations are prefixed \<open>blockchain_\<close>. With reliable files each returns no error.
\<close>

record CreateDrugParams =
  cdp_DrugID :: string
  cdp_ManufacturerID :: string
  cdp_Name :: string
  cdp_Description :: string
  cdp_UserID :: string
  cdp_Location :: string

record CreateShipmentParams =
  csp_ShipmentID :: string
  csp_DrugID :: string
  csp_ManufacturerID :: string
  csp_DistributorID :: string
  csp_UserID :: string
  csp_Location :: string

definition to_common_drug :: "string \<Rightarrow> DrugRecord \<Rightarrow> CommonDrugRecord" where
  "to_common_drug manufacturerID drug =
     \<lparr>cd_DrugID = dr_DrugID drug, cd_ManufacturerID = manufacturerID,
      cd_Status = dr_Status drug, cd_CreatedAt = dr_CreatedAt drug,
      cd_CurrentStatus = dr_CurrentStatus drug, cd_History = dr_History drug,
      cd_VerificationHash = ''''\<rparr>"

definition to_common_shipment :: "string \<Rightarrow> ShipmentRecord \<Rightarrow> CommonShipmentRecord" where
  "to_common_shipment manufacturerID shipment =
     \<lparr>cs_ShipmentID = sr_ShipmentID shipment, cs_DrugID = sr_DrugID shipment,
      cs_ManufacturerID = manufacturerID, cs_DistributorID = '''',
      cs_Status = sr_Status shipment, cs_CreatedAt = sr_CreatedAt shipment,
      cs_CurrentStatus = sr_CurrentStatus shipment, cs_History = sr_History shipment\<rparr>"

text \<open>One round of the outer loops of \<^verbatim>\<open>SyncManufacturerLedger\<close>: the common record with the
  id is replaced by the manufacturer's record, or the record is appended.\<close>

definition sync_drug :: "string \<Rightarrow> DrugRecord \<Rightarrow> CommonDrugRecord list \<Rightarrow> CommonDrugRecord list" where
  "sync_drug manufacturerID drug commonDrugs =
     (case update_first (\<lambda>commonDrug. cd_DrugID commonDrug = dr_DrugID drug)
             (\<lambda>commonDrug. to_common_drug manufacturerID drug) commonDrugs of
        Some replaced \<Rightarrow> replaced
      | None \<Rightarrow> commonDrugs @ [to_common_drug manufacturerID drug])"

definition sync_shipment ::
  "string \<Rightarrow> ShipmentRecord \<Rightarrow> CommonShipmentRecord list \<Rightarrow> CommonShipmentRecord list" where
  "sync_shipment manufacturerID shipment commonShipments =
     (case update_first (\<lambda>commonShipment. cs_ShipmentID commonShipment = sr_ShipmentID shipment)
             (\<lambda>commonShipment. to_common_shipment manufacturerID shipment) commonShipments of
        Some replaced \<Rightarrow> replaced
      | None \<Rightarrow> commonShipments @ [to_common_shipment manufacturerID shipment])"

definition SyncManufacturerLedger :: "clock \<Rightarrow> string \<Rightarrow> world \<Rightarrow> error option \<times> world" where
  "SyncManufacturerLedger clk manufacturerID w =
     (let (manufacturerLedger, w1) = GetManufacturerLedger (clk 0) manufacturerID w;
          commonLedger = GetCommonLedger w1;
          drugs1 = fold (sync_drug manufacturerID) (ml_Drugs manufacturerLedger)
                     (cl_Drugs commonLedger);
          shipments1 = fold (sync_shipment manufacturerID) (ml_Shipments manufacturerLedger)
                         (cl_Shipments commonLedger)
      in (None, SaveCommonLedger (commonLedger\<lparr>cl_Drugs := drugs1, cl_Shipments := shipments1\<rparr>)
                  w1))"

definition blockchain_UpdateDrugStatus ::
  "clock \<Rightarrow> string \<Rightarrow> string \<Rightarrow> string \<Rightarrow> string \<Rightarrow> world \<Rightarrow> error option \<times> world" where
  "blockchain_UpdateDrugStatus clk manufacturerID drugID status details w =
     (let (manufacturerLedger, w1) = GetManufacturerLedger (clk 0) manufacturerID w;
          drugs1 = modify_first (\<lambda>drug. dr_DrugID drug = drugID)
                     (set_drug_status status (clk 1) details) (ml_Drugs manufacturerLedger);
          w2 = SaveManufacturerLedger (manufacturerLedger\<lparr>ml_Drugs := drugs1\<rparr>) w1;
          commonLedger = GetCommonLedger w2;
          cdrugs1 = modify_first (\<lambda>drug. cd_DrugID drug = drugID)
                      (set_common_drug_status status (clk 2) details) (cl_Drugs commonLedger)
      in (None, SaveCommonLedger (commonLedger\<lparr>cl_Drugs := cdrugs1\<rparr>) w2))"

definition blockchain_UpdateShipmentStatus ::
  "clock \<Rightarrow> string \<Rightarrow> string \<Rightarrow> string \<Rightarrow> string \<Rightarrow> world \<Rightarrow> error option \<times> world" where
  "blockchain_UpdateShipmentStatus clk manufacturerID shipmentID status details w =
     (let (manufacturerLedger, w1) = GetManufacturerLedger (clk 0) manufacturerID w;
          shipments1 = modify_first (\<lambda>shipment. sr_ShipmentID shipment = shipmentID)
                         (set_shipment_status status (clk 1) details)
                         (ml_Shipments manufacturerLedger);
          w2 = SaveManufacturerLedger (manufacturerLedger\<lparr>ml_Shipments := shipments1\<rparr>) w1;
          commonLedger = GetCommonLedger w2;
          cshipments1 = modify_first (\<lambda>shipment. cs_ShipmentID shipment = shipmentID)
                          (set_common_shipment_status status (clk 2) details)
                          (cl_Shipments commonLedger)
      in (None, SaveCommonLedger (commonLedger\<lparr>cl_Shipments := cshipments1\<rparr>) w2))"

definition blockchain_CreateDrug ::
  "clock \<Rightarrow> CreateDrugParams \<Rightarrow> world \<Rightarrow> (error + string) \<times> world" where
  "blockchain_CreateDrug clk params w =
     (let (manufacturerLedger, w1) = GetManufacturerLedger (clk 0) (cdp_ManufacturerID params) w;
          drugRecord =
            \<lparr>dr_DrugID = cdp_DrugID params, dr_Status = ''created'', dr_CreatedAt = clk 1,
             dr_RevertedAt = '''', dr_CurrentStatus = ''created'',
             dr_History = [\<lparr>st_Status = ''created'', st_Timestamp = clk 2,
                             st_Details = ''Drug created''\<rparr>]\<rparr>;
          w2 = SaveManufacturerLedger
                 (manufacturerLedger\<lparr>ml_Drugs := ml_Drugs manufacturerLedger @ [drugRecord],
                                      ml_LastUpdated := clk 3\<rparr>) w1;
          commonLedger = GetCommonLedger w2;
          commonDrugRecord =
            \<lparr>cd_DrugID = cdp_DrugID params, cd_ManufacturerID = cdp_ManufacturerID params,
             cd_Status = ''created'', cd_CreatedAt = clk 4, cd_CurrentStatus = ''created'',
             cd_History = [\<lparr>st_Status = ''created'', st_Timestamp = clk 5,
                             st_Details = ''Drug created''\<rparr>],
             cd_VerificationHash = ''''\<rparr>
      in (Inr (cdp_DrugID params),
          SaveCommonLedger
            (commonLedger\<lparr>cl_Drugs := cl_Drugs commonLedger @ [commonDrugRecord],
                           cl_LastUpdated := clk 6\<rparr>) w2))"

definition blockchain_CreateShipment ::
  "clock \<Rightarrow> CreateShipmentParams \<Rightarrow> world \<Rightarrow> (error + string) \<times> world" where
  "blockchain_CreateShipment clk params w =
     (let (manufacturerLedger, w1) = GetManufacturerLedger (clk 0) (csp_ManufacturerID params) w;
          shipmentRecord =
            \<lparr>sr_ShipmentID = csp_ShipmentID params, sr_DrugID = csp_DrugID params,
             sr_Status = ''created'', sr_CreatedAt = clk 1, sr_CurrentStatus = ''created'',
             sr_History = [\<lparr>st_Status = ''created'', st_Timestamp = clk 2,
                             st_Details = ''Shipment created''\<rparr>]\<rparr>;
          w2 = SaveManufacturerLedger
                 (manufacturerLedger
                    \<lparr>ml_Shipments := ml_Shipments manufacturerLedger @ [shipmentRecord],
                     ml_LastUpdated := clk 3\<rparr>) w1;
          commonLedger = GetCommonLedger w2;
          commonShipmentRecord =
            \<lparr>cs_ShipmentID = csp_ShipmentID params, cs_DrugID = csp_DrugID params,
             cs_ManufacturerID = csp_ManufacturerID params,
             cs_DistributorID = csp_DistributorID params, cs_Status = ''created'',
             cs_CreatedAt = clk 4, cs_CurrentStatus = ''created'',
             cs_History = [\<lparr>st_Status = ''created'', st_Timestamp = clk 5,
                             st_Details = ''Shipment created''\<rparr>]\<rparr>
      in (Inr (csp_ShipmentID params),
          SaveCommonLedger
            (commonLedger\<lparr>cl_Shipments := cl_Shipments commonLedger @ [commonShipmentRecord],
                           cl_LastUpdated := clk 6\<rparr>) w2))"

definition blockchain_RevertDrug :: "clock \<Rightarrow> RevertDrugParams \<Rightarrow> world \<Rightarrow> error option \<times> world" where
  "blockchain_RevertDrug clk params w =
     (let (manufacturerLedger, w1) = GetManufacturerLedger (clk 0) (rdp_ManufacturerID params) w;
          drugs1 = modify_first (\<lambda>drug. dr_DrugID drug = rdp_DrugID params)
                     (\<lambda>drug. (set_drug_status ''reverted'' (clk 2) (rdp_Reason params) drug)
                                \<lparr>dr_RevertedAt := clk 1\<rparr>)
                     (ml_Drugs manufacturerLedger);
          w2 = SaveManufacturerLedger (manufacturerLedger\<lparr>ml_Drugs := drugs1\<rparr>) w1;
          commonLedger = GetCommonLedger w2;
          cdrugs1 = modify_first (\<lambda>drug. cd_DrugID drug = rdp_DrugID params)
                      (set_common_drug_status ''reverted'' (clk 3) (rdp_Reason params))
                      (cl_Drugs commonLedger)
      in (None, SaveCommonLedger (commonLedger\<lparr>cl_Drugs := cdrugs1\<rparr>) w2))"

section \<open>Creating drugs and shipments through the manager (package manager)\<close>

definition generateVerificationHash :: "(string \<Rightarrow> string) \<Rightarrow> string \<Rightarrow> string \<Rightarrow> string \<Rightarrow> string" where
  "generateVerificationHash H drugID manufacturerID timestamp =
     H (drugID @ '':'' @ manufacturerID @ '':'' @ timestamp)"

definition manager_CreateDrug ::
  "(string \<Rightarrow> string) \<Rightarrow> (jmap \<Rightarrow> string) \<Rightarrow> clock \<Rightarrow> (nat \<Rightarrow> string) \<Rightarrow> CreateDrugParams
     \<Rightarrow> world \<Rightarrow> (error + string) \<times> world" where
  "manager_CreateDrug H J clk uuid params w =
     (let timestamp = clk 0;
          verificationHash =
            generateVerificationHash H (cdp_DrugID params) (cdp_ManufacturerID params) timestamp;
          txData = [(''drug_id'', JString (cdp_DrugID params)),
                    (''manufacturer_id'', JString (cdp_ManufacturerID params)),
                    (''name'', JString (cdp_Name params)),
                    (''description'', JString (cdp_Description params)),
                    (''verification_hash'', JString verificationHash),
                    (''created_at'', JString timestamp)];
          (txHash, w1) = CreateTransaction H J (shift 1 clk) (uuid 0) ''drug_create'' txData w;
          (manufacturerLedger, w2) = GetManufacturerLedger (clk 9) (cdp_ManufacturerID params) w1;
          history = [\<lparr>st_Status = ''created'', st_Timestamp = timestamp,
                      st_Details = ''Drug created''\<rparr>];
          drugRecord =
            \<lparr>dr_DrugID = cdp_DrugID params, dr_Status = ''created'', dr_CreatedAt = timestamp,
             dr_RevertedAt = '''', dr_CurrentStatus = ''created'', dr_History = history\<rparr>;
          w3 = SaveManufacturerLedger
                 (manufacturerLedger\<lparr>ml_Drugs := ml_Drugs manufacturerLedger @ [drugRecord],
                                      ml_LastUpdated := timestamp\<rparr>) w2;
          commonLedger = GetCommonLedger w3;
          commonDrugRecord =
            \<lparr>cd_DrugID = cdp_DrugID params, cd_ManufacturerID = cdp_ManufacturerID params,
             cd_Status = ''created'', cd_CreatedAt = timestamp, cd_CurrentStatus = ''created'',
             cd_History = history, cd_VerificationHash = verificationHash\<rparr>;
          w4 = SaveCommonLedger
                 (commonLedger\<lparr>cl_Drugs := cl_Drugs commonLedger @ [commonDrugRecord],
                                cl_LastUpdated := timestamp\<rparr>) w3;
          w5 = InsertDrug
                 \<lparr>d_ID = cdp_DrugID params, d_ManufacturerID = cdp_ManufacturerID params,
                  d_Name = cdp_Name params, d_Description = cdp_Description params,
                  d_Status = ''created'', d_VerificationHash = verificationHash,
                  d_BlockchainTxID = txHash, d_CreatedAt = timestamp,
                  d_UpdatedAt = timestamp\<rparr> w4;
          w6 = InsertDrugStatusUpdate
                 \<lparr>du_ID = '''', du_DrugID = cdp_DrugID params, du_Status = ''created'',
                  du_Location = cdp_Location params, du_UpdatedBy = cdp_UserID params,
                  du_BlockchainTxID = txHash, du_Timestamp = timestamp\<rparr> w5
      in (Inr verificationHash, w6))"

definition manager_CreateShipment ::
  "(string \<Rightarrow> string) \<Rightarrow> (jmap \<Rightarrow> string) \<Rightarrow> clock \<Rightarrow> (nat \<Rightarrow> string) \<Rightarrow> CreateShipmentParams
     \<Rightarrow> world \<Rightarrow> (error + string) \<times> world" where
  "manager_CreateShipment H J clk uuid params w =
     (let timestamp = clk 0;
          txData = [(''shipment_id'', JString (csp_ShipmentID params)),
                    (''drug_id'', JString (csp_DrugID params)),
                    (''manufacturer_id'', JString (csp_ManufacturerID params)),
                    (''distributor_id'', JString (csp_DistributorID params)),
                    (''created_at'', JString timestamp)];
          (txHash, w1) = CreateTransaction H J (shift 1 clk) (uuid 0) ''shipment_create'' txData w;
          (manufacturerLedger, w2) =
            GetManufacturerLedger (clk 9) (csp_ManufacturerID params) w1;
          history = [\<lparr>st_Status = ''created'', st_Timestamp = timestamp,
                      st_Details = ''Shipment created''\<rparr>];
          shipmentRecord =
            \<lparr>sr_ShipmentID = csp_ShipmentID params, sr_DrugID = csp_DrugID params,
             sr_Status = ''created'', sr_CreatedAt = timestamp, sr_CurrentStatus = ''created'',
             sr_History = history\<rparr>;
          details = ''Drug added to shipment '' @ csp_ShipmentID params;
          w3 = SaveManufacturerLedger
                 (manufacturerLedger
                    \<lparr>ml_Shipments := ml_Shipments manufacturerLedger @ [shipmentRecord],
                     ml_LastUpdated := timestamp,
                     ml_Drugs := modify_first (\<lambda>drug. dr_DrugID drug = csp_DrugID params)
                                   (set_drug_status ''in_transit'' timestamp details)
                                   (ml_Drugs manufacturerLedger)\<rparr>) w2;
          commonLedger = GetCommonLedger w3;
          commonShipmentRecord =
            \<lparr>cs_ShipmentID = csp_ShipmentID params, cs_DrugID = csp_DrugID params,
             cs_ManufacturerID = csp_ManufacturerID params,
             cs_DistributorID = csp_DistributorID params, cs_Status = ''created'',
             cs_CreatedAt = timestamp, cs_CurrentStatus = ''created'', cs_History = history\<rparr>;
          w4 = SaveCommonLedger
                 (commonLedger
                    \<lparr>cl_Shipments := cl_Shipments commonLedger @ [commonShipmentRecord],
                     cl_LastUpdated := timestamp,
                     cl_Drugs := modify_first (\<lambda>drug. cd_DrugID drug = csp_DrugID params)
                                   (set_common_drug_status ''in_transit'' timestamp details)
                                   (cl_Drugs commonLedger)\<rparr>) w3;
          w5 = InsertShipment
                 \<lparr>sh_ID = csp_ShipmentID params, sh_DrugID = csp_DrugID params,
                  sh_ManufacturerID = csp_ManufacturerID params,
                  sh_DistributorID = csp_DistributorID params, sh_Status = ''created'',
                  sh_BlockchainTxID = txHash, sh_CreatedAt = timestamp,
                  sh_UpdatedAt = timestamp\<rparr> w4;
          w6 = InsertShipmentStatusUpdate
                 \<lparr>su_ID = '''', su_ShipmentID = csp_ShipmentID params, su_Status = ''created'',
                  su_Location = csp_Location params, su_UpdatedBy = csp_UserID params,
                  su_BlockchainTxID = txHash, su_Timestamp = timestamp\<rparr> w5;
          (drugStatusTxHash, w7) =
            RecordDrugStatusUpdate H J (shift 10 clk) (uuid 1) (csp_DrugID params) ''in_transit''
              (csp_UserID params) timestamp w6
      in (case GetDrug (csp_DrugID params) w7 of
            Inl e \<Rightarrow> (Inl e, w7)
          | Inr drug \<Rightarrow>
              (let w8 = UpdateDrug
                          (drug\<lparr>d_Status := ''in_transit'', d_BlockchainTxID := drugStatusTxHash,
                                d_UpdatedAt := timestamp\<rparr>) w7;
                   w9 = InsertDrugStatusUpdate
                          \<lparr>du_ID = '''', du_DrugID = csp_DrugID params, du_Status = ''in_transit'',
                           du_Location = csp_Location params, du_UpdatedBy = csp_UserID params,
                           du_BlockchainTxID = drugStatusTxHash, du_Timestamp = timestamp\<rparr> w8
               in (Inr txHash, w9))))"

text \<open>The shipments of a ledger file that may not exist, the ledger
  \<^verbatim>\<open>GetManufacturerLedger\<close> returns, and the data of a revert transaction.\<close>

definition shipments_of :: "ManufacturerLedger option \<Rightarrow> ShipmentRecord list" where
  "shipments_of f = (case f of None \<Rightarrow> [] | Some ledger \<Rightarrow> ml_Shipments ledger)"

definition ledger_or_new :: "string \<Rightarrow> string \<Rightarrow> ManufacturerLedger option \<Rightarrow> ManufacturerLedger" where
  "ledger_or_new now manufacturerID f =
     (case f of
        None \<Rightarrow> \<lparr>ml_ManufacturerID = manufacturerID, ml_Drugs = [], ml_Shipments = [],
                 ml_LastUpdated = now\<rparr>
      | Some ledger \<Rightarrow> ledger)"




definition sample_revert :: RevertDrugParams where
  "sample_revert =
     \<lparr>rdp_DrugID = ''D1'', rdp_ManufacturerID = ''M1'', rdp_Reason = ''recall'',
      rdp_UserID = ''U1'', rdp_Location = ''Basel''\<rparr>"

definition sample_drug :: Drug where
  "sample_drug =
     \<lparr>d_ID = ''D1'', d_ManufacturerID = ''M1'', d_Name = ''Aspirin'', d_Description = [],
      d_Status = ''created'', d_VerificationHash = ''vh-D1'', d_BlockchainTxID = ''aa01'',
      d_CreatedAt = zero_time, d_UpdatedAt = zero_time\<rparr>"

section \<open>Histories that only grow\<close>

text \<open>
  A list of records grows: every record keeps its place and its id, and its old history
  is an initial part of its new history (so the history is at least as long and no entry
  that was written has changed); records may be added behind.
\<close>

definition grows :: "('a \<Rightarrow> string) \<Rightarrow> ('a \<Rightarrow> Status list) \<Rightarrow> 'a list \<Rightarrow> 'a list \<Rightarrow> bool" where
  "grows key hist xs ys =
     (length xs \<le> length ys \<and>
      (\<forall>i<length xs. key (ys ! i) = key (xs ! i) \<and> prefix (hist (xs ! i)) (hist (ys ! i))))"

definition hist_ext :: "world \<Rightarrow> world \<Rightarrow> bool" where
  "hist_ext w w' =
     ((\<forall>m. grows dr_DrugID dr_History (drugs_of (ManufacturerLedgersDir w m))
                (drugs_of (ManufacturerLedgersDir w' m)) \<and>
           grows sr_ShipmentID sr_History (shipments_of (ManufacturerLedgersDir w m))
                (shipments_of (ManufacturerLedgersDir w' m))) \<and>
      grows cd_DrugID cd_History (cl_Drugs (CommonLedgerFile w)) (cl_Drugs (CommonLedgerFile w')) \<and>
      grows cs_ShipmentID cs_History (cl_Shipments (CommonLedgerFile w))
        (cl_Shipments (CommonLedgerFile w')))"

text \<open>Every manufacturer ledger file names the manufacturer it is filed under.\<close>

definition wf_ledgers :: "world \<Rightarrow> bool" where
  "wf_ledgers w = (\<forall>m l. ManufacturerLedgersDir w m = Some l \<longrightarrow> ml_ManufacturerID l = m)"

text \<open>The ledgers of the second state extend those of the first, and its ledger files are
  filed under their own names.\<close>

definition ledgers_extend :: "world \<Rightarrow> world \<Rightarrow> bool" where
  "ledgers_extend w w' = (hist_ext w w' \<and> wf_ledgers w')"

text \<open>
  The operations that write the ledgers, \<^verbatim>\<open>SyncManufacturerLedger\<close> apart: the chain append
  of the storage (which files a new drug in both ledgers), the five operations of the
  ledger manager of package blockchain, and the four of package manager.
\<close>

datatype ledger_op =
    Op_AddTransactionToBlockchain clock jmap string
  | Op_CreateTransaction clock string string jmap
  | Op_UpdateDrugStatus clock string string string string
  | Op_UpdateShipmentStatus clock string string string string
  | Op_CreateDrug clock CreateDrugParams
  | Op_CreateShipment clock CreateShipmentParams
  | Op_RevertDrug clock RevertDrugParams
  | Op_manager_CreateDrug clock "nat \<Rightarrow> string" CreateDrugParams
  | Op_manager_CreateShipment clock "nat \<Rightarrow> string" CreateShipmentParams
  | Op_manager_UpdateShipmentStatus clock "nat \<Rightarrow> string" UpdateShipmentStatusParams
  | Op_manager_RevertDrug clock "nat \<Rightarrow> string" RevertDrugParams

fun run_op :: "(string \<Rightarrow> string) \<Rightarrow> (jmap \<Rightarrow> string) \<Rightarrow> ledger_op \<Rightarrow> world \<Rightarrow> world" where
  "run_op H J (Op_AddTransactionToBlockchain clk txData txHash) w =
     AddTransactionToBlockchain clk txData txHash w"
| "run_op H J (Op_CreateTransaction clk uuid txType data) w =
     snd (CreateTransaction H J clk uuid txType data w)"
| "run_op H J (Op_UpdateDrugStatus clk m drugID status details) w =
     snd (blockchain_UpdateDrugStatus clk m drugID status details w)"
| "run_op H J (Op_UpdateShipmentStatus clk m shipmentID status details) w =
     snd (blockchain_UpdateShipmentStatus clk m shipmentID status details w)"
| "run_op H J (Op_CreateDrug clk params) w = snd (blockchain_CreateDrug clk params w)"
| "run_op H J (Op_CreateShipment clk params) w = snd (blockchain_CreateShipment clk params w)"
| "run_op H J (Op_RevertDrug clk params) w = snd (blockchain_RevertDrug clk params w)"
| "run_op H J (Op_manager_CreateDrug clk uuid params) w =
     snd (manager_CreateDrug H J clk uuid params w)"
| "run_op H J (Op_manager_CreateShipment clk uuid params) w =
     snd (manager_CreateShipment H J clk uuid params w)"
| "run_op H J (Op_manager_UpdateShipmentStatus clk uuid params) w =
     snd (manager_UpdateShipmentStatus H J clk uuid params w)"
| "run_op H J (Op_manager_RevertDrug clk uuid params) w =
     snd (manager_RevertDrug H J clk uuid params w)"

definition run_ops :: "(string \<Rightarrow> string) \<Rightarrow> (jmap \<Rightarrow> string) \<Rightarrow> ledger_op list \<Rightarrow> world \<Rightarrow> world" where
  "run_ops H J ops w = fold (run_op H J) ops w"

text \<open>The methods of the two ledger types that write, as calls on a ledger value.\<close>

datatype ml_call =
    Call_AddDrugRecord clock string string
  | Call_UpdateDrugStatus clock string string string
  | Call_AddShipmentRecord clock string string string
  | Call_UpdateShipmentStatus clock string string string

fun run_ml_call :: "ml_call \<Rightarrow> ManufacturerLedger \<Rightarrow> ManufacturerLedger" where
  "run_ml_call (Call_AddDrugRecord clk drugID status) ml = fst (AddDrugRecord clk drugID status ml)"
| "run_ml_call (Call_UpdateDrugStatus clk drugID newStatus details) ml =
     fst (UpdateDrugStatus clk drugID newStatus details ml)"
| "run_ml_call (Call_AddShipmentRecord clk shipmentID drugID status) ml =
     fst (AddShipmentRecord clk shipmentID drugID status ml)"
| "run_ml_call (Call_UpdateShipmentStatus clk shipmentID newStatus details) ml =
     fst (UpdateShipmentStatus clk shipmentID newStatus details ml)"

datatype cl_call =
    Call_AddDrugRecord_cl clock string string string string
  | Call_UpdateDrugStatus_cl clock string string string
  | Call_AddShipmentRecord_cl clock string string string string string
  | Call_UpdateShipmentStatus_cl clock string string string

fun run_cl_call :: "cl_call \<Rightarrow> CommonLedger \<Rightarrow> CommonLedger" where
  "run_cl_call (Call_AddDrugRecord_cl clk drugID manufacturerID status verificationHash) cl =
     fst (AddDrugRecord_cl clk drugID manufacturerID status verificationHash cl)"
| "run_cl_call (Call_UpdateDrugStatus_cl clk drugID newStatus details) cl =
     fst (UpdateDrugStatus_cl clk drugID newStatus details cl)"
| "run_cl_call (Call_AddShipmentRecord_cl clk shipmentID drugID manufacturerID distributorID
      status) cl =
     fst (AddShipmentRecord_cl clk shipmentID drugID manufacturerID distributorID status cl)"
| "run_cl_call (Call_UpdateShipmentStatus_cl clk shipmentID newStatus details) cl =
     fst (UpdateShipmentStatus_cl clk shipmentID newStatus details cl)"

text \<open>
  What \<^verbatim>\<open>SyncManufacturerLedger\<close> does to a list of common records: every record keeps its
  place and its id and is either left as it is or replaced by one of the given new records,
  and the records behind the old ones are new ones.
\<close>

definition replaced_from :: "('a \<Rightarrow> string) \<Rightarrow> 'a set \<Rightarrow> 'a list \<Rightarrow> 'a list \<Rightarrow> bool" where
  "replaced_from key new xs ys =
     (length xs \<le> length ys \<and>
      (\<forall>i<length ys. if i < length xs
                      then key (ys ! i) = key (xs ! i) \<and> (ys ! i = xs ! i \<or> ys ! i \<in> new)
                      else ys ! i \<in> new))"

text \<open>
  The ledgers of \<open>cascade_world\<close> over a store filled by \<^verbatim>\<open>InsertDrug\<close> and
  \<^verbatim>\<open>InsertShipment\<close>: its rows are the JSON of \<^verbatim>\<open>models.Drug\<close> and \<^verbatim>\<open>models.Shipment\<close>,
  which carry the id in the column \<^verbatim>\<open>id\<close>.
\<close>

definition stored_world :: world where
  "stored_world =
     InsertShipment sample_shipment
       (InsertDrug sample_drug (cascade_world\<lparr>Supabase := (\<lambda>table. [])\<rparr>))"



section \<open>The sync engine\<close>

text \<open>
  The loop of \<^verbatim>\<open>pullChangesFromSupabase\<close> over the records read at its start. A record
  whose \<^verbatim>\<open>blockchain_tx_id\<close> is a string other than \<^verbatim>\<open>"pending"\<close> is skipped; any other is
  counted, and for the table \<^verbatim>\<open>drugs\<close> a transaction of type \<^verbatim>\<open>drug\<close> is created from a
  copy of the record and the hash written to the rows of its \<^verbatim>\<open>drug_id\<close>. The type
  assertion \<^verbatim>\<open>drugData["drug_id"].(string)\<close> has no second result, so it panics when the
  record has no string there; this ends the loop. One \<^verbatim>\<open>CreateTransaction\<close> has eight call
  sites of the clock and draws one UUID.
\<close>

fun pull_records ::
  "(string \<Rightarrow> string) \<Rightarrow> (jmap \<Rightarrow> string) \<Rightarrow> clock \<Rightarrow> (nat \<Rightarrow> string) \<Rightarrow> string \<Rightarrow> jmap list
     \<Rightarrow> nat \<Rightarrow> world \<Rightarrow> (error + nat) \<times> world" where
  "pull_records H J clk uuid table [] processedCount w = (Inr processedCount, w)"
| "pull_records H J clk uuid table (record # rest) processedCount w =
     (if (case as_string record ''blockchain_tx_id'' of
            Some txID \<Rightarrow> txID \<noteq> ''pending'' | None \<Rightarrow> False)
      then pull_records H J clk uuid table rest processedCount w
      else if table = ''drugs''
      then
        (let (txHash, w1) = CreateTransaction H J clk (uuid 0) ''drug'' record w
         in (case as_string record ''drug_id'' of
               None \<Rightarrow> (Inl Panic, w1)
             | Some drugID \<Rightarrow>
                 pull_records H J (shift 8 clk) (shift 1 uuid) table rest (processedCount + 1)
                   (w1\<lparr>Supabase := Supabase_Update (Supabase w1) ''drugs'' drugID
                                     [(''blockchain_tx_id'', JString txHash)]\<rparr>)))
      else pull_records H J clk uuid table rest (processedCount + 1) w)"

definition pullChangesFromSupabase ::
  "(string \<Rightarrow> string) \<Rightarrow> (jmap \<Rightarrow> string) \<Rightarrow> clock \<Rightarrow> (nat \<Rightarrow> string) \<Rightarrow> string \<Rightarrow> world
     \<Rightarrow> (error + nat) \<times> world" where
  "pullChangesFromSupabase H J clk uuid table w =
     pull_records H J clk uuid table (Supabase_Select (Supabase w) table []) 0 w"

text \<open>
  \<^verbatim>\<open>performSync\<close>: \<^verbatim>\<open>syncTable\<close> for \<^verbatim>\<open>drugs\<close>, then for \<^verbatim>\<open>shipments\<close>; the result lists
  \<^verbatim>\<open>RecordsReceived\<close> of the status of each table (\<^verbatim>\<open>pushChangesToSupabase\<close> sends nothing
  and the status files are logs). The pull of \<^verbatim>\<open>shipments\<close> reads neither the clock nor a
  UUID.
\<close>

definition performSync ::
  "(string \<Rightarrow> string) \<Rightarrow> (jmap \<Rightarrow> string) \<Rightarrow> clock \<Rightarrow> (nat \<Rightarrow> string) \<Rightarrow> world
     \<Rightarrow> (error + (string \<times> nat) list) \<times> world" where
  "performSync H J clk uuid w =
     (case pullChangesFromSupabase H J clk uuid ''drugs'' w of
        (Inl e, w1) \<Rightarrow> (Inl e, w1)
      | (Inr receivedDrugs, w1) \<Rightarrow>
          (case pullChangesFromSupabase H J clk uuid ''shipments'' w1 of
             (Inl e, w2) \<Rightarrow> (Inl e, w2)
           | (Inr receivedShipments, w2) \<Rightarrow>
               (Inr [(''drugs'', receivedDrugs), (''shipments'', receivedShipments)], w2)))"

text \<open>The row has no chain transaction yet: no id is recorded (the column is absent or holds
  no text) or the id is the sentinel.\<close>

definition lacks_tx :: "jmap \<Rightarrow> bool" where
  "lacks_tx row =
     (case as_string row ''blockchain_tx_id'' of None \<Rightarrow> True | Some txID \<Rightarrow> txID = ''pending'')"




chapter \<open>Properties\<close>

section \<open>Chain integrity\<close>

lemma BlockchainFile_add_drug_to_ledgers:
  "BlockchainFile (add_drug_to_ledgers clk d m h w) = BlockchainFile w"
  by (simp add: add_drug_to_ledgers_def GetManufacturerLedger_def SaveManufacturerLedger_def
      SaveCommonLedger_def GetCommonLedger_def Let_def split: option.splits)

lemma BlockchainFile_AddTransactionToBlockchain:
  "BlockchainFile (AddTransactionToBlockchain clk txData txHash w) =
     Some (append_block clk txData txHash
            (case BlockchainFile w of None \<Rightarrow> initial_ledger (clk 0) | Some l \<Rightarrow> l))"
  by (simp add: AddTransactionToBlockchain_def GetBlockchainLedger_def append_block_def
      BlockchainFile_add_drug_to_ledgers WriteFile_def Let_def split: option.splits)


lemma linked_snoc:
  "linked (bs @ [b]) =
     (linked bs \<and>
      (bs \<noteq> [] \<longrightarrow> blk_BlockHeight b = blk_BlockHeight (last bs) + 1 \<and>
                   blk_PreviousBlockHash b = blk_TxHash (last bs)))"
  by (induction bs rule: linked.induct) auto

lemma chain_inv_initial: "chain_inv (initial_ledger t)"
  by (simp add: chain_inv_def initial_ledger_def)

lemma chain_inv_append_block:
  assumes "chain_inv l"
  shows "chain_inv (append_block clk d h l)"
proof (cases "bl_Blocks l")
  case Nil
  with assms show ?thesis
    by (simp add: chain_inv_def append_block_def)
next
  case (Cons a list)
  let ?nb = "\<lparr>blk_BlockHeight = bl_BlockHeight l + 1, blk_TxHash = h,
          blk_TxData = JObject d, blk_Timestamp = clk 1,
          blk_PreviousBlockHash = blk_TxHash (last (bl_Blocks l))\<rparr>"
  have blocks: "bl_Blocks (append_block clk d h l) = bl_Blocks l @ [?nb]"
    using Cons by (simp add: append_block_def)
  have height: "bl_BlockHeight (append_block clk d h l) = bl_BlockHeight l + 1"
    by (simp add: append_block_def)
  have "linked (bl_Blocks l @ [?nb])"
    using assms Cons by (simp only: linked_snoc) (simp add: chain_inv_def)
  then show ?thesis
    using assms Cons by (simp add: chain_inv_def blocks height)
qed

lemma linked_nth:
  "linked bs \<Longrightarrow> Suc i < length bs \<Longrightarrow>
     blk_BlockHeight (bs ! Suc i) = blk_BlockHeight (bs ! i) + 1 \<and>
     blk_PreviousBlockHash (bs ! Suc i) = blk_TxHash (bs ! i)"
proof (induction bs arbitrary: i rule: linked.induct)
  case (3 a b bs)
  then show ?case by (cases i) auto
qed auto

lemma check_blocks_linked:
  "linked (b # bs) \<Longrightarrow> check_blocks i b bs = (True, None)"
  by (induction bs arbitrary: i b) auto


lemma chain_blocks_AddTransactionToBlockchain:
  "\<exists>b. chain_blocks (AddTransactionToBlockchain clk txData txHash w) = chain_blocks w @ [b] \<and>
       blk_TxHash b = txHash \<and> blk_TxData b = JObject txData"
  by (simp add: chain_blocks_def BlockchainFile_AddTransactionToBlockchain append_block_def
      initial_ledger_def split: option.splits)

lemma append_all_inv:
  "(\<forall>l. BlockchainFile w = Some l \<longrightarrow> chain_inv l) \<Longrightarrow>
   BlockchainFile (append_all txs w) = Some l' \<Longrightarrow> chain_inv l'"
proof (induction txs arbitrary: w)
  case Nil
  then show ?case by simp
next
  case (Cons t txs)
  obtain clk d h where t: "t = (clk, d, h)" by (cases t) auto
  have "chain_inv (case BlockchainFile w of None \<Rightarrow> initial_ledger (clk 0) | Some l \<Rightarrow> l)"
    using Cons.prems(1) by (simp add: chain_inv_initial split: option.splits)
  then have "\<forall>l. BlockchainFile (AddTransactionToBlockchain clk d h w) = Some l \<longrightarrow> chain_inv l"
    by (simp add: BlockchainFile_AddTransactionToBlockchain chain_inv_append_block)
  then show ?case
    using Cons.IH Cons.prems(2) t by simp
qed

lemma append_all_hashes:
  "map blk_TxHash (chain_blocks (append_all txs w)) =
     map blk_TxHash (chain_blocks w) @ map (\<lambda>t. snd (snd t)) txs"
proof (induction txs arbitrary: w)
  case Nil
  then show ?case by simp
next
  case (Cons t txs)
  obtain clk d h where t: "t = (clk, d, h)" by (cases t) auto
  obtain b where "chain_blocks (AddTransactionToBlockchain clk d h w) = chain_blocks w @ [b]"
    and "blk_TxHash b = h"
    using chain_blocks_AddTransactionToBlockchain by blast
  then show ?case
    using Cons.IH[of "AddTransactionToBlockchain clk d h w"] t by simp
qed

lemma checkConsistency_inv:
  assumes "\<forall>l. BlockchainFile w = Some l \<longrightarrow> chain_inv l"
  shows "fst (checkConsistency now w) = (True, None)"
proof (cases "BlockchainFile w")
  case None
  then show ?thesis
    by (simp add: checkConsistency_def GetBlockchainLedger_def initial_ledger_def)
next
  case (Some l)
  with assms have "linked (bl_Blocks l)" by (simp add: chain_inv_def)
  then show ?thesis
    using Some
    by (cases "bl_Blocks l")
       (simp_all add: checkConsistency_def GetBlockchainLedger_def check_blocks_linked)
qed

lemma RunConsistencyCheck_inv:
  assumes "\<forall>l. BlockchainFile w = Some l \<longrightarrow> chain_inv l"
  shows "ccr_Status (fst (RunConsistencyCheck True clk w)) = ''consistent''"
proof -
  obtain w1 where "checkConsistency (clk 1) w = ((True, None), w1)"
    using checkConsistency_inv[OF assms, of "clk 1"]
    by (cases "checkConsistency (clk 1) w") auto
  then show ?thesis by (simp add: RunConsistencyCheck_def)
qed

text \<open>
  Claim C1. Starting from an empty chain ledger (the file absent, or present with no
  blocks), after any sequence of \<open>N\<close> calls of \<^verbatim>\<open>AddTransactionToBlockchain\<close> the
  ledger holds \<open>N\<close> blocks with the appended hashes in order; every block but the first
  names the hash of the block before it and stands one higher; the first block has height
  1 and an empty previous hash; and \<^verbatim>\<open>checkConsistency\<close> returns true with no error, so
  that \<^verbatim>\<open>RunConsistencyCheck\<close>, when its probe of the store succeeds, reports
  \<^verbatim>\<open>consistent\<close>. With no appends the chain is empty and the check passes as well.
\<close>

theorem chain_integrity:
  assumes empty: "BlockchainFile w = None \<or> (\<exists>t. BlockchainFile w = Some (initial_ledger t))"
  shows "length (chain_blocks (append_all txs w)) = length txs \<and>
         map blk_TxHash (chain_blocks (append_all txs w)) = map (\<lambda>t. snd (snd t)) txs \<and>
         (\<forall>i. 1 \<le> i \<and> i < length txs \<longrightarrow>
            blk_PreviousBlockHash (chain_blocks (append_all txs w) ! i) =
              blk_TxHash (chain_blocks (append_all txs w) ! (i - 1)) \<and>
            blk_BlockHeight (chain_blocks (append_all txs w) ! i) =
              blk_BlockHeight (chain_blocks (append_all txs w) ! (i - 1)) + 1) \<and>
         (txs \<noteq> [] \<longrightarrow>
            blk_BlockHeight (chain_blocks (append_all txs w) ! 0) = 1 \<and>
            blk_PreviousBlockHash (chain_blocks (append_all txs w) ! 0) = []) \<and>
         fst (checkConsistency now (append_all txs w)) = (True, None) \<and>
         ccr_Status (fst (RunConsistencyCheck True clk (append_all txs w))) = ''consistent''"
proof -
  let ?w = "append_all txs w"
  let ?bs = "chain_blocks ?w"
  have start: "chain_blocks w = []"
    using empty by (auto simp: chain_blocks_def initial_ledger_def)
  have inv0: "\<forall>l. BlockchainFile w = Some l \<longrightarrow> chain_inv l"
    using empty by (auto simp: chain_inv_initial)
  have inv: "\<forall>l. BlockchainFile ?w = Some l \<longrightarrow> chain_inv l"
    using append_all_inv[OF inv0] by blast
  have hashes: "map blk_TxHash ?bs = map (\<lambda>t. snd (snd t)) txs"
    using append_all_hashes[of txs w] start by simp
  have len: "length ?bs = length txs"
    using arg_cong[OF hashes, of length] by simp
  have lnk: "linked ?bs"
    using inv by (auto simp: chain_blocks_def chain_inv_def split: option.splits)
  have links: "\<forall>i. 1 \<le> i \<and> i < length txs \<longrightarrow>
            blk_PreviousBlockHash (?bs ! i) = blk_TxHash (?bs ! (i - 1)) \<and>
            blk_BlockHeight (?bs ! i) = blk_BlockHeight (?bs ! (i - 1)) + 1"
  proof (intro allI impI)
    fix i assume i: "1 \<le> i \<and> i < length txs"
    then obtain j where j: "i = Suc j" by (cases i) auto
    with i len have "Suc j < length ?bs" by simp
    from linked_nth[OF lnk this] j
    show "blk_PreviousBlockHash (?bs ! i) = blk_TxHash (?bs ! (i - 1)) \<and>
            blk_BlockHeight (?bs ! i) = blk_BlockHeight (?bs ! (i - 1)) + 1"
      by simp
  qed
  have first: "txs \<noteq> [] \<longrightarrow> blk_BlockHeight (?bs ! 0) = 1 \<and> blk_PreviousBlockHash (?bs ! 0) = []"
  proof
    assume "txs \<noteq> []"
    with len obtain b bs where bs: "?bs = b # bs" by (cases ?bs) auto
    then obtain l where "BlockchainFile ?w = Some l" "bl_Blocks l = b # bs"
      by (auto simp: chain_blocks_def split: option.splits)
    with inv have "blk_BlockHeight b = 1 \<and> blk_PreviousBlockHash b = []"
      by (auto simp: chain_inv_def)
    with bs show "blk_BlockHeight (?bs ! 0) = 1 \<and> blk_PreviousBlockHash (?bs ! 0) = []"
      by simp
  qed
  show ?thesis
    using len hashes links first checkConsistency_inv[OF inv] RunConsistencyCheck_inv[OF inv]
    by blast
qed

theorem chain_integrity_witness:
  "BlockchainFile empty_world = None \<and>
   (1::nat) \<le> 1 \<and> 1 < length three_txs \<and>
   blk_PreviousBlockHash (chain_blocks (append_all three_txs empty_world) ! 1) =
     blk_TxHash (chain_blocks (append_all three_txs empty_world) ! 0) \<and>
   blk_BlockHeight (chain_blocks (append_all three_txs empty_world) ! 1) =
     blk_BlockHeight (chain_blocks (append_all three_txs empty_world) ! 0) + 1 \<and>
   three_txs \<noteq> [] \<and>
   blk_BlockHeight (chain_blocks (append_all three_txs empty_world) ! 0) = 1 \<and>
   blk_PreviousBlockHash (chain_blocks (append_all three_txs empty_world) ! 0) = [] \<and>
   map blk_TxHash (chain_blocks (append_all three_txs empty_world)) = [''aa01'', ''bb02'', ''cc03''] \<and>
   fst (checkConsistency (noon 0) (append_all three_txs empty_world)) = (True, None) \<and>
   ccr_Status (fst (RunConsistencyCheck True noon (append_all three_txs empty_world))) =
     ''consistent''"
proof -
  have e: "BlockchainFile empty_world = None \<or>
           (\<exists>t. BlockchainFile empty_world = Some (initial_ledger t))"
    by (simp add: empty_world_def)
  have n: "(1::nat) \<le> 1 \<and> 1 < length three_txs" and ne: "three_txs \<noteq> []"
    by (simp_all add: three_txs_def)
  note T = chain_integrity [OF e, of three_txs "noon 0" noon]
  have hs: "map (\<lambda>t. snd (snd t)) three_txs = [''aa01'', ''bb02'', ''cc03'']"
    by (simp add: three_txs_def)
  from T n have "blk_PreviousBlockHash (chain_blocks (append_all three_txs empty_world) ! 1) =
     blk_TxHash (chain_blocks (append_all three_txs empty_world) ! (1 - 1)) \<and>
     blk_BlockHeight (chain_blocks (append_all three_txs empty_world) ! 1) =
     blk_BlockHeight (chain_blocks (append_all three_txs empty_world) ! (1 - 1)) + 1"
    by blast
  then show ?thesis
    using T n ne hs by (simp add: empty_world_def)
qed

section \<open>Errors and history of the ledger methods\<close>

lemma update_first_None: "(update_first p f xs = None) = (\<forall>x\<in>set xs. \<not> p x)"
  by (induction xs) (auto split: option.splits)

lemma update_first_Some:
  "update_first p f xs = Some ys \<Longrightarrow>
     \<exists>pre x post. xs = pre @ x # post \<and> (\<forall>y\<in>set pre. \<not> p y) \<and> p x \<and> ys = pre @ f x # post"
proof (induction xs arbitrary: ys)
  case Nil
  then show ?case by simp
next
  case (Cons a xs)
  show ?case
  proof (cases "p a")
    case True
    with Cons.prems have "a # xs = [] @ a # xs \<and> (\<forall>y\<in>set []. \<not> p y) \<and> p a \<and> ys = [] @ f a # xs"
      by auto
    then show ?thesis by blast
  next
    case False
    with Cons.prems obtain zs where zs: "update_first p f xs = Some zs" and ys: "ys = a # zs"
      by (auto split: option.splits)
    from Cons.IH[OF zs] obtain pre x post where
      "xs = pre @ x # post" "\<forall>y\<in>set pre. \<not> p y" "p x" "zs = pre @ f x # post"
      by blast
    with False ys have "a # xs = (a # pre) @ x # post \<and> (\<forall>y\<in>set (a # pre). \<not> p y) \<and> p x \<and>
        ys = (a # pre) @ f x # post"
      by simp
    then show ?thesis by blast
  qed
qed

lemma find_first_None: "(find_first p xs = None) = (\<forall>x\<in>set xs. \<not> p x)"
  by (induction xs) auto

lemma find_first_split:
  "\<forall>y\<in>set pre. \<not> p y \<Longrightarrow> p x \<Longrightarrow> find_first p (pre @ x # post) = Some x"
  by (induction pre) auto

lemma find_first_key_absent:
  "k \<notin> key ` set xs \<Longrightarrow> key x = k \<Longrightarrow> find_first (\<lambda>y. key y = k) (xs @ [x]) = Some x"
proof -
  assume a: "k \<notin> key ` set xs" and x: "key x = k"
  from a have "\<forall>y\<in>set xs. \<not> key y = k" by blast
  then show ?thesis using x by (rule find_first_split)
qed

lemma update_first_key_absent:
  "k \<notin> key ` set xs \<Longrightarrow> update_first (\<lambda>y. key y = k) f xs = None"
  by (auto simp: update_first_None)

lemma find_first_update_first:
  assumes "update_first p f xs = Some ys" and "\<And>x. p x \<Longrightarrow> p (f x)"
  shows "\<exists>x. find_first p xs = Some x \<and> find_first p ys = Some (f x)"
proof -
  from update_first_Some[OF assms(1)] obtain pre x post where
    xs: "xs = pre @ x # post" and pre: "\<forall>y\<in>set pre. \<not> p y" and x: "p x"
    and ys: "ys = pre @ f x # post"
    by blast
  have "find_first p xs = Some x"
    unfolding xs using pre x by (rule find_first_split)
  moreover have "find_first p ys = Some (f x)"
    unfolding ys using pre assms(2)[OF x] by (rule find_first_split)
  ultimately show ?thesis by blast
qed

lemma update_first_count:
  assumes "update_first p f xs = Some ys" and "\<And>x. g (f x) = Suc (g x)"
  shows "sum_list (map g ys) = Suc (sum_list (map g xs))"
proof -
  from update_first_Some[OF assms(1)] obtain pre x post where
    "xs = pre @ x # post" "ys = pre @ f x # post"
    by blast
  then show ?thesis by (simp add: assms(2))
qed

lemma list_ex_key: "list_ex (\<lambda>x. key x = k) xs = (k \<in> key ` set xs)"
  by (auto simp: list_ex_iff)

text \<open>manufacturer ledger\<close>

lemma AddDrugRecord_conflict:
  "drugID \<in> dr_DrugID ` set (ml_Drugs ml) \<Longrightarrow>
     AddDrugRecord clk drugID status ml = (ml, Some (DrugAlreadyExists drugID))"
  by (simp add: AddDrugRecord_def list_ex_key)

lemma AddDrugRecord_success:
  assumes "snd (AddDrugRecord clk drugID status ml) = None"
  shows "GetDrugHistory drugID (fst (AddDrugRecord clk drugID status ml)) =
           Inr [\<lparr>st_Status = status, st_Timestamp = clk 1, st_Details = []\<rparr>] \<and>
         history_entries_ml (fst (AddDrugRecord clk drugID status ml)) =
           Suc (history_entries_ml ml) \<and>
         ml_LastUpdated (fst (AddDrugRecord clk drugID status ml)) = clk 2"
proof -
  from assms have "drugID \<notin> dr_DrugID ` set (ml_Drugs ml)"
    by (auto simp: AddDrugRecord_def list_ex_key split: if_splits)
  then show ?thesis
    by (simp add: AddDrugRecord_def list_ex_key GetDrugHistory_def find_first_key_absent
        history_entries_ml_def)
qed

lemma UpdateDrugStatus_notfound:
  "drugID \<notin> dr_DrugID ` set (ml_Drugs ml) \<Longrightarrow>
     UpdateDrugStatus clk drugID newStatus details ml = (ml, Some (DrugNotFound drugID))"
  by (simp add: UpdateDrugStatus_def update_first_key_absent)

lemma UpdateDrugStatus_success:
  assumes "snd (UpdateDrugStatus clk drugID newStatus details ml) = None"
  shows "\<exists>h. GetDrugHistory drugID ml = Inr h \<and>
           GetDrugHistory drugID (fst (UpdateDrugStatus clk drugID newStatus details ml)) =
             Inr (h @ [\<lparr>st_Status = newStatus, st_Timestamp = clk 0, st_Details = details\<rparr>]) \<and>
           history_entries_ml (fst (UpdateDrugStatus clk drugID newStatus details ml)) =
             Suc (history_entries_ml ml) \<and>
           ml_LastUpdated (fst (UpdateDrugStatus clk drugID newStatus details ml)) = clk 1"
proof -
  let ?f = "\<lambda>drug. drug\<lparr>dr_CurrentStatus := newStatus,
                   dr_History := dr_History drug @
                     [\<lparr>st_Status = newStatus, st_Timestamp = clk 0, st_Details = details\<rparr>]\<rparr>"
  let ?p = "\<lambda>drug. dr_DrugID drug = drugID"
  from assms obtain ys where ys: "update_first ?p ?f (ml_Drugs ml) = Some ys"
    by (auto simp: UpdateDrugStatus_def split: option.splits)
  from find_first_update_first[OF ys] obtain x where
    "find_first ?p (ml_Drugs ml) = Some x" "find_first ?p ys = Some (?f x)"
    by auto
  moreover have "sum_list (map (\<lambda>d. length (dr_History d)) ys) =
      Suc (sum_list (map (\<lambda>d. length (dr_History d)) (ml_Drugs ml)))"
    by (rule update_first_count[OF ys]) simp
  ultimately show ?thesis
    using ys by (simp add: UpdateDrugStatus_def GetDrugHistory_def history_entries_ml_def)
qed

lemma AddShipmentRecord_conflict:
  "shipmentID \<in> sr_ShipmentID ` set (ml_Shipments ml) \<Longrightarrow>
     AddShipmentRecord clk shipmentID drugID status ml =
       (ml, Some (ShipmentAlreadyExists shipmentID))"
  by (simp add: AddShipmentRecord_def list_ex_key)

lemma AddShipmentRecord_success:
  assumes "snd (AddShipmentRecord clk shipmentID drugID status ml) = None"
  shows "GetShipmentHistory shipmentID (fst (AddShipmentRecord clk shipmentID drugID status ml)) =
           Inr [\<lparr>st_Status = status, st_Timestamp = clk 1, st_Details = []\<rparr>] \<and>
         history_entries_ml (fst (AddShipmentRecord clk shipmentID drugID status ml)) =
           Suc (history_entries_ml ml) \<and>
         ml_LastUpdated (fst (AddShipmentRecord clk shipmentID drugID status ml)) = clk 2"
proof -
  from assms have "shipmentID \<notin> sr_ShipmentID ` set (ml_Shipments ml)"
    by (auto simp: AddShipmentRecord_def list_ex_key split: if_splits)
  then show ?thesis
    by (simp add: AddShipmentRecord_def list_ex_key GetShipmentHistory_def find_first_key_absent
        history_entries_ml_def)
qed

lemma UpdateShipmentStatus_notfound:
  "shipmentID \<notin> sr_ShipmentID ` set (ml_Shipments ml) \<Longrightarrow>
     UpdateShipmentStatus clk shipmentID newStatus details ml =
       (ml, Some (ShipmentNotFound shipmentID))"
  by (simp add: UpdateShipmentStatus_def update_first_key_absent)

lemma UpdateShipmentStatus_success:
  assumes "snd (UpdateShipmentStatus clk shipmentID newStatus details ml) = None"
  shows "\<exists>h. GetShipmentHistory shipmentID ml = Inr h \<and>
           GetShipmentHistory shipmentID
               (fst (UpdateShipmentStatus clk shipmentID newStatus details ml)) =
             Inr (h @ [\<lparr>st_Status = newStatus, st_Timestamp = clk 0, st_Details = details\<rparr>]) \<and>
           history_entries_ml (fst (UpdateShipmentStatus clk shipmentID newStatus details ml)) =
             Suc (history_entries_ml ml) \<and>
           ml_LastUpdated (fst (UpdateShipmentStatus clk shipmentID newStatus details ml)) = clk 1"
proof -
  let ?f = "\<lambda>shipment. shipment\<lparr>sr_CurrentStatus := newStatus,
                   sr_History := sr_History shipment @
                     [\<lparr>st_Status = newStatus, st_Timestamp = clk 0, st_Details = details\<rparr>]\<rparr>"
  let ?p = "\<lambda>shipment. sr_ShipmentID shipment = shipmentID"
  from assms obtain ys where ys: "update_first ?p ?f (ml_Shipments ml) = Some ys"
    by (auto simp: UpdateShipmentStatus_def split: option.splits)
  from find_first_update_first[OF ys] obtain x where
    "find_first ?p (ml_Shipments ml) = Some x" "find_first ?p ys = Some (?f x)"
    by auto
  moreover have "sum_list (map (\<lambda>d. length (sr_History d)) ys) =
      Suc (sum_list (map (\<lambda>d. length (sr_History d)) (ml_Shipments ml)))"
    by (rule update_first_count[OF ys]) simp
  ultimately show ?thesis
    using ys by (simp add: UpdateShipmentStatus_def GetShipmentHistory_def history_entries_ml_def)
qed

text \<open>common ledger\<close>

lemma AddDrugRecord_cl_conflict:
  "drugID \<in> cd_DrugID ` set (cl_Drugs cl) \<Longrightarrow>
     AddDrugRecord_cl clk drugID manufacturerID status verificationHash cl =
       (cl, Some (DrugAlreadyExists drugID))"
  by (simp add: AddDrugRecord_cl_def list_ex_key)

lemma AddDrugRecord_cl_success:
  assumes "snd (AddDrugRecord_cl clk drugID manufacturerID status verificationHash cl) = None"
  shows "GetDrugHistory_cl drugID
             (fst (AddDrugRecord_cl clk drugID manufacturerID status verificationHash cl)) =
           Inr [\<lparr>st_Status = status, st_Timestamp = clk 1, st_Details = []\<rparr>] \<and>
         history_entries_cl
             (fst (AddDrugRecord_cl clk drugID manufacturerID status verificationHash cl)) =
           Suc (history_entries_cl cl) \<and>
         cl_LastUpdated
             (fst (AddDrugRecord_cl clk drugID manufacturerID status verificationHash cl)) = clk 2"
proof -
  from assms have "drugID \<notin> cd_DrugID ` set (cl_Drugs cl)"
    by (auto simp: AddDrugRecord_cl_def list_ex_key split: if_splits)
  then show ?thesis
    by (simp add: AddDrugRecord_cl_def list_ex_key GetDrugHistory_cl_def find_first_key_absent
        history_entries_cl_def)
qed

lemma UpdateDrugStatus_cl_notfound:
  "drugID \<notin> cd_DrugID ` set (cl_Drugs cl) \<Longrightarrow>
     UpdateDrugStatus_cl clk drugID newStatus details cl = (cl, Some (DrugNotFound drugID))"
  by (simp add: UpdateDrugStatus_cl_def update_first_key_absent)

lemma UpdateDrugStatus_cl_success:
  assumes "snd (UpdateDrugStatus_cl clk drugID newStatus details cl) = None"
  shows "\<exists>h. GetDrugHistory_cl drugID cl = Inr h \<and>
           GetDrugHistory_cl drugID (fst (UpdateDrugStatus_cl clk drugID newStatus details cl)) =
             Inr (h @ [\<lparr>st_Status = newStatus, st_Timestamp = clk 0, st_Details = details\<rparr>]) \<and>
           history_entries_cl (fst (UpdateDrugStatus_cl clk drugID newStatus details cl)) =
             Suc (history_entries_cl cl) \<and>
           cl_LastUpdated (fst (UpdateDrugStatus_cl clk drugID newStatus details cl)) = clk 1"
proof -
  let ?f = "\<lambda>drug. drug\<lparr>cd_CurrentStatus := newStatus,
                   cd_History := cd_History drug @
                     [\<lparr>st_Status = newStatus, st_Timestamp = clk 0, st_Details = details\<rparr>]\<rparr>"
  let ?p = "\<lambda>drug. cd_DrugID drug = drugID"
  from assms obtain ys where ys: "update_first ?p ?f (cl_Drugs cl) = Some ys"
    by (auto simp: UpdateDrugStatus_cl_def split: option.splits)
  from find_first_update_first[OF ys] obtain x where
    "find_first ?p (cl_Drugs cl) = Some x" "find_first ?p ys = Some (?f x)"
    by auto
  moreover have "sum_list (map (\<lambda>d. length (cd_History d)) ys) =
      Suc (sum_list (map (\<lambda>d. length (cd_History d)) (cl_Drugs cl)))"
    by (rule update_first_count[OF ys]) simp
  ultimately show ?thesis
    using ys by (simp add: UpdateDrugStatus_cl_def GetDrugHistory_cl_def history_entries_cl_def)
qed

lemma AddShipmentRecord_cl_conflict:
  "shipmentID \<in> cs_ShipmentID ` set (cl_Shipments cl) \<Longrightarrow>
     AddShipmentRecord_cl clk shipmentID drugID manufacturerID distributorID status cl =
       (cl, Some (ShipmentAlreadyExists shipmentID))"
  by (simp add: AddShipmentRecord_cl_def list_ex_key)

lemma AddShipmentRecord_cl_success:
  assumes "snd (AddShipmentRecord_cl clk shipmentID drugID manufacturerID distributorID status cl)
             = None"
  shows "GetShipmentHistory_cl shipmentID
             (fst (AddShipmentRecord_cl clk shipmentID drugID manufacturerID distributorID status cl)) =
           Inr [\<lparr>st_Status = status, st_Timestamp = clk 1, st_Details = []\<rparr>] \<and>
         history_entries_cl
             (fst (AddShipmentRecord_cl clk shipmentID drugID manufacturerID distributorID status cl)) =
           Suc (history_entries_cl cl) \<and>
         cl_LastUpdated
             (fst (AddShipmentRecord_cl clk shipmentID drugID manufacturerID distributorID status cl)) =
           clk 2"
proof -
  from assms have "shipmentID \<notin> cs_ShipmentID ` set (cl_Shipments cl)"
    by (auto simp: AddShipmentRecord_cl_def list_ex_key split: if_splits)
  then show ?thesis
    by (simp add: AddShipmentRecord_cl_def list_ex_key GetShipmentHistory_cl_def
        find_first_key_absent history_entries_cl_def)
qed

lemma UpdateShipmentStatus_cl_notfound:
  "shipmentID \<notin> cs_ShipmentID ` set (cl_Shipments cl) \<Longrightarrow>
     UpdateShipmentStatus_cl clk shipmentID newStatus details cl =
       (cl, Some (ShipmentNotFound shipmentID))"
  by (simp add: UpdateShipmentStatus_cl_def update_first_key_absent)

lemma UpdateShipmentStatus_cl_success:
  assumes "snd (UpdateShipmentStatus_cl clk shipmentID newStatus details cl) = None"
  shows "\<exists>h. GetShipmentHistory_cl shipmentID cl = Inr h \<and>
           GetShipmentHistory_cl shipmentID
               (fst (UpdateShipmentStatus_cl clk shipmentID newStatus details cl)) =
             Inr (h @ [\<lparr>st_Status = newStatus, st_Timestamp = clk 0, st_Details = details\<rparr>]) \<and>
           history_entries_cl (fst (UpdateShipmentStatus_cl clk shipmentID newStatus details cl)) =
             Suc (history_entries_cl cl) \<and>
           cl_LastUpdated (fst (UpdateShipmentStatus_cl clk shipmentID newStatus details cl)) = clk 1"
proof -
  let ?f = "\<lambda>shipment. shipment\<lparr>cs_CurrentStatus := newStatus,
                   cs_History := cs_History shipment @
                     [\<lparr>st_Status = newStatus, st_Timestamp = clk 0, st_Details = details\<rparr>]\<rparr>"
  let ?p = "\<lambda>shipment. cs_ShipmentID shipment = shipmentID"
  from assms obtain ys where ys: "update_first ?p ?f (cl_Shipments cl) = Some ys"
    by (auto simp: UpdateShipmentStatus_cl_def split: option.splits)
  from find_first_update_first[OF ys] obtain x where
    "find_first ?p (cl_Shipments cl) = Some x" "find_first ?p ys = Some (?f x)"
    by auto
  moreover have "sum_list (map (\<lambda>d. length (cs_History d)) ys) =
      Suc (sum_list (map (\<lambda>d. length (cs_History d)) (cl_Shipments cl)))"
    by (rule update_first_count[OF ys]) simp
  ultimately show ?thesis
    using ys
    by (simp add: UpdateShipmentStatus_cl_def GetShipmentHistory_cl_def history_entries_cl_def)
qed

text \<open>
  Claim C7. For the manufacturer ledger and for the common ledger: \<^verbatim>\<open>AddDrugRecord\<close> and
  \<^verbatim>\<open>AddShipmentRecord\<close> return the already-exists error and leave the ledger as it was
  when the id is present; \<^verbatim>\<open>UpdateDrugStatus\<close> and \<^verbatim>\<open>UpdateShipmentStatus\<close> return the
  not-found error and leave the ledger as it was when the id is absent; and every call
  that returns no error leaves the target record's history one entry longer (the entry of
  the call, after the entries it had; for an add, the single entry of the new record), the
  ledger's histories one entry longer in all, and \<^verbatim>\<open>last_updated\<close> at the clock reading
  of the call. Here \<open>k\<close>, \<open>sk\<close> stand for ids that may be present and \<open>n\<close>, \<open>sn\<close> for
  ids that may be absent.
\<close>

theorem ledger_methods:
  "(k \<in> dr_DrugID ` set (ml_Drugs ml) \<longrightarrow>
      AddDrugRecord clk k status ml = (ml, Some (DrugAlreadyExists k))) \<and>
   (snd (AddDrugRecord clk n status ml) = None \<longrightarrow>
      GetDrugHistory n (fst (AddDrugRecord clk n status ml)) =
        Inr [\<lparr>st_Status = status, st_Timestamp = clk 1, st_Details = []\<rparr>] \<and>
      history_entries_ml (fst (AddDrugRecord clk n status ml)) = Suc (history_entries_ml ml) \<and>
      ml_LastUpdated (fst (AddDrugRecord clk n status ml)) = clk 2) \<and>
   (n \<notin> dr_DrugID ` set (ml_Drugs ml) \<longrightarrow>
      UpdateDrugStatus clk n status details ml = (ml, Some (DrugNotFound n))) \<and>
   (snd (UpdateDrugStatus clk k status details ml) = None \<longrightarrow>
      (\<exists>h. GetDrugHistory k ml = Inr h \<and>
           GetDrugHistory k (fst (UpdateDrugStatus clk k status details ml)) =
             Inr (h @ [\<lparr>st_Status = status, st_Timestamp = clk 0, st_Details = details\<rparr>]) \<and>
           history_entries_ml (fst (UpdateDrugStatus clk k status details ml)) =
             Suc (history_entries_ml ml) \<and>
           ml_LastUpdated (fst (UpdateDrugStatus clk k status details ml)) = clk 1)) \<and>
   (sk \<in> sr_ShipmentID ` set (ml_Shipments ml) \<longrightarrow>
      AddShipmentRecord clk sk k status ml = (ml, Some (ShipmentAlreadyExists sk))) \<and>
   (snd (AddShipmentRecord clk sn k status ml) = None \<longrightarrow>
      GetShipmentHistory sn (fst (AddShipmentRecord clk sn k status ml)) =
        Inr [\<lparr>st_Status = status, st_Timestamp = clk 1, st_Details = []\<rparr>] \<and>
      history_entries_ml (fst (AddShipmentRecord clk sn k status ml)) =
        Suc (history_entries_ml ml) \<and>
      ml_LastUpdated (fst (AddShipmentRecord clk sn k status ml)) = clk 2) \<and>
   (sn \<notin> sr_ShipmentID ` set (ml_Shipments ml) \<longrightarrow>
      UpdateShipmentStatus clk sn status details ml = (ml, Some (ShipmentNotFound sn))) \<and>
   (snd (UpdateShipmentStatus clk sk status details ml) = None \<longrightarrow>
      (\<exists>h. GetShipmentHistory sk ml = Inr h \<and>
           GetShipmentHistory sk (fst (UpdateShipmentStatus clk sk status details ml)) =
             Inr (h @ [\<lparr>st_Status = status, st_Timestamp = clk 0, st_Details = details\<rparr>]) \<and>
           history_entries_ml (fst (UpdateShipmentStatus clk sk status details ml)) =
             Suc (history_entries_ml ml) \<and>
           ml_LastUpdated (fst (UpdateShipmentStatus clk sk status details ml)) = clk 1)) \<and>
   (k \<in> cd_DrugID ` set (cl_Drugs cl) \<longrightarrow>
      AddDrugRecord_cl clk k m status vh cl = (cl, Some (DrugAlreadyExists k))) \<and>
   (snd (AddDrugRecord_cl clk n m status vh cl) = None \<longrightarrow>
      GetDrugHistory_cl n (fst (AddDrugRecord_cl clk n m status vh cl)) =
        Inr [\<lparr>st_Status = status, st_Timestamp = clk 1, st_Details = []\<rparr>] \<and>
      history_entries_cl (fst (AddDrugRecord_cl clk n m status vh cl)) =
        Suc (history_entries_cl cl) \<and>
      cl_LastUpdated (fst (AddDrugRecord_cl clk n m status vh cl)) = clk 2) \<and>
   (n \<notin> cd_DrugID ` set (cl_Drugs cl) \<longrightarrow>
      UpdateDrugStatus_cl clk n status details cl = (cl, Some (DrugNotFound n))) \<and>
   (snd (UpdateDrugStatus_cl clk k status details cl) = None \<longrightarrow>
      (\<exists>h. GetDrugHistory_cl k cl = Inr h \<and>
           GetDrugHistory_cl k (fst (UpdateDrugStatus_cl clk k status details cl)) =
             Inr (h @ [\<lparr>st_Status = status, st_Timestamp = clk 0, st_Details = details\<rparr>]) \<and>
           history_entries_cl (fst (UpdateDrugStatus_cl clk k status details cl)) =
             Suc (history_entries_cl cl) \<and>
           cl_LastUpdated (fst (UpdateDrugStatus_cl clk k status details cl)) = clk 1)) \<and>
   (sk \<in> cs_ShipmentID ` set (cl_Shipments cl) \<longrightarrow>
      AddShipmentRecord_cl clk sk k m x status cl = (cl, Some (ShipmentAlreadyExists sk))) \<and>
   (snd (AddShipmentRecord_cl clk sn k m x status cl) = None \<longrightarrow>
      GetShipmentHistory_cl sn (fst (AddShipmentRecord_cl clk sn k m x status cl)) =
        Inr [\<lparr>st_Status = status, st_Timestamp = clk 1, st_Details = []\<rparr>] \<and>
      history_entries_cl (fst (AddShipmentRecord_cl clk sn k m x status cl)) =
        Suc (history_entries_cl cl) \<and>
      cl_LastUpdated (fst (AddShipmentRecord_cl clk sn k m x status cl)) = clk 2) \<and>
   (sn \<notin> cs_ShipmentID ` set (cl_Shipments cl) \<longrightarrow>
      UpdateShipmentStatus_cl clk sn status details cl = (cl, Some (ShipmentNotFound sn))) \<and>
   (snd (UpdateShipmentStatus_cl clk sk status details cl) = None \<longrightarrow>
      (\<exists>h. GetShipmentHistory_cl sk cl = Inr h \<and>
           GetShipmentHistory_cl sk (fst (UpdateShipmentStatus_cl clk sk status details cl)) =
             Inr (h @ [\<lparr>st_Status = status, st_Timestamp = clk 0, st_Details = details\<rparr>]) \<and>
           history_entries_cl (fst (UpdateShipmentStatus_cl clk sk status details cl)) =
             Suc (history_entries_cl cl) \<and>
           cl_LastUpdated (fst (UpdateShipmentStatus_cl clk sk status details cl)) = clk 1))"
  by (intro conjI impI
      AddDrugRecord_conflict AddDrugRecord_success[THEN conjunct1]
      AddDrugRecord_success[THEN conjunct2, THEN conjunct1]
      AddDrugRecord_success[THEN conjunct2, THEN conjunct2]
      UpdateDrugStatus_notfound UpdateDrugStatus_success
      AddShipmentRecord_conflict AddShipmentRecord_success[THEN conjunct1]
      AddShipmentRecord_success[THEN conjunct2, THEN conjunct1]
      AddShipmentRecord_success[THEN conjunct2, THEN conjunct2]
      UpdateShipmentStatus_notfound UpdateShipmentStatus_success
      AddDrugRecord_cl_conflict AddDrugRecord_cl_success[THEN conjunct1]
      AddDrugRecord_cl_success[THEN conjunct2, THEN conjunct1]
      AddDrugRecord_cl_success[THEN conjunct2, THEN conjunct2]
      UpdateDrugStatus_cl_notfound UpdateDrugStatus_cl_success
      AddShipmentRecord_cl_conflict AddShipmentRecord_cl_success[THEN conjunct1]
      AddShipmentRecord_cl_success[THEN conjunct2, THEN conjunct1]
      AddShipmentRecord_cl_success[THEN conjunct2, THEN conjunct2]
      UpdateShipmentStatus_cl_notfound UpdateShipmentStatus_cl_success)

theorem ledger_methods_witness:
  "''D1'' \<in> dr_DrugID ` set (ml_Drugs sample_ml) \<and>
   AddDrugRecord ticking ''D1'' ''in_transit'' sample_ml = (sample_ml, Some (DrugAlreadyExists ''D1'')) \<and>
   snd (AddDrugRecord ticking ''D2'' ''in_transit'' sample_ml) = None \<and>
   ml_LastUpdated (fst (AddDrugRecord ticking ''D2'' ''in_transit'' sample_ml)) = ticking 2 \<and>
   ''D2'' \<notin> dr_DrugID ` set (ml_Drugs sample_ml) \<and>
   UpdateDrugStatus ticking ''D2'' ''in_transit'' ''left the plant'' sample_ml = (sample_ml, Some (DrugNotFound ''D2'')) \<and>
   snd (UpdateDrugStatus ticking ''D1'' ''in_transit'' ''left the plant'' sample_ml) = None \<and>
   history_entries_ml (fst (UpdateDrugStatus ticking ''D1'' ''in_transit'' ''left the plant'' sample_ml)) = Suc (history_entries_ml sample_ml) \<and>
   ''S1'' \<in> sr_ShipmentID ` set (ml_Shipments sample_ml) \<and>
   AddShipmentRecord ticking ''S1'' ''D1'' ''in_transit'' sample_ml = (sample_ml, Some (ShipmentAlreadyExists ''S1'')) \<and>
   snd (AddShipmentRecord ticking ''S2'' ''D1'' ''in_transit'' sample_ml) = None \<and>
   ml_LastUpdated (fst (AddShipmentRecord ticking ''S2'' ''D1'' ''in_transit'' sample_ml)) = ticking 2 \<and>
   ''S2'' \<notin> sr_ShipmentID ` set (ml_Shipments sample_ml) \<and>
   UpdateShipmentStatus ticking ''S2'' ''in_transit'' ''left the plant'' sample_ml = (sample_ml, Some (ShipmentNotFound ''S2'')) \<and>
   snd (UpdateShipmentStatus ticking ''S1'' ''in_transit'' ''left the plant'' sample_ml) = None \<and>
   ml_LastUpdated (fst (UpdateShipmentStatus ticking ''S1'' ''in_transit'' ''left the plant'' sample_ml)) = ticking 1 \<and>
   ''D1'' \<in> cd_DrugID ` set (cl_Drugs sample_cl) \<and>
   AddDrugRecord_cl ticking ''D1'' ''M1'' ''in_transit'' ''vh'' sample_cl = (sample_cl, Some (DrugAlreadyExists ''D1'')) \<and>
   snd (AddDrugRecord_cl ticking ''D2'' ''M1'' ''in_transit'' ''vh'' sample_cl) = None \<and>
   cl_LastUpdated (fst (AddDrugRecord_cl ticking ''D2'' ''M1'' ''in_transit'' ''vh'' sample_cl)) = ticking 2 \<and>
   ''D2'' \<notin> cd_DrugID ` set (cl_Drugs sample_cl) \<and>
   UpdateDrugStatus_cl ticking ''D2'' ''in_transit'' ''left the plant'' sample_cl = (sample_cl, Some (DrugNotFound ''D2'')) \<and>
   snd (UpdateDrugStatus_cl ticking ''D1'' ''in_transit'' ''left the plant'' sample_cl) = None \<and>
   history_entries_cl (fst (UpdateDrugStatus_cl ticking ''D1'' ''in_transit'' ''left the plant'' sample_cl)) = Suc (history_entries_cl sample_cl) \<and>
   ''S1'' \<in> cs_ShipmentID ` set (cl_Shipments sample_cl) \<and>
   AddShipmentRecord_cl ticking ''S1'' ''D1'' ''M1'' ''X1'' ''in_transit'' sample_cl = (sample_cl, Some (ShipmentAlreadyExists ''S1'')) \<and>
   snd (AddShipmentRecord_cl ticking ''S2'' ''D1'' ''M1'' ''X1'' ''in_transit'' sample_cl) = None \<and>
   cl_LastUpdated (fst (AddShipmentRecord_cl ticking ''S2'' ''D1'' ''M1'' ''X1'' ''in_transit'' sample_cl)) = ticking 2 \<and>
   ''S2'' \<notin> cs_ShipmentID ` set (cl_Shipments sample_cl) \<and>
   UpdateShipmentStatus_cl ticking ''S2'' ''in_transit'' ''left the plant'' sample_cl = (sample_cl, Some (ShipmentNotFound ''S2'')) \<and>
   snd (UpdateShipmentStatus_cl ticking ''S1'' ''in_transit'' ''left the plant'' sample_cl) = None \<and>
   cl_LastUpdated (fst (UpdateShipmentStatus_cl ticking ''S1'' ''in_transit'' ''left the plant'' sample_cl)) = ticking 1"
proof -
  note T = ledger_methods [of "''D1''" sample_ml ticking "''in_transit''" "''D2''"
      "''left the plant''" "''S1''" "''S2''" sample_cl "''M1''" "''vh''" "''X1''"]
  have h1: "''D1'' \<in> dr_DrugID ` set (ml_Drugs sample_ml)"
    by (simp add: sample_ml_def AddDrugRecord_def UpdateDrugStatus_def AddShipmentRecord_def UpdateShipmentStatus_def)
  have c1: "AddDrugRecord ticking ''D1'' ''in_transit'' sample_ml = (sample_ml, Some (DrugAlreadyExists ''D1''))"
    using T [THEN conjunct1] h1 by auto
  have h2: "snd (AddDrugRecord ticking ''D2'' ''in_transit'' sample_ml) = None"
    by (simp add: sample_ml_def AddDrugRecord_def UpdateDrugStatus_def AddShipmentRecord_def UpdateShipmentStatus_def)
  have c2: "ml_LastUpdated (fst (AddDrugRecord ticking ''D2'' ''in_transit'' sample_ml)) = ticking 2"
    using T [THEN conjunct2, THEN conjunct1] h2 by auto
  have h3: "''D2'' \<notin> dr_DrugID ` set (ml_Drugs sample_ml)"
    by (simp add: sample_ml_def AddDrugRecord_def UpdateDrugStatus_def AddShipmentRecord_def UpdateShipmentStatus_def)
  have c3: "UpdateDrugStatus ticking ''D2'' ''in_transit'' ''left the plant'' sample_ml = (sample_ml, Some (DrugNotFound ''D2''))"
    using T [THEN conjunct2, THEN conjunct2, THEN conjunct1] h3 by auto
  have h4: "snd (UpdateDrugStatus ticking ''D1'' ''in_transit'' ''left the plant'' sample_ml) = None"
    by (simp add: sample_ml_def AddDrugRecord_def UpdateDrugStatus_def AddShipmentRecord_def UpdateShipmentStatus_def)
  have c4: "history_entries_ml (fst (UpdateDrugStatus ticking ''D1'' ''in_transit'' ''left the plant'' sample_ml)) = Suc (history_entries_ml sample_ml)"
    using T [THEN conjunct2, THEN conjunct2, THEN conjunct2, THEN conjunct1] h4 by auto
  have h5: "''S1'' \<in> sr_ShipmentID ` set (ml_Shipments sample_ml)"
    by (simp add: sample_ml_def AddDrugRecord_def UpdateDrugStatus_def AddShipmentRecord_def UpdateShipmentStatus_def)
  have c5: "AddShipmentRecord ticking ''S1'' ''D1'' ''in_transit'' sample_ml = (sample_ml, Some (ShipmentAlreadyExists ''S1''))"
    using T [THEN conjunct2, THEN conjunct2, THEN conjunct2, THEN conjunct2, THEN conjunct1] h5 by auto
  have h6: "snd (AddShipmentRecord ticking ''S2'' ''D1'' ''in_transit'' sample_ml) = None"
    by (simp add: sample_ml_def AddDrugRecord_def UpdateDrugStatus_def AddShipmentRecord_def UpdateShipmentStatus_def)
  have c6: "ml_LastUpdated (fst (AddShipmentRecord ticking ''S2'' ''D1'' ''in_transit'' sample_ml)) = ticking 2"
    using T [THEN conjunct2, THEN conjunct2, THEN conjunct2, THEN conjunct2, THEN conjunct2, THEN conjunct1] h6 by auto
  have h7: "''S2'' \<notin> sr_ShipmentID ` set (ml_Shipments sample_ml)"
    by (simp add: sample_ml_def AddDrugRecord_def UpdateDrugStatus_def AddShipmentRecord_def UpdateShipmentStatus_def)
  have c7: "UpdateShipmentStatus ticking ''S2'' ''in_transit'' ''left the plant'' sample_ml = (sample_ml, Some (ShipmentNotFound ''S2''))"
    using T [THEN conjunct2, THEN conjunct2, THEN conjunct2, THEN conjunct2, THEN conjunct2, THEN conjunct2, THEN conjunct1] h7 by auto
  have h8: "snd (UpdateShipmentStatus ticking ''S1'' ''in_transit'' ''left the plant'' sample_ml) = None"
    by (simp add: sample_ml_def AddDrugRecord_def UpdateDrugStatus_def AddShipmentRecord_def UpdateShipmentStatus_def)
  have c8: "ml_LastUpdated (fst (UpdateShipmentStatus ticking ''S1'' ''in_transit'' ''left the plant'' sample_ml)) = ticking 1"
    using T [THEN conjunct2, THEN conjunct2, THEN conjunct2, THEN conjunct2, THEN conjunct2, THEN conjunct2, THEN conjunct2, THEN conjunct1] h8 by auto
  have h9: "''D1'' \<in> cd_DrugID ` set (cl_Drugs sample_cl)"
    by (simp add: sample_cl_def AddDrugRecord_cl_def UpdateDrugStatus_cl_def AddShipmentRecord_cl_def UpdateShipmentStatus_cl_def)
  have c9: "AddDrugRecord_cl ticking ''D1'' ''M1'' ''in_transit'' ''vh'' sample_cl = (sample_cl, Some (DrugAlreadyExists ''D1''))"
    using T [THEN conjunct2, THEN conjunct2, THEN conjunct2, THEN conjunct2, THEN conjunct2, THEN conjunct2, THEN conjunct2, THEN conjunct2, THEN conjunct1] h9 by auto
  have h10: "snd (AddDrugRecord_cl ticking ''D2'' ''M1'' ''in_transit'' ''vh'' sample_cl) = None"
    by (simp add: sample_cl_def AddDrugRecord_cl_def UpdateDrugStatus_cl_def AddShipmentRecord_cl_def UpdateShipmentStatus_cl_def)
  have c10: "cl_LastUpdated (fst (AddDrugRecord_cl ticking ''D2'' ''M1'' ''in_transit'' ''vh'' sample_cl)) = ticking 2"
    using T [THEN conjunct2, THEN conjunct2, THEN conjunct2, THEN conjunct2, THEN conjunct2, THEN conjunct2, THEN conjunct2, THEN conjunct2, THEN conjunct2, THEN conjunct1] h10 by auto
  have h11: "''D2'' \<notin> cd_DrugID ` set (cl_Drugs sample_cl)"
    by (simp add: sample_cl_def AddDrugRecord_cl_def UpdateDrugStatus_cl_def AddShipmentRecord_cl_def UpdateShipmentStatus_cl_def)
  have c11: "UpdateDrugStatus_cl ticking ''D2'' ''in_transit'' ''left the plant'' sample_cl = (sample_cl, Some (DrugNotFound ''D2''))"
    using T [THEN conjunct2, THEN conjunct2, THEN conjunct2, THEN conjunct2, THEN conjunct2, THEN conjunct2, THEN conjunct2, THEN conjunct2, THEN conjunct2, THEN conjunct2, THEN conjunct1] h11 by auto
  have h12: "snd (UpdateDrugStatus_cl ticking ''D1'' ''in_transit'' ''left the plant'' sample_cl) = None"
    by (simp add: sample_cl_def AddDrugRecord_cl_def UpdateDrugStatus_cl_def AddShipmentRecord_cl_def UpdateShipmentStatus_cl_def)
  have c12: "history_entries_cl (fst (UpdateDrugStatus_cl ticking ''D1'' ''in_transit'' ''left the plant'' sample_cl)) = Suc (history_entries_cl sample_cl)"
    using T [THEN conjunct2, THEN conjunct2, THEN conjunct2, THEN conjunct2, THEN conjunct2, THEN conjunct2, THEN conjunct2, THEN conjunct2, THEN conjunct2, THEN conjunct2, THEN conjunct2, THEN conjunct1] h12 by auto
  have h13: "''S1'' \<in> cs_ShipmentID ` set (cl_Shipments sample_cl)"
    by (simp add: sample_cl_def AddDrugRecord_cl_def UpdateDrugStatus_cl_def AddShipmentRecord_cl_def UpdateShipmentStatus_cl_def)
  have c13: "AddShipmentRecord_cl ticking ''S1'' ''D1'' ''M1'' ''X1'' ''in_transit'' sample_cl = (sample_cl, Some (ShipmentAlreadyExists ''S1''))"
    using T [THEN conjunct2, THEN conjunct2, THEN conjunct2, THEN conjunct2, THEN conjunct2, THEN conjunct2, THEN conjunct2, THEN conjunct2, THEN conjunct2, THEN conjunct2, THEN conjunct2, THEN conjunct2, THEN conjunct1] h13 by auto
  have h14: "snd (AddShipmentRecord_cl ticking ''S2'' ''D1'' ''M1'' ''X1'' ''in_transit'' sample_cl) = None"
    by (simp add: sample_cl_def AddDrugRecord_cl_def UpdateDrugStatus_cl_def AddShipmentRecord_cl_def UpdateShipmentStatus_cl_def)
  have c14: "cl_LastUpdated (fst (AddShipmentRecord_cl ticking ''S2'' ''D1'' ''M1'' ''X1'' ''in_transit'' sample_cl)) = ticking 2"
    using T [THEN conjunct2, THEN conjunct2, THEN conjunct2, THEN conjunct2, THEN conjunct2, THEN conjunct2, THEN conjunct2, THEN conjunct2, THEN conjunct2, THEN conjunct2, THEN conjunct2, THEN conjunct2, THEN conjunct2, THEN conjunct1] h14 by auto
  have h15: "''S2'' \<notin> cs_ShipmentID ` set (cl_Shipments sample_cl)"
    by (simp add: sample_cl_def AddDrugRecord_cl_def UpdateDrugStatus_cl_def AddShipmentRecord_cl_def UpdateShipmentStatus_cl_def)
  have c15: "UpdateShipmentStatus_cl ticking ''S2'' ''in_transit'' ''left the plant'' sample_cl = (sample_cl, Some (ShipmentNotFound ''S2''))"
    using T [THEN conjunct2, THEN conjunct2, THEN conjunct2, THEN conjunct2, THEN conjunct2, THEN conjunct2, THEN conjunct2, THEN conjunct2, THEN conjunct2, THEN conjunct2, THEN conjunct2, THEN conjunct2, THEN conjunct2, THEN conjunct2, THEN conjunct1] h15 by auto
  have h16: "snd (UpdateShipmentStatus_cl ticking ''S1'' ''in_transit'' ''left the plant'' sample_cl) = None"
    by (simp add: sample_cl_def AddDrugRecord_cl_def UpdateDrugStatus_cl_def AddShipmentRecord_cl_def UpdateShipmentStatus_cl_def)
  have c16: "cl_LastUpdated (fst (UpdateShipmentStatus_cl ticking ''S1'' ''in_transit'' ''left the plant'' sample_cl)) = ticking 1"
    using T [THEN conjunct2, THEN conjunct2, THEN conjunct2, THEN conjunct2, THEN conjunct2, THEN conjunct2, THEN conjunct2, THEN conjunct2, THEN conjunct2, THEN conjunct2, THEN conjunct2, THEN conjunct2, THEN conjunct2, THEN conjunct2, THEN conjunct2] h16 by auto
  show ?thesis
    by (intro conjI h1 c1 h2 c2 h3 c3 h4 c4 h5 c5 h6 c6 h7 c7 h8 c8 h9 c9 h10 c10 h11 c11 h12 c12 h13 c13 h14 c14 h15 c15 h16 c16)
qed

section \<open>Webhook signature check\<close>

text \<open>
  Claim C9. With an empty secret the handler never looks at the signature header: its
  answer is the one it gives a request without the header, it is never 401, and a payload
  that parses is acknowledged with 200 and handed to \<^verbatim>\<open>processRecordWithRetry\<close> (INSERT,
  UPDATE) or \<^verbatim>\<open>processDeleteWithRetry\<close> (DELETE). With a non-empty secret the answer is
  401 exactly when the header differs from the secret; a missing or empty header is
  always rejected.
\<close>

theorem webhook_signature:
  "(Secret = '''' \<longrightarrow>
      HandleWebhook Secret header body = HandleWebhook Secret None body \<and>
      fst (HandleWebhook Secret header body) \<noteq> 401 \<and>
      (\<forall>payload. body = Some payload \<longrightarrow>
         fst (HandleWebhook Secret header body) = 200 \<and>
         (wp_Type payload = ''INSERT'' \<or> wp_Type payload = ''UPDATE'' \<longrightarrow>
            snd (HandleWebhook Secret header body) =
              Go_processRecordWithRetry (wp_Table payload) (wp_Record payload)) \<and>
         (wp_Type payload = ''DELETE'' \<longrightarrow>
            snd (HandleWebhook Secret header body) =
              Go_processDeleteWithRetry (wp_Table payload) (wp_OldRecord payload)))) \<and>
   (Secret \<noteq> '''' \<longrightarrow>
      (fst (HandleWebhook Secret header body) = 401) = (header_Get header \<noteq> Secret) \<and>
      (header = None \<or> header = Some '''' \<longrightarrow> HandleWebhook Secret header body = (401, NoTask)))"
  by (auto simp: HandleWebhook_def verifySignature_def header_Get_def split: option.splits)

theorem webhook_signature_witness:
  "HandleWebhook '''' (Some ''anything'') (Some sample_insert) =
     HandleWebhook '''' None (Some sample_insert) \<and>
   HandleWebhook '''' None (Some sample_insert) =
     (200, Go_processRecordWithRetry ''drugs'' (wp_Record sample_insert)) \<and>
   ''s3cret'' \<noteq> '''' \<and>
   fst (HandleWebhook ''s3cret'' (Some ''guess'') (Some sample_insert)) = 401 \<and>
   header_Get (Some ''guess'') \<noteq> ''s3cret'' \<and>
   HandleWebhook ''s3cret'' None (Some sample_insert) = (401, NoTask) \<and>
   fst (HandleWebhook ''s3cret'' (Some ''s3cret'') (Some sample_insert)) \<noteq> 401"
proof -
  have ty: "wp_Type sample_insert = ''INSERT''" and tb: "wp_Table sample_insert = ''drugs''"
    by (simp_all add: sample_insert_def)
  have a: "HandleWebhook '''' (Some ''anything'') (Some sample_insert) =
      HandleWebhook '''' None (Some sample_insert) \<and>
      snd (HandleWebhook '''' (Some ''anything'') (Some sample_insert)) =
        Go_processRecordWithRetry (wp_Table sample_insert) (wp_Record sample_insert) \<and>
      fst (HandleWebhook '''' (Some ''anything'') (Some sample_insert)) = 200"
    using webhook_signature [of "''''" "Some ''anything''" "Some sample_insert"] ty
    by auto
  have b: "(fst (HandleWebhook ''s3cret'' (Some ''guess'') (Some sample_insert)) = 401) =
      (header_Get (Some ''guess'') \<noteq> ''s3cret'')"
    using webhook_signature [of "''s3cret''" "Some ''guess''" "Some sample_insert"] by simp
  have c: "HandleWebhook ''s3cret'' None (Some sample_insert) = (401, NoTask)"
    using webhook_signature [of "''s3cret''" None "Some sample_insert"] by simp
  have d: "(fst (HandleWebhook ''s3cret'' (Some ''s3cret'') (Some sample_insert)) = 401) =
      (header_Get (Some ''s3cret'') \<noteq> ''s3cret'')"
    using webhook_signature [of "''s3cret''" "Some ''s3cret''" "Some sample_insert"] by simp
  have g: "header_Get (Some ''guess'') \<noteq> ''s3cret''" "header_Get (Some ''s3cret'') = ''s3cret''"
    by (simp_all add: header_Get_def)
  from a have a': "HandleWebhook '''' None (Some sample_insert) =
     (200, Go_processRecordWithRetry ''drugs'' (wp_Record sample_insert))"
    using tb by (auto simp: prod_eq_iff)
  show ?thesis
    using a a' b c d g by auto
qed

section \<open>Validating a transaction hash\<close>

lemma ValidateTransaction_eq:
  "ValidateTransaction H J now txHash txData =
     (txHash = H (now @ J txData @
        (case as_string txData ''previous_hash'' of Some prevHash \<Rightarrow> prevHash | None \<Rightarrow> '''')))"
  by (auto simp: ValidateTransaction_def NewTransaction_def SetPreviousHash_def CalculateHash_def
      Let_def split: option.splits)

lemma NewTransaction_hash: "tx_Hash (NewTransaction H J t0 data) = H (t0 @ J data @ '''')"
  by (simp add: NewTransaction_def CalculateHash_def)

text \<open>
  Claim C2 (the code departs from it). \<^verbatim>\<open>ValidateTransaction\<close> stamps the transaction it
  rebuilds with the clock reading of the validation (lemma \<open>ValidateTransaction_eq\<close>),
  not with the timestamp captured when the transaction was created. So the hash that
  \<^verbatim>\<open>NewTransaction\<close> computed at \<open>t0\<close>, which is the digest of the creation timestamp, the
  serialised data and the previous hash captured at creation, is rejected by a validation
  that runs at \<open>t1\<close> whenever the digests of the two preimages differ.
\<close>

theorem ValidateTransaction_rejects_own_hash:
  assumes "as_string txData ''previous_hash'' = None"
    and "H (t0 @ J txData) \<noteq> H (t1 @ J txData)"
  shows "tx_Hash (NewTransaction H J t0 txData) = H (t0 @ J txData @ tx_PreviousHash (NewTransaction H J t0 txData)) \<and>
         tx_Timestamp (NewTransaction H J t0 txData) = t0 \<and>
         \<not> ValidateTransaction H J t1 (tx_Hash (NewTransaction H J t0 txData)) txData"
  using assms
  by (simp add: ValidateTransaction_eq) (simp add: NewTransaction_def CalculateHash_def)

theorem ValidateTransaction_rejects_own_hash_witness:
  "as_string sample_data ''previous_hash'' = None \<and>
   toy_hash (''2024-05-01T12:00:00Z'' @ toy_marshal sample_data) \<noteq>
     toy_hash (''2024-05-01T12:00:01Z'' @ toy_marshal sample_data) \<and>
   \<not> ValidateTransaction toy_hash toy_marshal ''2024-05-01T12:00:01Z''
       (tx_Hash (NewTransaction toy_hash toy_marshal ''2024-05-01T12:00:00Z'' sample_data))
       sample_data"
proof -
  have a: "as_string sample_data ''previous_hash'' = None"
    by (simp add: sample_data_def as_string_def)
  have b: "toy_hash (''2024-05-01T12:00:00Z'' @ toy_marshal sample_data) \<noteq>
     toy_hash (''2024-05-01T12:00:01Z'' @ toy_marshal sample_data)"
    by (simp add: toy_hash_def)
  from ValidateTransaction_rejects_own_hash
         [where H = toy_hash and J = toy_marshal and txData = sample_data
            and ?t0.0 = "''2024-05-01T12:00:00Z''" and ?t1.0 = "''2024-05-01T12:00:01Z''", OF a b]
       a b
  show ?thesis by blast
qed

section \<open>What drug verification returns\<close>

lemma VerifyTransaction_result:
  "fst (VerifyTransaction H J clk txID w) =
     (case find_first (\<lambda>block. blk_TxHash block = txID) (chain_blocks w) of
        None \<Rightarrow> Inl (TransactionNotFound txID)
      | Some block \<Rightarrow>
          (case blk_TxData block of
             JObject txData \<Rightarrow> Inr (ValidateTransaction H J (clk 1) txID txData)
           | _ \<Rightarrow> Inl InvalidTransactionDataFormat))"
  by (simp add: VerifyTransaction_def GetBlockchainLedger_def chain_blocks_def initial_ledger_def
      split: option.splits jvalue.splits)

text \<open>
  Claim C6, amended. \<^verbatim>\<open>VerifyDrug\<close> returns the store's error when the drug is not in the
  external store and an error when it is not in the common ledger. For a drug in both it
  returns false with no error when the two verification hashes differ; when they agree it
  returns what \<^verbatim>\<open>VerifyTransaction\<close> returns for the row's \<^verbatim>\<open>blockchain_tx_id\<close>: the
  boolean of \<^verbatim>\<open>ValidateTransaction\<close> with no error when the first chain block with that
  hash holds an object, the error \<^verbatim>\<open>transaction not found\<close> when no block has that hash,
  and the error \<^verbatim>\<open>invalid transaction data format\<close> when the block's data is not an
  object.
\<close>

theorem VerifyDrug_results:
  "(GetDrug drugID w = Inl e \<longrightarrow> fst (manager_VerifyDrug H J clk drugID w) = Inl e) \<and>
   (GetDrug drugID w = Inr drug \<and>
    find_first (\<lambda>d. cd_DrugID d = drugID) (cl_Drugs (GetCommonLedger w)) = None \<longrightarrow>
      fst (manager_VerifyDrug H J clk drugID w) = Inl (DrugNotInCommonLedger drugID)) \<and>
   (GetDrug drugID w = Inr drug \<and>
    find_first (\<lambda>d. cd_DrugID d = drugID) (cl_Drugs (GetCommonLedger w)) = Some commonDrug \<longrightarrow>
      (d_VerificationHash drug \<noteq> cd_VerificationHash commonDrug \<longrightarrow>
         fst (manager_VerifyDrug H J clk drugID w) = Inr False) \<and>
      (d_VerificationHash drug = cd_VerificationHash commonDrug \<longrightarrow>
         (\<forall>block txData.
            find_first (\<lambda>b. blk_TxHash b = d_BlockchainTxID drug) (chain_blocks w) = Some block \<and>
            blk_TxData block = JObject txData \<longrightarrow>
              fst (manager_VerifyDrug H J clk drugID w) =
                Inr (ValidateTransaction H J (clk 1) (d_BlockchainTxID drug) txData)) \<and>
         (find_first (\<lambda>b. blk_TxHash b = d_BlockchainTxID drug) (chain_blocks w) = None \<longrightarrow>
            fst (manager_VerifyDrug H J clk drugID w) =
              Inl (TransactionNotFound (d_BlockchainTxID drug))) \<and>
         (\<forall>block.
            find_first (\<lambda>b. blk_TxHash b = d_BlockchainTxID drug) (chain_blocks w) = Some block \<and>
            (\<forall>txData. blk_TxData block \<noteq> JObject txData) \<longrightarrow>
              fst (manager_VerifyDrug H J clk drugID w) = Inl InvalidTransactionDataFormat)))"
  by (auto simp: manager_VerifyDrug_def VerifyTransaction_result split: jvalue.splits)

lemma GetDrug_verify_world:
  "GetDrug ''D1'' (verify_world vh txid blocks) =
     Inr \<lparr>d_ID = ''D1'', d_ManufacturerID = ''M1'', d_Name = ''Aspirin'', d_Description = [],
          d_Status = ''created'', d_VerificationHash = vh, d_BlockchainTxID = txid,
          d_CreatedAt = zero_time, d_UpdatedAt = zero_time\<rparr>"
  by (simp add: GetDrug_def verify_world_def empty_world_def Supabase_Select_def row_eq_def
      drug_row_def decode_Drug_def str_field_def)

lemma common_verify_world:
  "find_first (\<lambda>d. cd_DrugID d = ''D1'') (cl_Drugs (GetCommonLedger (verify_world vh txid blocks))) =
     Some (hd (cl_Drugs sample_cl)) \<and> cd_VerificationHash (hd (cl_Drugs sample_cl)) = ''vh-D1''"
  by (simp add: GetCommonLedger_def verify_world_def empty_world_def sample_cl_def)

lemma chain_verify_world: "chain_blocks (verify_world vh txid blocks) = blocks"
  by (simp add: chain_blocks_def verify_world_def empty_world_def)

text \<open>
  The claim as stated fails: drug D1 is in the external store and in the common ledger
  with equal verification hashes, its row still names the transaction \<^verbatim>\<open>pending\<close>, the
  chain is empty, and \<^verbatim>\<open>VerifyDrug\<close> returns an error.
\<close>

theorem VerifyDrug_error_counterexample:
  "GetDrug ''D1'' (verify_world ''vh-D1'' ''pending'' []) =
     Inr \<lparr>d_ID = ''D1'', d_ManufacturerID = ''M1'', d_Name = ''Aspirin'', d_Description = [],
          d_Status = ''created'', d_VerificationHash = ''vh-D1'', d_BlockchainTxID = ''pending'',
          d_CreatedAt = zero_time, d_UpdatedAt = zero_time\<rparr> \<and>
   find_first (\<lambda>d. cd_DrugID d = ''D1'')
     (cl_Drugs (GetCommonLedger (verify_world ''vh-D1'' ''pending'' []))) =
     Some (hd (cl_Drugs sample_cl)) \<and>
   fst (manager_VerifyDrug toy_hash toy_marshal noon ''D1'' (verify_world ''vh-D1'' ''pending'' [])) =
     Inl (TransactionNotFound ''pending'')"
  by (simp add: GetDrug_verify_world common_verify_world manager_VerifyDrug_def
      VerifyTransaction_result chain_verify_world)

lemma GetDrug_empty_world: "GetDrug ''D1'' empty_world = Inl (DbDrugNotFound ''D1'')"
  by (simp add: GetDrug_def empty_world_def Supabase_Select_def)

theorem VerifyDrug_results_witness:
  "GetDrug ''D1'' empty_world = Inl (DbDrugNotFound ''D1'') \<and>
   fst (manager_VerifyDrug toy_hash toy_marshal noon ''D1'' empty_world) =
     Inl (DbDrugNotFound ''D1'') \<and>
   find_first (\<lambda>d. cd_DrugID d = ''D1'')
     (cl_Drugs (GetCommonLedger ((verify_world ''vh-D1'' ''aa01'' [sample_block])
        \<lparr>CommonLedgerFile := \<lparr>cl_Drugs = [], cl_Shipments = [], cl_LastUpdated = []\<rparr>\<rparr>))) = None \<and>
   fst (manager_VerifyDrug toy_hash toy_marshal noon ''D1''
          ((verify_world ''vh-D1'' ''aa01'' [sample_block])
             \<lparr>CommonLedgerFile := \<lparr>cl_Drugs = [], cl_Shipments = [], cl_LastUpdated = []\<rparr>\<rparr>)) =
     Inl (DrugNotInCommonLedger ''D1'') \<and>
   ''forged'' \<noteq> cd_VerificationHash (hd (cl_Drugs sample_cl)) \<and>
   fst (manager_VerifyDrug toy_hash toy_marshal noon ''D1''
          (verify_world ''forged'' ''aa01'' [sample_block])) = Inr False \<and>
   find_first (\<lambda>b. blk_TxHash b = ''aa01'') (chain_blocks (verify_world ''vh-D1'' ''aa01'' [sample_block])) =
     Some sample_block \<and>
   blk_TxData sample_block = JObject sample_data \<and>
   fst (manager_VerifyDrug toy_hash toy_marshal noon ''D1''
          (verify_world ''vh-D1'' ''aa01'' [sample_block])) =
     Inr (ValidateTransaction toy_hash toy_marshal (noon 1) ''aa01'' sample_data) \<and>
   find_first (\<lambda>b. blk_TxHash b = ''pending'') (chain_blocks (verify_world ''vh-D1'' ''pending'' [])) =
     None \<and>
   fst (manager_VerifyDrug toy_hash toy_marshal noon ''D1'' (verify_world ''vh-D1'' ''pending'' [])) =
     Inl (TransactionNotFound ''pending'') \<and>
   (\<forall>txData. blk_TxData (sample_block\<lparr>blk_TxData := JNull\<rparr>) \<noteq> JObject txData) \<and>
   fst (manager_VerifyDrug toy_hash toy_marshal noon ''D1''
          (verify_world ''vh-D1'' ''aa01'' [sample_block\<lparr>blk_TxData := JNull\<rparr>])) =
     Inl InvalidTransactionDataFormat"
proof -
  let ?V = "manager_VerifyDrug toy_hash toy_marshal noon ''D1''"
  let ?drug = "\<lambda>vh txid. \<lparr>d_ID = ''D1'', d_ManufacturerID = ''M1'', d_Name = ''Aspirin'',
          d_Description = [], d_Status = ''created'', d_VerificationHash = vh,
          d_BlockchainTxID = txid, d_CreatedAt = zero_time, d_UpdatedAt = zero_time\<rparr>"
  let ?nocl = "(verify_world ''vh-D1'' ''aa01'' [sample_block])
        \<lparr>CommonLedgerFile := \<lparr>cl_Drugs = [], cl_Shipments = [], cl_LastUpdated = []\<rparr>\<rparr>"
  have a: "fst (?V empty_world) = Inl (DbDrugNotFound ''D1'')"
    using VerifyDrug_results [where w = empty_world and drugID = "''D1''"
        and e = "DbDrugNotFound ''D1''" and H = toy_hash and J = toy_marshal and clk = noon]
      GetDrug_empty_world
    by blast
  have b0: "GetDrug ''D1'' ?nocl = Inr (?drug ''vh-D1'' ''aa01'')"
    by (simp add: GetDrug_def verify_world_def empty_world_def Supabase_Select_def row_eq_def
      drug_row_def decode_Drug_def str_field_def)
  have b1: "find_first (\<lambda>d. cd_DrugID d = ''D1'') (cl_Drugs (GetCommonLedger ?nocl)) = None"
    by (simp add: GetCommonLedger_def)
  have b: "fst (?V ?nocl) = Inl (DrugNotInCommonLedger ''D1'')"
    using VerifyDrug_results [where w = ?nocl and drugID = "''D1''"
        and drug = "?drug ''vh-D1'' ''aa01''" and H = toy_hash and J = toy_marshal and clk = noon]
      b0 b1
    by blast
  note cl = common_verify_world
  have c0: "''forged'' \<noteq> cd_VerificationHash (hd (cl_Drugs sample_cl))"
    by (simp add: sample_cl_def)
  have c: "fst (?V (verify_world ''forged'' ''aa01'' [sample_block])) = Inr False"
    using VerifyDrug_results [where w = "verify_world ''forged'' ''aa01'' [sample_block]"
        and drugID = "''D1''" and drug = "?drug ''forged'' ''aa01''"
        and commonDrug = "hd (cl_Drugs sample_cl)"
        and H = toy_hash and J = toy_marshal and clk = noon]
      GetDrug_verify_world [of "''forged''" "''aa01''" "[sample_block]"]
      cl [of "''forged''" "''aa01''" "[sample_block]"] c0
    by simp
  have d0: "find_first (\<lambda>b. blk_TxHash b = ''aa01'')
      (chain_blocks (verify_world ''vh-D1'' ''aa01'' [sample_block])) = Some sample_block"
    and d1: "blk_TxData sample_block = JObject sample_data"
    by (simp_all add: chain_verify_world sample_block_def)
  have d: "fst (?V (verify_world ''vh-D1'' ''aa01'' [sample_block])) =
     Inr (ValidateTransaction toy_hash toy_marshal (noon 1) ''aa01'' sample_data)"
    using VerifyDrug_results [where w = "verify_world ''vh-D1'' ''aa01'' [sample_block]"
        and drugID = "''D1''" and drug = "?drug ''vh-D1'' ''aa01''"
        and commonDrug = "hd (cl_Drugs sample_cl)"
        and H = toy_hash and J = toy_marshal and clk = noon]
      GetDrug_verify_world [of "''vh-D1''" "''aa01''" "[sample_block]"]
      cl [of "''vh-D1''" "''aa01''" "[sample_block]"] d0 d1
    by simp
  have e0: "find_first (\<lambda>b. blk_TxHash b = ''pending'')
      (chain_blocks (verify_world ''vh-D1'' ''pending'' [])) = None"
    by (simp add: chain_verify_world)
  have e: "fst (?V (verify_world ''vh-D1'' ''pending'' [])) = Inl (TransactionNotFound ''pending'')"
    using VerifyDrug_results [where w = "verify_world ''vh-D1'' ''pending'' []"
        and drugID = "''D1''" and drug = "?drug ''vh-D1'' ''pending''"
        and commonDrug = "hd (cl_Drugs sample_cl)"
        and H = toy_hash and J = toy_marshal and clk = noon]
      GetDrug_verify_world [of "''vh-D1''" "''pending''" "[]"]
      cl [of "''vh-D1''" "''pending''" "[]"] e0
    by simp
  have f0: "find_first (\<lambda>b. blk_TxHash b = ''aa01'')
      (chain_blocks (verify_world ''vh-D1'' ''aa01'' [sample_block\<lparr>blk_TxData := JNull\<rparr>])) =
        Some (sample_block\<lparr>blk_TxData := JNull\<rparr>)"
    and f1: "\<forall>txData. blk_TxData (sample_block\<lparr>blk_TxData := JNull\<rparr>) \<noteq> JObject txData"
    by (simp_all add: chain_verify_world sample_block_def)
  have f: "fst (?V (verify_world ''vh-D1'' ''aa01'' [sample_block\<lparr>blk_TxData := JNull\<rparr>])) =
     Inl InvalidTransactionDataFormat"
    using VerifyDrug_results
        [where w = "verify_world ''vh-D1'' ''aa01'' [sample_block\<lparr>blk_TxData := JNull\<rparr>]"
        and drugID = "''D1''" and drug = "?drug ''vh-D1'' ''aa01''"
        and commonDrug = "hd (cl_Drugs sample_cl)"
        and H = toy_hash and J = toy_marshal and clk = noon]
      GetDrug_verify_world [of "''vh-D1''" "''aa01''" "[sample_block\<lparr>blk_TxData := JNull\<rparr>]"]
      cl [of "''vh-D1''" "''aa01''" "[sample_block\<lparr>blk_TxData := JNull\<rparr>]"] f0 f1
    by simp
  show ?thesis
    by (intro conjI GetDrug_empty_world a b1 b c0 c d0 d1 d e0 e f1 f)
qed

section \<open>The cascade of a delivered shipment\<close>

lemma as_string_update:
  "as_string (AList.update k v m) k' = (if k' = k then (case v of JString s \<Rightarrow> Some s | _ \<Rightarrow> None)
                                        else as_string m k')"
  by (simp add: as_string_def update_conv')

lemma map_of_merge_tx:
  "map_of (patch_tx h row) k = (if k = ''blockchain_tx_id'' then Some (JString h) else map_of row k)"
  by (simp add: patch_tx_def merge_row_def update_conv')

lemma row_eq_patch_tx:
  "fst kv \<noteq> ''blockchain_tx_id'' \<Longrightarrow> row_eq (patch_tx h row) kv = row_eq row kv"
  by (simp add: row_eq_def map_of_merge_tx)

text \<open>frame of AddTransactionToBlockchain\<close>

lemma ProcessedTxs_AddTransactionToBlockchain:
  "ProcessedTxs (AddTransactionToBlockchain clk txData txHash w) = ProcessedTxs w"
  by (simp add: AddTransactionToBlockchain_def GetBlockchainLedger_def WriteFile_def
      add_drug_to_ledgers_def GetManufacturerLedger_def SaveManufacturerLedger_def
      SaveCommonLedger_def GetCommonLedger_def Let_def split: option.splits)

lemma ledgers_AddTransactionToBlockchain:
  "as_string txData ''manufacturer'' = None \<Longrightarrow>
     ManufacturerLedgersDir (AddTransactionToBlockchain clk txData txHash w) =
       ManufacturerLedgersDir w \<and>
     CommonLedgerFile (AddTransactionToBlockchain clk txData txHash w) = CommonLedgerFile w"
  by (simp add: AddTransactionToBlockchain_def GetBlockchainLedger_def WriteFile_def
      as_string_update Let_def split: option.splits)

lemma Supabase_AddTransactionToBlockchain:
  "Supabase (AddTransactionToBlockchain clk txData txHash w) table =
     (if table = ''blockchain_ledger''
      then Supabase w table @
             [[(''tx_hash'', JString txHash), (''tx_data'', JObject txData),
               (''block_height'', JNumber (sint
                  ((case BlockchainFile w of None \<Rightarrow> 0 | Some l \<Rightarrow> bl_BlockHeight l) + 1))),
               (''timestamp'', JString (clk 3))]]
      else (case as_string txData ''drug_id'' of
              Some drugID \<Rightarrow>
                (if table = ''drugs''
                 then map (\<lambda>row. if row_eq row (''drug_id'', drugID) then patch_tx txHash row else row)
                        (Supabase w table)
                 else Supabase w table)
            | None \<Rightarrow>
                (case as_string txData ''shipment_id'' of
                   Some shipmentID \<Rightarrow>
                     (if table = ''shipments''
                      then map (\<lambda>row. if row_eq row (''shipment_id'', shipmentID)
                                       then patch_tx txHash row else row)
                             (Supabase w table)
                      else Supabase w table)
                 | None \<Rightarrow> Supabase w table)))"
  by (simp add: AddTransactionToBlockchain_def GetBlockchainLedger_def WriteFile_def
      add_drug_to_ledgers_def GetManufacturerLedger_def SaveManufacturerLedger_def
      SaveCommonLedger_def GetCommonLedger_def Supabase_Insert_def Supabase_Update_def
      idColumn_def patch_tx_def initial_ledger_def Let_def split: option.splits)

lemma CreateTransaction_eq:
  "CreateTransaction H J clk uuid txType data w =
     (fst (CreateTransaction H J clk uuid txType data w),
      AddTransactionToBlockchain (shift 2 clk)
        (tx_data clk txType (fst (CreateTransaction H J clk uuid txType data w)) data)
        (fst (CreateTransaction H J clk uuid txType data w)) w)"
  by (simp add: CreateTransaction_def tx_data_def Let_def)

lemma as_string_tx_data:
  "as_string (tx_data clk txType txHash data) k =
     (if k = ''tx_hash'' then Some txHash
      else if k = ''timestamp'' then Some (clk 0)
      else if k = ''tx_type'' then Some txType
      else as_string data k)"
  by (simp add: tx_data_def as_string_update)

lemma chain_blocks_CreateTransaction:
  "\<exists>b. chain_blocks (snd (CreateTransaction H J clk uuid txType data w)) = chain_blocks w @ [b] \<and>
       blk_TxHash b = fst (CreateTransaction H J clk uuid txType data w) \<and>
       blk_TxData b =
         JObject (tx_data clk txType (fst (CreateTransaction H J clk uuid txType data w)) data)"
  by (subst CreateTransaction_eq) (simp add: chain_blocks_AddTransactionToBlockchain)

lemma ledgers_CreateTransaction:
  "as_string data ''manufacturer'' = None \<Longrightarrow>
     ManufacturerLedgersDir (snd (CreateTransaction H J clk uuid txType data w)) =
       ManufacturerLedgersDir w \<and>
     CommonLedgerFile (snd (CreateTransaction H J clk uuid txType data w)) = CommonLedgerFile w"
  by (subst (1 2) CreateTransaction_eq)
     (simp add: ledgers_AddTransactionToBlockchain as_string_tx_data)

lemma Supabase_CreateTransaction_shipment:
  "as_string data ''drug_id'' = None \<Longrightarrow> as_string data ''shipment_id'' = Some shipmentID \<Longrightarrow>
   table \<noteq> ''blockchain_ledger'' \<Longrightarrow>
     Supabase (snd (CreateTransaction H J clk uuid txType data w)) table =
       (if table = ''shipments''
        then map (\<lambda>row. if row_eq row (''shipment_id'', shipmentID)
                         then patch_tx (fst (CreateTransaction H J clk uuid txType data w)) row
                         else row)
               (Supabase w table)
        else Supabase w table)"
  by (subst CreateTransaction_eq)
     (simp add: Supabase_AddTransactionToBlockchain as_string_tx_data)

lemma Supabase_CreateTransaction_drug:
  "as_string data ''drug_id'' = Some drugID \<Longrightarrow> table \<noteq> ''blockchain_ledger'' \<Longrightarrow>
     Supabase (snd (CreateTransaction H J clk uuid txType data w)) table =
       (if table = ''drugs''
        then map (\<lambda>row. if row_eq row (''drug_id'', drugID)
                         then patch_tx (fst (CreateTransaction H J clk uuid txType data w)) row
                         else row)
               (Supabase w table)
        else Supabase w table)"
  by (subst CreateTransaction_eq)
     (simp add: Supabase_AddTransactionToBlockchain as_string_tx_data)

text \<open>reading a row back after its transaction id was patched\<close>

lemma str_field_patch_tx:
  "str_field z (patch_tx h row) k =
     (if k = ''blockchain_tx_id'' then Some h else str_field z row k)"
  by (simp add: str_field_def map_of_merge_tx)

lemma decode_Shipment_patch_tx:
  "decode_Shipment row = Some s \<Longrightarrow>
     decode_Shipment (patch_tx h row) = Some (s\<lparr>sh_BlockchainTxID := h\<rparr>)"
  by (auto simp: decode_Shipment_def str_field_patch_tx split: option.splits)

lemma decode_Drug_patch_tx:
  "decode_Drug row = Some d \<Longrightarrow>
     decode_Drug (patch_tx h row) = Some (d\<lparr>d_BlockchainTxID := h\<rparr>)"
  by (auto simp: decode_Drug_def str_field_patch_tx split: option.splits)

lemma Select_map_patch:
  "Supabase_Select (db(table := map (\<lambda>row. if P row then patch_tx h row else row) (db table)))
       table [(''id'', ident)] =
     map (\<lambda>row. if P row then patch_tx h row else row) (Supabase_Select db table [(''id'', ident)])"
  by (simp add: Supabase_Select_def filter_map comp_def row_eq_patch_tx if_distrib[of "\<lambda>r. row_eq r _"]
      cong: if_cong)

lemma GetShipment_patched:
  assumes "GetShipment sid w = Inr s0"
    and "Supabase w1 ''shipments'' =
           map (\<lambda>row. if P row then patch_tx h row else row) (Supabase w ''shipments'')"
  shows "GetShipment sid w1 = Inr s0 \<or> GetShipment sid w1 = Inr (s0\<lparr>sh_BlockchainTxID := h\<rparr>)"
proof -
  from assms(1) obtain row rest where
    sel: "filter (\<lambda>row. row_eq row (''id'', sid)) (Supabase w ''shipments'') = row # rest"
    and dec: "decode_Shipment row = Some s0"
    by (auto simp: GetShipment_def Supabase_Select_def split: list.splits option.splits)
  have "filter (\<lambda>row. row_eq row (''id'', sid)) (Supabase w1 ''shipments'') =
        map (\<lambda>row. if P row then patch_tx h row else row)
          (filter (\<lambda>row. row_eq row (''id'', sid)) (Supabase w ''shipments''))"
    unfolding assms(2)
    by (simp add: filter_map comp_def row_eq_patch_tx if_distrib[of "\<lambda>r. row_eq r _"] cong: if_cong)
  then have "filter (\<lambda>row. row_eq row (''id'', sid)) (Supabase w1 ''shipments'') =
      (if P row then patch_tx h row else row) #
        map (\<lambda>row. if P row then patch_tx h row else row) rest"
    using sel by simp
  then show ?thesis
    using dec decode_Shipment_patch_tx[OF dec, of h]
    by (cases "P row") (simp_all add: GetShipment_def Supabase_Select_def)
qed

lemma GetDrug_patched:
  assumes "GetDrug did w = Inr d0"
    and "Supabase w1 ''drugs'' =
           map (\<lambda>row. if P row then patch_tx h row else row) (Supabase w ''drugs'')"
  shows "GetDrug did w1 = Inr d0 \<or> GetDrug did w1 = Inr (d0\<lparr>d_BlockchainTxID := h\<rparr>)"
proof -
  from assms(1) obtain row rest where
    sel: "filter (\<lambda>row. row_eq row (''id'', did)) (Supabase w ''drugs'') = row # rest"
    and dec: "decode_Drug row = Some d0"
    by (auto simp: GetDrug_def Supabase_Select_def split: list.splits option.splits)
  have "filter (\<lambda>row. row_eq row (''id'', did)) (Supabase w1 ''drugs'') =
        map (\<lambda>row. if P row then patch_tx h row else row)
          (filter (\<lambda>row. row_eq row (''id'', did)) (Supabase w ''drugs''))"
    unfolding assms(2)
    by (simp add: filter_map comp_def row_eq_patch_tx if_distrib[of "\<lambda>r. row_eq r _"] cong: if_cong)
  then have "filter (\<lambda>row. row_eq row (''id'', did)) (Supabase w1 ''drugs'') =
      (if P row then patch_tx h row else row) #
        map (\<lambda>row. if P row then patch_tx h row else row) rest"
    using sel by simp
  then show ?thesis
    using dec decode_Drug_patch_tx[OF dec, of h]
    by (cases "P row") (simp_all add: GetDrug_def Supabase_Select_def)
qed

lemma GetDrug_cong:
  "Supabase w1 ''drugs'' = Supabase w ''drugs'' \<Longrightarrow> GetDrug did w1 = GetDrug did w"
  by (simp add: GetDrug_def Supabase_Select_def)

lemma decode_Drug_id: "decode_Drug row = Some d \<Longrightarrow> str_field [] row ''id'' = Some (d_ID d)"
  by (auto simp: decode_Drug_def split: option.splits)

lemma GetDrug_id:
  assumes "GetDrug did w = Inr d"
  shows "d_ID d = did"
proof -
  from assms obtain row rest where
    sel: "filter (\<lambda>row. row_eq row (''id'', did)) (Supabase w ''drugs'') = row # rest"
    and dec: "decode_Drug row = Some d"
    by (auto simp: GetDrug_def Supabase_Select_def split: list.splits option.splits)
  from sel have "row \<in> set (filter (\<lambda>row. row_eq row (''id'', did)) (Supabase w ''drugs''))"
    by simp
  then have "map_of row ''id'' = Some (JString did)"
    by (simp add: row_eq_def)
  with decode_Drug_id[OF dec] show ?thesis
    by (simp add: str_field_def)
qed

lemma as_string_shipment_update_data:
  "as_string (shipment_update_data clk params) ''manufacturer'' = None"
  "as_string (shipment_update_data clk params) ''drug_id'' = None"
  "as_string (shipment_update_data clk params) ''shipment_id'' = Some (usp_ShipmentID params)"
  by (simp_all add: shipment_update_data_def as_string_def)

lemma drugs_of_Get_Save:
  assumes "\<forall>l. ManufacturerLedgersDir w m = Some l \<longrightarrow> ml_ManufacturerID l = m"
    and "GetManufacturerLedger now m w = (ledger, w2)"
  shows "ml_ManufacturerID ledger = m \<and> ml_Drugs ledger = drugs_of (ManufacturerLedgersDir w m) \<and>
         CommonLedgerFile w2 = CommonLedgerFile w \<and> Supabase w2 = Supabase w \<and>
         BlockchainFile w2 = BlockchainFile w \<and>
         (\<forall>m'. m' \<noteq> m \<longrightarrow> ManufacturerLedgersDir w2 m' = ManufacturerLedgersDir w m')"
  using assms
  by (auto simp: GetManufacturerLedger_def SaveManufacturerLedger_def drugs_of_def Let_def
      split: option.splits)

lemma delivered_cascade_other_status:
  assumes shipment: "GetShipment (usp_ShipmentID params) w = Inr shipment"
    and wf: "\<forall>l. ManufacturerLedgersDir w (sh_ManufacturerID shipment) = Some l \<longrightarrow>
               ml_ManufacturerID l = sh_ManufacturerID shipment"
    and other: "usp_Status params \<noteq> ''delivered''"
  shows "fst (manager_UpdateShipmentStatus H J clk uuid params w) = None \<and>
         (\<forall>m. drugs_of (ManufacturerLedgersDir
                   (snd (manager_UpdateShipmentStatus H J clk uuid params w)) m) =
               drugs_of (ManufacturerLedgersDir w m)) \<and>
         cl_Drugs (CommonLedgerFile (snd (manager_UpdateShipmentStatus H J clk uuid params w))) =
           cl_Drugs (CommonLedgerFile w) \<and>
         Supabase (snd (manager_UpdateShipmentStatus H J clk uuid params w)) ''drugs'' =
           Supabase w ''drugs'' \<and>
         Supabase (snd (manager_UpdateShipmentStatus H J clk uuid params w)) ''drug_status_updates'' =
           Supabase w ''drug_status_updates'' \<and>
         (\<exists>b txData. chain_blocks (snd (manager_UpdateShipmentStatus H J clk uuid params w)) =
                chain_blocks w @ [b] \<and> blk_TxData b = JObject txData \<and>
                as_string txData ''tx_type'' = Some ''shipment_update'')"
proof -
  let ?data = "shipment_update_data clk params"
  let ?ct = "CreateTransaction H J (shift 1 clk) (uuid 0) ''shipment_update'' ?data w"
  define h where "h = fst ?ct"
  define w1 where "w1 = snd ?ct"
  have ct: "?ct = (h, w1)" by (simp add: h_def w1_def)
  have led1: "ManufacturerLedgersDir w1 = ManufacturerLedgersDir w"
             "CommonLedgerFile w1 = CommonLedgerFile w"
    unfolding w1_def
    using ledgers_CreateTransaction[OF as_string_shipment_update_data(1)] by blast+
  have db1: "\<And>table. table \<noteq> ''blockchain_ledger'' \<Longrightarrow> Supabase w1 table =
       (if table = ''shipments''
        then map (\<lambda>row. if row_eq row (''shipment_id'', usp_ShipmentID params)
                         then patch_tx h row else row) (Supabase w table)
        else Supabase w table)"
    unfolding w1_def h_def
    by (rule Supabase_CreateTransaction_shipment[OF as_string_shipment_update_data(2,3)])
  obtain b where chain1: "chain_blocks w1 = chain_blocks w @ [b]"
    and b: "blk_TxData b = JObject (tx_data (shift 1 clk) ''shipment_update'' h ?data)"
    unfolding w1_def h_def using chain_blocks_CreateTransaction by blast
  have "Supabase w1 ''shipments'' =
      map (\<lambda>row. if row_eq row (''shipment_id'', usp_ShipmentID params)
                         then patch_tx h row else row) (Supabase w ''shipments'')"
    using db1[of "''shipments''"] by simp
  from GetShipment_patched[OF shipment this]
  obtain s1 where s1: "GetShipment (usp_ShipmentID params) w1 = Inr s1"
    and s1m: "sh_ManufacturerID s1 = sh_ManufacturerID shipment"
    by auto
  obtain ledger w2 where g: "GetManufacturerLedger (clk 9) (sh_ManufacturerID s1) w1 = (ledger, w2)"
    by (cases "GetManufacturerLedger (clk 9) (sh_ManufacturerID s1) w1") auto
  have wf1: "\<forall>l. ManufacturerLedgersDir w1 (sh_ManufacturerID s1) = Some l \<longrightarrow>
               ml_ManufacturerID l = sh_ManufacturerID s1"
    using wf by (simp add: led1 s1m)
  note gs = drugs_of_Get_Save[OF wf1 g]
  let ?res = "manager_UpdateShipmentStatus H J clk uuid params w"
  have fold: "[(''shipment_id'', JString (usp_ShipmentID params)),
      (''status'', JString (usp_Status params)),
      (''updated_by'', JString (usp_UserID params)),
      (''updated_at'', JString (clk 0))] = ?data"
    by (simp add: shipment_update_data_def)
  have res: "?res =
     (None,
      InsertShipmentStatusUpdate
        \<lparr>su_ID = [], su_ShipmentID = usp_ShipmentID params,
         su_Status = usp_Status params, su_Location = usp_Location params,
         su_UpdatedBy = usp_UserID params, su_BlockchainTxID = h,
         su_Timestamp = clk 0\<rparr>
        (UpdateShipment
           (s1\<lparr>sh_Status := usp_Status params, sh_BlockchainTxID := h, sh_UpdatedAt := clk 0\<rparr>)
           (SaveCommonLedger
              ((GetCommonLedger w2)
                 \<lparr>cl_Shipments :=
                    modify_first (\<lambda>s. cs_ShipmentID s = usp_ShipmentID params)
                      (set_common_shipment_status (usp_Status params) (clk 0)
                         (''Shipment status updated to '' @ usp_Status params))
                      (cl_Shipments (GetCommonLedger w2)),
                  cl_Drugs := cl_Drugs (GetCommonLedger w2),
                  cl_LastUpdated := clk 0\<rparr>)
              (SaveManufacturerLedger
                 (ledger\<lparr>ml_Shipments :=
                    modify_first (\<lambda>s. sr_ShipmentID s = usp_ShipmentID params)
                      (set_shipment_status (usp_Status params) (clk 0)
                         (''Shipment status updated to '' @ usp_Status params))
                      (ml_Shipments ledger),
                   ml_Drugs := ml_Drugs ledger, ml_LastUpdated := clk 0\<rparr>)
                 w2))))"
    unfolding manager_UpdateShipmentStatus_def Let_def fold ct
    using other by (simp add: s1 g GetCommonLedger_def SaveManufacturerLedger_def)
  show ?thesis
    unfolding res
    using gs led1 db1[of "''drugs''"] db1[of "''drug_status_updates''"] chain1 b
    by (auto simp: InsertShipmentStatusUpdate_def UpdateShipment_def SaveCommonLedger_def
        SaveManufacturerLedger_def GetCommonLedger_def Supabase_Insert_def Supabase_Update_def
        drugs_of_def s1m chain_blocks_def as_string_tx_data)
qed

lemma as_string_drug_update_data:
  "as_string (drug_update_data drugID status updatedBy timestamp) ''manufacturer'' = None"
  "as_string (drug_update_data drugID status updatedBy timestamp) ''drug_id'' = Some drugID"
  "as_string (drug_update_data drugID status updatedBy timestamp) ''status'' = Some status"
  by (simp_all add: drug_update_data_def as_string_def)

lemma RecordDrugStatusUpdate_eq:
  "RecordDrugStatusUpdate H J clk uuid drugID status updatedBy timestamp w =
     CreateTransaction H J clk uuid ''drug_update''
       (drug_update_data drugID status updatedBy timestamp) w"
  by (simp add: RecordDrugStatusUpdate_def drug_update_data_def)

lemma as_string_merge_encode_Drug:
  "as_string (merge_row row (encode_Drug d)) ''status'' = Some (d_Status d)"
  "as_string (merge_row row (encode_Drug d)) ''blockchain_tx_id'' = Some (d_BlockchainTxID d)"
  "row_eq (merge_row row (encode_Drug d)) (''drug_id'', k) = row_eq row (''drug_id'', k)"
  by (simp_all add: merge_row_def encode_Drug_def as_string_def row_eq_def update_conv')

lemma find_first_modify_first:
  assumes "find_first p xs = Some x" and "\<And>y. p y \<Longrightarrow> p (f y)"
  shows "find_first p (modify_first p f xs) = Some (f x)"
proof -
  from assms(1) have "update_first p f xs \<noteq> None"
    by (auto simp: update_first_None find_first_None[symmetric])
  then obtain ys where ys: "update_first p f xs = Some ys" by auto
  from find_first_update_first[OF ys assms(2)] assms(1) ys show ?thesis
    by (auto simp: modify_first_def)
qed

lemma delivered_cascade_delivered:
  assumes shipment: "GetShipment (usp_ShipmentID params) w = Inr shipment"
    and wf: "\<forall>l. ManufacturerLedgersDir w (sh_ManufacturerID shipment) = Some l \<longrightarrow>
               ml_ManufacturerID l = sh_ManufacturerID shipment"
    and delivered: "usp_Status params = ''delivered''"
  shows "(\<forall>ml0 d0. ManufacturerLedgersDir w (sh_ManufacturerID shipment) = Some ml0 \<and>
            find_first (\<lambda>d. dr_DrugID d = sh_DrugID shipment) (ml_Drugs ml0) = Some d0 \<longrightarrow>
            (\<exists>ml1 d1.
               ManufacturerLedgersDir (snd (manager_UpdateShipmentStatus H J clk uuid params w))
                 (sh_ManufacturerID shipment) = Some ml1 \<and>
               find_first (\<lambda>d. dr_DrugID d = sh_DrugID shipment) (ml_Drugs ml1) = Some d1 \<and>
               dr_Status d1 = ''delivered'' \<and> dr_CurrentStatus d1 = ''delivered'' \<and>
               dr_History d1 = dr_History d0 @
                 [\<lparr>st_Status = ''delivered'', st_Timestamp = clk 0,
                   st_Details = ''Drug delivered via shipment '' @ usp_ShipmentID params\<rparr>])) \<and>
         (\<forall>c0. find_first (\<lambda>d. cd_DrugID d = sh_DrugID shipment) (cl_Drugs (CommonLedgerFile w)) =
                 Some c0 \<longrightarrow>
            (\<exists>c1.
               find_first (\<lambda>d. cd_DrugID d = sh_DrugID shipment)
                 (cl_Drugs (CommonLedgerFile
                    (snd (manager_UpdateShipmentStatus H J clk uuid params w)))) = Some c1 \<and>
               cd_Status c1 = ''delivered'' \<and> cd_CurrentStatus c1 = ''delivered'' \<and>
               cd_History c1 = cd_History c0 @
                 [\<lparr>st_Status = ''delivered'', st_Timestamp = clk 0,
                   st_Details = ''Drug delivered via shipment '' @ usp_ShipmentID params\<rparr>])) \<and>
         (\<exists>b1 b2 txData.
            chain_blocks (snd (manager_UpdateShipmentStatus H J clk uuid params w)) =
              chain_blocks w @ [b1, b2] \<and>
            blk_TxData b2 = JObject txData \<and>
            as_string txData ''tx_type'' = Some ''drug_update'' \<and>
            as_string txData ''drug_id'' = Some (sh_DrugID shipment) \<and>
            as_string txData ''status'' = Some ''delivered'' \<and>
            (\<forall>drug0. GetDrug (sh_DrugID shipment) w = Inr drug0 \<longrightarrow>
               fst (manager_UpdateShipmentStatus H J clk uuid params w) = None \<and>
               (\<forall>row \<in> set (Supabase (snd (manager_UpdateShipmentStatus H J clk uuid params w))
                               ''drugs'').
                  row_eq row (''drug_id'', sh_DrugID shipment) \<longrightarrow>
                    as_string row ''status'' = Some ''delivered'' \<and>
                    as_string row ''blockchain_tx_id'' = Some (blk_TxHash b2)) \<and>
               (\<exists>drug1. d_ID drug1 = sh_DrugID shipment \<and> d_Status drug1 = ''delivered'' \<and>
                  d_BlockchainTxID drug1 = blk_TxHash b2 \<and> d_UpdatedAt drug1 = clk 0 \<and>
                  Supabase (snd (manager_UpdateShipmentStatus H J clk uuid params w)) ''drugs'' =
                    map (\<lambda>row. if row_eq row (''drug_id'', sh_DrugID shipment)
                               then merge_row (patch_tx (blk_TxHash b2) row) (encode_Drug drug1)
                               else row)
                      (Supabase w ''drugs'')) \<and>
               Supabase (snd (manager_UpdateShipmentStatus H J clk uuid params w))
                   ''drug_status_updates'' =
                 Supabase w ''drug_status_updates'' @
                   [encode_DrugStatusUpdate
                      \<lparr>du_ID = '''', du_DrugID = sh_DrugID shipment, du_Status = ''delivered'',
                       du_Location = usp_Location params, du_UpdatedBy = usp_UserID params,
                       du_BlockchainTxID = blk_TxHash b2, du_Timestamp = clk 0\<rparr>]) \<and>
            (Supabase_Select (Supabase w) ''drugs'' [(''id'', sh_DrugID shipment)] = [] \<longrightarrow>
               fst (manager_UpdateShipmentStatus H J clk uuid params w) =
                 Some (DbDrugNotFound (sh_DrugID shipment)))) \<and>
         ((\<exists>drug0. GetDrug (sh_DrugID shipment) w = Inr drug0) \<and>
          (\<forall>row \<in> set (Supabase w ''drugs''). \<not> row_eq row (''drug_id'', sh_DrugID shipment)) \<longrightarrow>
            fst (manager_UpdateShipmentStatus H J clk uuid params w) = None \<and>
            Supabase (snd (manager_UpdateShipmentStatus H J clk uuid params w)) ''drugs'' =
              Supabase w ''drugs'' \<and>
            GetDrug (sh_DrugID shipment) (snd (manager_UpdateShipmentStatus H J clk uuid params w)) =
              GetDrug (sh_DrugID shipment) w)"
proof -
  let ?sid = "usp_ShipmentID params"
  let ?D = "sh_DrugID shipment"
  let ?m = "sh_ManufacturerID shipment"
  let ?data = "shipment_update_data clk params"
  let ?ct = "CreateTransaction H J (shift 1 clk) (uuid 0) ''shipment_update'' ?data w"
  define h where "h = fst ?ct"
  define w1 where "w1 = snd ?ct"
  have ct: "?ct = (h, w1)" by (simp add: h_def w1_def)
  have led1: "ManufacturerLedgersDir w1 = ManufacturerLedgersDir w"
             "CommonLedgerFile w1 = CommonLedgerFile w"
    unfolding w1_def
    using ledgers_CreateTransaction[OF as_string_shipment_update_data(1)] by blast+
  have db1: "\<And>table. table \<noteq> ''blockchain_ledger'' \<Longrightarrow> Supabase w1 table =
       (if table = ''shipments''
        then map (\<lambda>row. if row_eq row (''shipment_id'', ?sid)
                         then patch_tx h row else row) (Supabase w table)
        else Supabase w table)"
    unfolding w1_def h_def
    by (rule Supabase_CreateTransaction_shipment[OF as_string_shipment_update_data(2,3)])
  obtain b1 where chain1: "chain_blocks w1 = chain_blocks w @ [b1]"
    unfolding w1_def using chain_blocks_CreateTransaction by blast
  have "Supabase w1 ''shipments'' =
      map (\<lambda>row. if row_eq row (''shipment_id'', ?sid)
                         then patch_tx h row else row) (Supabase w ''shipments'')"
    using db1[of "''shipments''"] by simp
  from GetShipment_patched[OF shipment this]
  obtain s1 where s1: "GetShipment ?sid w1 = Inr s1"
    and s1m: "sh_ManufacturerID s1 = ?m" and s1d: "sh_DrugID s1 = ?D"
    by auto
  obtain ledger w2 where g: "GetManufacturerLedger (clk 9) (sh_ManufacturerID s1) w1 = (ledger, w2)"
    by (cases "GetManufacturerLedger (clk 9) (sh_ManufacturerID s1) w1") auto
  have wf1: "\<forall>l. ManufacturerLedgersDir w1 (sh_ManufacturerID s1) = Some l \<longrightarrow>
               ml_ManufacturerID l = sh_ManufacturerID s1"
    using wf by (simp add: led1 s1m)
  note gs = drugs_of_Get_Save[OF wf1 g]
  define details where "details = ''Drug delivered via shipment '' @ ?sid"
  define ledger' where "ledger' = ledger
       \<lparr>ml_Shipments :=
          modify_first (\<lambda>s. sr_ShipmentID s = ?sid)
            (set_shipment_status ''delivered'' (clk 0) (''Shipment status updated to '' @ ''delivered''))
            (ml_Shipments ledger),
        ml_Drugs :=
          modify_first (\<lambda>drug. dr_DrugID drug = ?D)
            (set_drug_status ''delivered'' (clk 0) details) (ml_Drugs ledger),
        ml_LastUpdated := clk 0\<rparr>"
  define common' where "common' = (CommonLedgerFile w)
       \<lparr>cl_Shipments :=
          modify_first (\<lambda>s. cs_ShipmentID s = ?sid)
            (set_common_shipment_status ''delivered'' (clk 0)
               (''Shipment status updated to '' @ ''delivered''))
            (cl_Shipments (CommonLedgerFile w)),
        cl_Drugs :=
          modify_first (\<lambda>drug. cd_DrugID drug = ?D)
            (set_common_drug_status ''delivered'' (clk 0) details) (cl_Drugs (CommonLedgerFile w)),
        cl_LastUpdated := clk 0\<rparr>"
  define w6 where "w6 =
      InsertShipmentStatusUpdate
        \<lparr>su_ID = [], su_ShipmentID = ?sid, su_Status = ''delivered'',
         su_Location = usp_Location params, su_UpdatedBy = usp_UserID params,
         su_BlockchainTxID = h, su_Timestamp = clk 0\<rparr>
        (UpdateShipment
           (s1\<lparr>sh_Status := ''delivered'', sh_BlockchainTxID := h, sh_UpdatedAt := clk 0\<rparr>)
           (SaveCommonLedger common' (SaveManufacturerLedger ledger' w2)))"
  let ?ddata = "drug_update_data ?D ''delivered'' (usp_UserID params) (clk 0)"
  let ?ct2 = "CreateTransaction H J (shift 10 clk) (uuid 1) ''drug_update'' ?ddata w6"
  define h2 where "h2 = fst ?ct2"
  define w7 where "w7 = snd ?ct2"
  have ct2: "?ct2 = (h2, w7)" by (simp add: h2_def w7_def)
  define fin where "fin = (\<lambda>drug.
      InsertDrugStatusUpdate
        \<lparr>du_ID = [], du_DrugID = ?D, du_Status = ''delivered'',
         du_Location = usp_Location params, du_UpdatedBy = usp_UserID params,
         du_BlockchainTxID = h2, du_Timestamp = clk 0\<rparr>
        (UpdateDrug (drug\<lparr>d_Status := ''delivered'', d_BlockchainTxID := h2,
                          d_UpdatedAt := clk 0\<rparr>) w7))"
  let ?res = "manager_UpdateShipmentStatus H J clk uuid params w"
  have fold: "[(''shipment_id'', JString ?sid),
      (''status'', JString (usp_Status params)),
      (''updated_by'', JString (usp_UserID params)),
      (''updated_at'', JString (clk 0))] = ?data"
    by (simp add: shipment_update_data_def)
  have res: "?res = (case GetDrug ?D w7 of Inl e \<Rightarrow> (Some e, w7) | Inr drug \<Rightarrow> (None, fin drug))"
    unfolding manager_UpdateShipmentStatus_def Let_def fold ct
    using delivered gs
    by (simp add: s1 g s1d GetCommonLedger_def RecordDrugStatusUpdate_eq w7_def h2_def w6_def
        ledger'_def common'_def details_def fin_def
        SaveManufacturerLedger_def led1 split_beta split: sum.splits)
  text \<open>the ledgers\<close>
  have led6: "ManufacturerLedgersDir w6 = (ManufacturerLedgersDir w2)(?m \<mapsto> ledger')"
             "CommonLedgerFile w6 = common'"
    using gs
    by (simp_all add: w6_def InsertShipmentStatusUpdate_def UpdateShipment_def
        SaveCommonLedger_def SaveManufacturerLedger_def ledger'_def s1m)
  have led7: "ManufacturerLedgersDir w7 = ManufacturerLedgersDir w6"
             "CommonLedgerFile w7 = CommonLedgerFile w6"
    unfolding w7_def
    using ledgers_CreateTransaction[OF as_string_drug_update_data(1)] by blast+
  have ledfin: "\<And>drug. ManufacturerLedgersDir (fin drug) = ManufacturerLedgersDir w7 \<and>
                        CommonLedgerFile (fin drug) = CommonLedgerFile w7 \<and>
                        BlockchainFile (fin drug) = BlockchainFile w7"
    by (simp add: fin_def InsertDrugStatusUpdate_def UpdateDrug_def)
  have ledres: "ManufacturerLedgersDir (snd ?res) ?m = Some ledger'"
               "CommonLedgerFile (snd ?res) = common'"
               "chain_blocks (snd ?res) = chain_blocks w7"
    unfolding res using ledfin led7 led6
    by (auto simp: chain_blocks_def split: sum.splits)
  have part1: "\<forall>ml0 d0. ManufacturerLedgersDir w ?m = Some ml0 \<and>
            find_first (\<lambda>d. dr_DrugID d = ?D) (ml_Drugs ml0) = Some d0 \<longrightarrow>
            (\<exists>ml1 d1. ManufacturerLedgersDir (snd ?res) ?m = Some ml1 \<and>
               find_first (\<lambda>d. dr_DrugID d = ?D) (ml_Drugs ml1) = Some d1 \<and>
               dr_Status d1 = ''delivered'' \<and> dr_CurrentStatus d1 = ''delivered'' \<and>
               dr_History d1 = dr_History d0 @
                 [\<lparr>st_Status = ''delivered'', st_Timestamp = clk 0, st_Details = details\<rparr>])"
  proof (intro allI impI)
    fix ml0 d0
    assume a: "ManufacturerLedgersDir w ?m = Some ml0 \<and>
            find_first (\<lambda>d. dr_DrugID d = ?D) (ml_Drugs ml0) = Some d0"
    then have "ml_Drugs ledger = ml_Drugs ml0"
      using gs by (simp add: led1 s1m drugs_of_def)
    with a have "find_first (\<lambda>d. dr_DrugID d = ?D) (ml_Drugs ledger') =
        Some (set_drug_status ''delivered'' (clk 0) details d0)"
      by (simp add: ledger'_def find_first_modify_first set_drug_status_def)
    then show "\<exists>ml1 d1. ManufacturerLedgersDir (snd ?res) ?m = Some ml1 \<and>
               find_first (\<lambda>d. dr_DrugID d = ?D) (ml_Drugs ml1) = Some d1 \<and>
               dr_Status d1 = ''delivered'' \<and> dr_CurrentStatus d1 = ''delivered'' \<and>
               dr_History d1 = dr_History d0 @
                 [\<lparr>st_Status = ''delivered'', st_Timestamp = clk 0, st_Details = details\<rparr>]"
      using ledres(1) by (simp add: set_drug_status_def)
  qed
  have part2: "\<forall>c0. find_first (\<lambda>d. cd_DrugID d = ?D) (cl_Drugs (CommonLedgerFile w)) = Some c0 \<longrightarrow>
            (\<exists>c1. find_first (\<lambda>d. cd_DrugID d = ?D) (cl_Drugs (CommonLedgerFile (snd ?res))) =
                 Some c1 \<and>
               cd_Status c1 = ''delivered'' \<and> cd_CurrentStatus c1 = ''delivered'' \<and>
               cd_History c1 = cd_History c0 @
                 [\<lparr>st_Status = ''delivered'', st_Timestamp = clk 0, st_Details = details\<rparr>])"
    by (simp add: ledres(2) common'_def find_first_modify_first set_common_drug_status_def)
  text \<open>the chain\<close>
  have chain6: "chain_blocks w6 = chain_blocks w1"
    using gs
    by (simp add: w6_def chain_blocks_def InsertShipmentStatusUpdate_def UpdateShipment_def
        SaveCommonLedger_def SaveManufacturerLedger_def)
  obtain b2 where chain7: "chain_blocks w7 = chain_blocks w6 @ [b2]"
    and b2h: "blk_TxHash b2 = h2"
    and b2: "blk_TxData b2 = JObject (tx_data (shift 10 clk) ''drug_update'' h2 ?ddata)"
    unfolding w7_def h2_def using chain_blocks_CreateTransaction by blast
  have chain: "chain_blocks (snd ?res) = chain_blocks w @ [b1, b2]"
    by (simp add: ledres(3) chain7 chain6 chain1)
  text \<open>the store\<close>
  have db6: "Supabase w6 ''drugs'' = Supabase w ''drugs''"
    using gs db1[of "''drugs''"]
    by (simp add: w6_def InsertShipmentStatusUpdate_def UpdateShipment_def
        SaveCommonLedger_def SaveManufacturerLedger_def Supabase_Insert_def Supabase_Update_def)
  have db7: "Supabase w7 ''drugs'' =
      map (\<lambda>row. if row_eq row (''drug_id'', ?D) then patch_tx h2 row else row) (Supabase w ''drugs'')"
    unfolding w7_def h2_def
    using Supabase_CreateTransaction_drug[OF as_string_drug_update_data(2), of "''drugs''"]
    by (simp add: db6)
  have dsu6: "Supabase w6 ''drug_status_updates'' = Supabase w ''drug_status_updates''"
    using gs db1[of "''drug_status_updates''"]
    by (simp add: w6_def InsertShipmentStatusUpdate_def UpdateShipment_def
        SaveCommonLedger_def SaveManufacturerLedger_def Supabase_Insert_def Supabase_Update_def)
  have dsu7: "Supabase w7 ''drug_status_updates'' = Supabase w ''drug_status_updates''"
    unfolding w7_def
    using Supabase_CreateTransaction_drug[OF as_string_drug_update_data(2),
        of "''drug_status_updates''"]
    by (simp add: dsu6)
  have part4: "\<forall>drug0. GetDrug ?D w = Inr drug0 \<longrightarrow>
               fst ?res = None \<and>
               (\<forall>row \<in> set (Supabase (snd ?res) ''drugs'').
                  row_eq row (''drug_id'', ?D) \<longrightarrow>
                    as_string row ''status'' = Some ''delivered'' \<and>
                    as_string row ''blockchain_tx_id'' = Some (blk_TxHash b2)) \<and>
               (\<exists>drug1. d_ID drug1 = ?D \<and> d_Status drug1 = ''delivered'' \<and>
                  d_BlockchainTxID drug1 = blk_TxHash b2 \<and> d_UpdatedAt drug1 = clk 0 \<and>
                  Supabase (snd ?res) ''drugs'' =
                    map (\<lambda>row. if row_eq row (''drug_id'', ?D)
                               then merge_row (patch_tx (blk_TxHash b2) row) (encode_Drug drug1)
                               else row)
                      (Supabase w ''drugs'')) \<and>
               Supabase (snd ?res) ''drug_status_updates'' =
                 Supabase w ''drug_status_updates'' @
                   [encode_DrugStatusUpdate
                      \<lparr>du_ID = '''', du_DrugID = ?D, du_Status = ''delivered'',
                       du_Location = usp_Location params, du_UpdatedBy = usp_UserID params,
                       du_BlockchainTxID = blk_TxHash b2, du_Timestamp = clk 0\<rparr>]"
  proof (intro allI impI)
    fix drug0 assume d0: "GetDrug ?D w = Inr drug0"
    from GetDrug_patched[OF d0 db7] obtain d7 where d7: "GetDrug ?D w7 = Inr d7" by auto
    have id7: "d_ID d7 = ?D" by (rule GetDrug_id[OF d7])
    have r: "?res = (None, fin d7)" by (simp add: res d7)
    define drug1 where "drug1 = d7\<lparr>d_Status := ''delivered'', d_BlockchainTxID := h2,
        d_UpdatedAt := clk 0\<rparr>"
    have rows: "Supabase (fin d7) ''drugs'' =
        map (\<lambda>row. if row_eq row (''drug_id'', ?D)
                    then merge_row row (encode_Drug drug1)
                    else row) (Supabase w7 ''drugs'')"
      by (simp add: fin_def InsertDrugStatusUpdate_def UpdateDrug_def Supabase_Insert_def
          Supabase_Update_def idColumn_def id7 drug1_def)
    have rows': "Supabase (fin d7) ''drugs'' =
        map (\<lambda>row. if row_eq row (''drug_id'', ?D)
                    then merge_row (patch_tx h2 row) (encode_Drug drug1)
                    else row) (Supabase w ''drugs'')"
      unfolding rows db7
      by (simp add: comp_def row_eq_patch_tx if_distrib[of "\<lambda>r. row_eq r _"] cong: if_cong)
    have dsu: "Supabase (fin d7) ''drug_status_updates'' =
        Supabase w ''drug_status_updates'' @
          [encode_DrugStatusUpdate
             \<lparr>du_ID = '''', du_DrugID = ?D, du_Status = ''delivered'',
              du_Location = usp_Location params, du_UpdatedBy = usp_UserID params,
              du_BlockchainTxID = h2, du_Timestamp = clk 0\<rparr>]"
      by (simp add: fin_def InsertDrugStatusUpdate_def UpdateDrug_def Supabase_Insert_def
          Supabase_Update_def dsu7)
    have d1: "d_ID drug1 = ?D \<and> d_Status drug1 = ''delivered'' \<and>
        d_BlockchainTxID drug1 = blk_TxHash b2 \<and> d_UpdatedAt drug1 = clk 0"
      by (simp add: drug1_def id7 b2h)
    have marked: "\<forall>row \<in> set (Supabase (fin d7) ''drugs'').
                  row_eq row (''drug_id'', ?D) \<longrightarrow>
                    as_string row ''status'' = Some ''delivered'' \<and>
                    as_string row ''blockchain_tx_id'' = Some (blk_TxHash b2)"
      by (auto simp: rows as_string_merge_encode_Drug b2h drug1_def split: if_splits)
    show "fst ?res = None \<and>
               (\<forall>row \<in> set (Supabase (snd ?res) ''drugs'').
                  row_eq row (''drug_id'', ?D) \<longrightarrow>
                    as_string row ''status'' = Some ''delivered'' \<and>
                    as_string row ''blockchain_tx_id'' = Some (blk_TxHash b2)) \<and>
               (\<exists>drug1. d_ID drug1 = ?D \<and> d_Status drug1 = ''delivered'' \<and>
                  d_BlockchainTxID drug1 = blk_TxHash b2 \<and> d_UpdatedAt drug1 = clk 0 \<and>
                  Supabase (snd ?res) ''drugs'' =
                    map (\<lambda>row. if row_eq row (''drug_id'', ?D)
                               then merge_row (patch_tx (blk_TxHash b2) row) (encode_Drug drug1)
                               else row)
                      (Supabase w ''drugs'')) \<and>
               Supabase (snd ?res) ''drug_status_updates'' =
                 Supabase w ''drug_status_updates'' @
                   [encode_DrugStatusUpdate
                      \<lparr>du_ID = '''', du_DrugID = ?D, du_Status = ''delivered'',
                       du_Location = usp_Location params, du_UpdatedBy = usp_UserID params,
                       du_BlockchainTxID = blk_TxHash b2, du_Timestamp = clk 0\<rparr>]"
      unfolding r snd_conv fst_conv
      using marked d1 rows' dsu unfolding b2h by blast
  qed
  have part5: "Supabase_Select (Supabase w) ''drugs'' [(''id'', ?D)] = [] \<longrightarrow>
      fst ?res = Some (DbDrugNotFound ?D)"
  proof
    assume e: "Supabase_Select (Supabase w) ''drugs'' [(''id'', ?D)] = []"
    have "Supabase_Select (Supabase w7) ''drugs'' [(''id'', ?D)] = []"
      using e unfolding Supabase_Select_def db7
      by (simp add: filter_map comp_def row_eq_patch_tx if_distrib[of "\<lambda>r. row_eq r _"]
          cong: if_cong)
    then have "GetDrug ?D w7 = Inl (DbDrugNotFound ?D)"
      by (simp add: GetDrug_def)
    then show "fst ?res = Some (DbDrugNotFound ?D)"
      by (simp add: res)
  qed
  have part6: "(\<exists>drug0. GetDrug ?D w = Inr drug0) \<and>
        (\<forall>row \<in> set (Supabase w ''drugs''). \<not> row_eq row (''drug_id'', ?D)) \<longrightarrow>
          fst ?res = None \<and> Supabase (snd ?res) ''drugs'' = Supabase w ''drugs'' \<and>
          GetDrug ?D (snd ?res) = GetDrug ?D w"
  proof
    assume a: "(\<exists>drug0. GetDrug ?D w = Inr drug0) \<and>
        (\<forall>row \<in> set (Supabase w ''drugs''). \<not> row_eq row (''drug_id'', ?D))"
    then obtain drug0 where g0: "GetDrug ?D w = Inr drug0" by blast
    from a have n: "\<forall>row \<in> set (Supabase w ''drugs''). \<not> row_eq row (''drug_id'', ?D)" by blast
    from part4[rule_format, OF g0] have r: "fst ?res = None" by (rule conjunct1)
    from part4[rule_format, OF g0, THEN conjunct2, THEN conjunct2, THEN conjunct1]
    obtain drug1 where eq: "Supabase (snd ?res) ''drugs'' =
          map (\<lambda>row. if row_eq row (''drug_id'', ?D)
                      then merge_row (patch_tx (blk_TxHash b2) row) (encode_Drug drug1)
                      else row)
            (Supabase w ''drugs'')"
      by (elim exE conjE)
    have same: "Supabase (snd ?res) ''drugs'' = Supabase w ''drugs''"
      unfolding eq using n by (simp add: map_idI)
    show "fst ?res = None \<and> Supabase (snd ?res) ''drugs'' = Supabase w ''drugs'' \<and>
          GetDrug ?D (snd ?res) = GetDrug ?D w"
      using r same GetDrug_cong[OF same] by simp
  qed
  have dd: "as_string (tx_data (shift 10 clk) ''drug_update'' h2 ?ddata) ''tx_type'' = Some ''drug_update''"
           "as_string (tx_data (shift 10 clk) ''drug_update'' h2 ?ddata) ''drug_id'' = Some ?D"
           "as_string (tx_data (shift 10 clk) ''drug_update'' h2 ?ddata) ''status'' = Some ''delivered''"
    by (simp_all add: as_string_tx_data as_string_drug_update_data)
  show ?thesis
    using part1 part2 chain b2 dd part4 part5 part6
    unfolding details_def by blast
qed

text \<open>
  Claim C4 (the code departs from it in the external store). Let the shipment be in the
  external store, its manufacturer's ledger file (if any) naming that manufacturer. When the
  requested status is not \<^verbatim>\<open>delivered\<close>, the call returns no error and leaves every drug
  record as it was: the drugs of every manufacturer ledger, the drugs of the common ledger,
  the \<^verbatim>\<open>drugs\<close> and \<^verbatim>\<open>drug_status_updates\<close> tables; the chain gets the one
  \<^verbatim>\<open>shipment_update\<close> block. When the status is \<^verbatim>\<open>delivered\<close>, the record of the shipment's
  drug in the manufacturer ledger and in the common ledger (the first with that id, where
  there is one) has status and current status \<^verbatim>\<open>delivered\<close> and one more history entry,
  and the chain gets a second block of type \<^verbatim>\<open>drug_update\<close> for that drug with status
  \<^verbatim>\<open>delivered\<close>. If the drug is in the store (\<^verbatim>\<open>GetDrug\<close> selects on the column \<^verbatim>\<open>id\<close>), the
  call returns no error, the table \<^verbatim>\<open>drug_status_updates\<close> gets exactly one row, for the
  drug, with status \<^verbatim>\<open>delivered\<close> and that block's hash, and the table \<^verbatim>\<open>drugs\<close> is the old
  one with the rows whose column \<^verbatim>\<open>drug_id\<close> is the drug's id (the column \<^verbatim>\<open>Update\<close> selects
  on) overwritten by the drug with status \<^verbatim>\<open>delivered\<close> and that hash; if the drug is not
  in the store the call returns the store's not-found error. So when no row carries the
  drug's id in \<^verbatim>\<open>drug_id\<close>, as is the case for the rows \<^verbatim>\<open>InsertDrug\<close> writes, the call
  returns no error and the table \<^verbatim>\<open>drugs\<close> is unchanged: the stored drug keeps the status
  it had while both ledgers say \<^verbatim>\<open>delivered\<close>.
\<close>

theorem UpdateShipmentStatus_cascade:
  assumes "GetShipment (usp_ShipmentID params) w = Inr shipment"
    and "\<forall>l. ManufacturerLedgersDir w (sh_ManufacturerID shipment) = Some l \<longrightarrow>
               ml_ManufacturerID l = sh_ManufacturerID shipment"
  shows
   "(usp_Status params \<noteq> ''delivered'' \<longrightarrow>
       fst (manager_UpdateShipmentStatus H J clk uuid params w) = None \<and>
       (\<forall>m. drugs_of (ManufacturerLedgersDir
                 (snd (manager_UpdateShipmentStatus H J clk uuid params w)) m) =
             drugs_of (ManufacturerLedgersDir w m)) \<and>
       cl_Drugs (CommonLedgerFile (snd (manager_UpdateShipmentStatus H J clk uuid params w))) =
         cl_Drugs (CommonLedgerFile w) \<and>
       Supabase (snd (manager_UpdateShipmentStatus H J clk uuid params w)) ''drugs'' =
         Supabase w ''drugs'' \<and>
       Supabase (snd (manager_UpdateShipmentStatus H J clk uuid params w)) ''drug_status_updates'' =
         Supabase w ''drug_status_updates'' \<and>
       (\<exists>b txData. chain_blocks (snd (manager_UpdateShipmentStatus H J clk uuid params w)) =
              chain_blocks w @ [b] \<and> blk_TxData b = JObject txData \<and>
              as_string txData ''tx_type'' = Some ''shipment_update'')) \<and>
    (usp_Status params = ''delivered'' \<longrightarrow>
       (\<forall>ml0 d0. ManufacturerLedgersDir w (sh_ManufacturerID shipment) = Some ml0 \<and>
            find_first (\<lambda>d. dr_DrugID d = sh_DrugID shipment) (ml_Drugs ml0) = Some d0 \<longrightarrow>
            (\<exists>ml1 d1.
               ManufacturerLedgersDir (snd (manager_UpdateShipmentStatus H J clk uuid params w))
                 (sh_ManufacturerID shipment) = Some ml1 \<and>
               find_first (\<lambda>d. dr_DrugID d = sh_DrugID shipment) (ml_Drugs ml1) = Some d1 \<and>
               dr_Status d1 = ''delivered'' \<and> dr_CurrentStatus d1 = ''delivered'' \<and>
               dr_History d1 = dr_History d0 @
                 [\<lparr>st_Status = ''delivered'', st_Timestamp = clk 0,
                   st_Details = ''Drug delivered via shipment '' @ usp_ShipmentID params\<rparr>])) \<and>
       (\<forall>c0. find_first (\<lambda>d. cd_DrugID d = sh_DrugID shipment) (cl_Drugs (CommonLedgerFile w)) =
                 Some c0 \<longrightarrow>
            (\<exists>c1.
               find_first (\<lambda>d. cd_DrugID d = sh_DrugID shipment)
                 (cl_Drugs (CommonLedgerFile
                    (snd (manager_UpdateShipmentStatus H J clk uuid params w)))) = Some c1 \<and>
               cd_Status c1 = ''delivered'' \<and> cd_CurrentStatus c1 = ''delivered'' \<and>
               cd_History c1 = cd_History c0 @
                 [\<lparr>st_Status = ''delivered'', st_Timestamp = clk 0,
                   st_Details = ''Drug delivered via shipment '' @ usp_ShipmentID params\<rparr>])) \<and>
       (\<exists>b1 b2 txData.
            chain_blocks (snd (manager_UpdateShipmentStatus H J clk uuid params w)) =
              chain_blocks w @ [b1, b2] \<and>
            blk_TxData b2 = JObject txData \<and>
            as_string txData ''tx_type'' = Some ''drug_update'' \<and>
            as_string txData ''drug_id'' = Some (sh_DrugID shipment) \<and>
            as_string txData ''status'' = Some ''delivered'' \<and>
            (\<forall>drug0. GetDrug (sh_DrugID shipment) w = Inr drug0 \<longrightarrow>
               fst (manager_UpdateShipmentStatus H J clk uuid params w) = None \<and>
               (\<forall>row \<in> set (Supabase (snd (manager_UpdateShipmentStatus H J clk uuid params w))
                               ''drugs'').
                  row_eq row (''drug_id'', sh_DrugID shipment) \<longrightarrow>
                    as_string row ''status'' = Some ''delivered'' \<and>
                    as_string row ''blockchain_tx_id'' = Some (blk_TxHash b2)) \<and>
               (\<exists>drug1. d_ID drug1 = sh_DrugID shipment \<and> d_Status drug1 = ''delivered'' \<and>
                  d_BlockchainTxID drug1 = blk_TxHash b2 \<and> d_UpdatedAt drug1 = clk 0 \<and>
                  Supabase (snd (manager_UpdateShipmentStatus H J clk uuid params w)) ''drugs'' =
                    map (\<lambda>row. if row_eq row (''drug_id'', sh_DrugID shipment)
                               then merge_row (patch_tx (blk_TxHash b2) row) (encode_Drug drug1)
                               else row)
                      (Supabase w ''drugs'')) \<and>
               Supabase (snd (manager_UpdateShipmentStatus H J clk uuid params w))
                   ''drug_status_updates'' =
                 Supabase w ''drug_status_updates'' @
                   [encode_DrugStatusUpdate
                      \<lparr>du_ID = '''', du_DrugID = sh_DrugID shipment, du_Status = ''delivered'',
                       du_Location = usp_Location params, du_UpdatedBy = usp_UserID params,
                       du_BlockchainTxID = blk_TxHash b2, du_Timestamp = clk 0\<rparr>]) \<and>
            (Supabase_Select (Supabase w) ''drugs'' [(''id'', sh_DrugID shipment)] = [] \<longrightarrow>
               fst (manager_UpdateShipmentStatus H J clk uuid params w) =
                 Some (DbDrugNotFound (sh_DrugID shipment)))) \<and>
       ((\<exists>drug0. GetDrug (sh_DrugID shipment) w = Inr drug0) \<and>
        (\<forall>row \<in> set (Supabase w ''drugs''). \<not> row_eq row (''drug_id'', sh_DrugID shipment)) \<longrightarrow>
          fst (manager_UpdateShipmentStatus H J clk uuid params w) = None \<and>
          Supabase (snd (manager_UpdateShipmentStatus H J clk uuid params w)) ''drugs'' =
            Supabase w ''drugs'' \<and>
          GetDrug (sh_DrugID shipment) (snd (manager_UpdateShipmentStatus H J clk uuid params w)) =
            GetDrug (sh_DrugID shipment) w))"
  using delivered_cascade_other_status [OF assms, of H J clk uuid]
        delivered_cascade_delivered [OF assms, of H J clk uuid]
  by blast

lemma GetShipment_cascade_world:
  "GetShipment ''S1'' cascade_world = Inr sample_shipment"
  by (simp add: GetShipment_def cascade_world_def empty_world_def Supabase_Select_def row_eq_def
      shipment_row_def decode_Shipment_def str_field_def sample_shipment_def)

lemma cascade_world_facts:
  "ManufacturerLedgersDir cascade_world ''M1'' = Some sample_ml"
  "CommonLedgerFile cascade_world = sample_cl"
  "ml_ManufacturerID sample_ml = ''M1''"
  "find_first (\<lambda>d. dr_DrugID d = ''D1'') (ml_Drugs sample_ml) = Some (hd (ml_Drugs sample_ml))"
  "find_first (\<lambda>d. cd_DrugID d = ''D1'') (cl_Drugs sample_cl) = Some (hd (cl_Drugs sample_cl))"
  "sh_ManufacturerID sample_shipment = ''M1''" "sh_DrugID sample_shipment = ''D1''"
  by (simp_all add: cascade_world_def empty_world_def sample_ml_def sample_cl_def
      sample_shipment_def)

lemma GetDrug_cascade_world:
  "\<exists>drug0. GetDrug ''D1'' cascade_world = Inr drug0"
  by (simp add: GetDrug_def cascade_world_def empty_world_def Supabase_Select_def row_eq_def
      drug_row_def decode_Drug_def str_field_def)

lemma Supabase_GetManufacturerLedger:
  "Supabase (snd (GetManufacturerLedger now m w)) = Supabase w"
  by (simp add: GetManufacturerLedger_def SaveManufacturerLedger_def Let_def split: option.splits)

text \<open>The row \<^verbatim>\<open>CreateDrug\<close> stores carries the drug's id in the column \<^verbatim>\<open>id\<close> and has no
  column \<^verbatim>\<open>drug_id\<close>.\<close>

lemma manager_CreateDrug_row:
  "Supabase (snd (manager_CreateDrug H J clk uuid params w)) ''drugs'' \<noteq> [] \<and>
   map_of (last (Supabase (snd (manager_CreateDrug H J clk uuid params w)) ''drugs'')) ''id'' =
     Some (JString (cdp_DrugID params)) \<and>
   map_of (last (Supabase (snd (manager_CreateDrug H J clk uuid params w)) ''drugs''))
     ''status'' = Some (JString ''created'') \<and>
   map_of (last (Supabase (snd (manager_CreateDrug H J clk uuid params w)) ''drugs''))
     ''drug_id'' = None"
  unfolding manager_CreateDrug_def Let_def split_beta
  by (simp add: InsertDrugStatusUpdate_def InsertDrug_def Supabase_Insert_def
      SaveCommonLedger_def SaveManufacturerLedger_def Supabase_GetManufacturerLedger
      encode_Drug_def)

lemma stored_world_facts:
  "GetShipment ''S1'' stored_world = Inr sample_shipment"
  "GetDrug ''D1'' stored_world = Inr sample_drug"
  "ManufacturerLedgersDir stored_world ''M1'' = Some sample_ml"
  "CommonLedgerFile stored_world = sample_cl"
  "Supabase stored_world ''drugs'' = [encode_Drug sample_drug]"
  "Supabase stored_world ''drug_status_updates'' = []"
  "\<not> row_eq (encode_Drug sample_drug) (''drug_id'', ''D1'')"
  by (simp_all add: stored_world_def cascade_world_def empty_world_def InsertDrug_def
      InsertShipment_def Supabase_Insert_def GetShipment_def GetDrug_def Supabase_Select_def
      row_eq_def encode_Drug_def encode_Shipment_def decode_Drug_def decode_Shipment_def
      str_field_def sample_drug_def sample_shipment_def)

theorem UpdateShipmentStatus_cascade_witness:
  "GetShipment (usp_ShipmentID (sample_update ''in_transit'')) cascade_world = Inr sample_shipment \<and>
   GetShipment (usp_ShipmentID (sample_update ''delivered'')) cascade_world = Inr sample_shipment \<and>
   ManufacturerLedgersDir cascade_world (sh_ManufacturerID sample_shipment) = Some sample_ml \<and>
   ml_ManufacturerID sample_ml = sh_ManufacturerID sample_shipment \<and>
   usp_Status (sample_update ''in_transit'') \<noteq> ''delivered'' \<and>
   fst (manager_UpdateShipmentStatus toy_hash toy_marshal noon two_uuids
          (sample_update ''in_transit'') cascade_world) = None \<and>
   drugs_of (ManufacturerLedgersDir
      (snd (manager_UpdateShipmentStatus toy_hash toy_marshal noon two_uuids
              (sample_update ''in_transit'') cascade_world)) ''M1'') = ml_Drugs sample_ml \<and>
   cl_Drugs (CommonLedgerFile
      (snd (manager_UpdateShipmentStatus toy_hash toy_marshal noon two_uuids
              (sample_update ''in_transit'') cascade_world))) = cl_Drugs sample_cl \<and>
   usp_Status (sample_update ''delivered'') = ''delivered'' \<and>
   (\<exists>ml1 d1.
      ManufacturerLedgersDir
        (snd (manager_UpdateShipmentStatus toy_hash toy_marshal noon two_uuids
                (sample_update ''delivered'') cascade_world)) ''M1'' = Some ml1 \<and>
      find_first (\<lambda>d. dr_DrugID d = ''D1'') (ml_Drugs ml1) = Some d1 \<and>
      dr_Status d1 = ''delivered'' \<and> dr_CurrentStatus d1 = ''delivered'') \<and>
   (\<exists>c1.
      find_first (\<lambda>d. cd_DrugID d = ''D1'')
        (cl_Drugs (CommonLedgerFile
           (snd (manager_UpdateShipmentStatus toy_hash toy_marshal noon two_uuids
                   (sample_update ''delivered'') cascade_world)))) = Some c1 \<and>
      cd_Status c1 = ''delivered'' \<and> cd_CurrentStatus c1 = ''delivered'') \<and>
   fst (manager_UpdateShipmentStatus toy_hash toy_marshal noon two_uuids
          (sample_update ''delivered'') cascade_world) = None \<and>
   list_all (\<lambda>row. row_eq row (''drug_id'', ''D1'') \<longrightarrow> as_string row ''status'' = Some ''delivered'')
     (Supabase
        (snd (manager_UpdateShipmentStatus toy_hash toy_marshal noon two_uuids
                (sample_update ''delivered'') cascade_world)) ''drugs'') \<and>
   map (\<lambda>row. as_string row ''status'')
     (Supabase
        (snd (manager_UpdateShipmentStatus toy_hash toy_marshal noon two_uuids
                (sample_update ''delivered'') cascade_world)) ''drug_status_updates'') =
     [Some ''delivered''] \<and>
   GetShipment (usp_ShipmentID (sample_update ''delivered'')) stored_world = Inr sample_shipment \<and>
   ManufacturerLedgersDir stored_world (sh_ManufacturerID sample_shipment) = Some sample_ml \<and>
   GetDrug (sh_DrugID sample_shipment) stored_world = Inr sample_drug \<and>
   d_Status sample_drug = ''created'' \<and>
   list_all (\<lambda>row. \<not> row_eq row (''drug_id'', sh_DrugID sample_shipment))
     (Supabase stored_world ''drugs'') \<and>
   fst (manager_UpdateShipmentStatus toy_hash toy_marshal noon two_uuids
          (sample_update ''delivered'') stored_world) = None \<and>
   (\<exists>ml1 d1.
      ManufacturerLedgersDir
        (snd (manager_UpdateShipmentStatus toy_hash toy_marshal noon two_uuids
                (sample_update ''delivered'') stored_world)) ''M1'' = Some ml1 \<and>
      find_first (\<lambda>d. dr_DrugID d = ''D1'') (ml_Drugs ml1) = Some d1 \<and>
      dr_Status d1 = ''delivered'') \<and>
   GetDrug (sh_DrugID sample_shipment)
     (snd (manager_UpdateShipmentStatus toy_hash toy_marshal noon two_uuids
             (sample_update ''delivered'') stored_world)) = Inr sample_drug"
proof -
  have g1: "GetShipment (usp_ShipmentID (sample_update ''in_transit'')) cascade_world =
      Inr sample_shipment"
    and g2: "GetShipment (usp_ShipmentID (sample_update ''delivered'')) cascade_world =
      Inr sample_shipment"
    and g3: "GetShipment (usp_ShipmentID (sample_update ''delivered'')) stored_world =
      Inr sample_shipment"
    by (simp_all add: sample_update_def GetShipment_cascade_world stored_world_facts)
  have wf: "\<forall>l. ManufacturerLedgersDir cascade_world (sh_ManufacturerID sample_shipment) = Some l \<longrightarrow>
        ml_ManufacturerID l = sh_ManufacturerID sample_shipment"
    and wf3: "\<forall>l. ManufacturerLedgersDir stored_world (sh_ManufacturerID sample_shipment) = Some l \<longrightarrow>
        ml_ManufacturerID l = sh_ManufacturerID sample_shipment"
    by (simp_all add: cascade_world_facts stored_world_facts)
  have s1: "usp_Status (sample_update ''in_transit'') \<noteq> ''delivered''"
    and s2: "usp_Status (sample_update ''delivered'') = ''delivered''"
    by (simp_all add: sample_update_def)
  note T1 = UpdateShipmentStatus_cascade [OF g1 wf, of toy_hash toy_marshal noon two_uuids,
      THEN conjunct1, rule_format, OF s1]
  note T2 = UpdateShipmentStatus_cascade [OF g2 wf, of toy_hash toy_marshal noon two_uuids,
      THEN conjunct2, rule_format, OF s2]
  note T3 = UpdateShipmentStatus_cascade [OF g3 wf3, of toy_hash toy_marshal noon two_uuids,
      THEN conjunct2, rule_format, OF s2]
  have a: "drugs_of (ManufacturerLedgersDir
      (snd (manager_UpdateShipmentStatus toy_hash toy_marshal noon two_uuids
              (sample_update ''in_transit'') cascade_world)) ''M1'') = ml_Drugs sample_ml"
    using T1 by (simp add: cascade_world_facts drugs_of_def)
  have b: "cl_Drugs (CommonLedgerFile
      (snd (manager_UpdateShipmentStatus toy_hash toy_marshal noon two_uuids
              (sample_update ''in_transit'') cascade_world))) = cl_Drugs sample_cl"
    using T1 by (simp add: cascade_world_facts)
  have c: "\<exists>ml1 d1.
      ManufacturerLedgersDir
        (snd (manager_UpdateShipmentStatus toy_hash toy_marshal noon two_uuids
                (sample_update ''delivered'') cascade_world)) ''M1'' = Some ml1 \<and>
      find_first (\<lambda>d. dr_DrugID d = ''D1'') (ml_Drugs ml1) = Some d1 \<and>
      dr_Status d1 = ''delivered'' \<and> dr_CurrentStatus d1 = ''delivered''"
    using T2 [THEN conjunct1, rule_format, of sample_ml "hd (ml_Drugs sample_ml)"]
    by (simp add: cascade_world_facts) blast
  have d: "\<exists>c1.
      find_first (\<lambda>d. cd_DrugID d = ''D1'')
        (cl_Drugs (CommonLedgerFile
           (snd (manager_UpdateShipmentStatus toy_hash toy_marshal noon two_uuids
                   (sample_update ''delivered'') cascade_world)))) = Some c1 \<and>
      cd_Status c1 = ''delivered'' \<and> cd_CurrentStatus c1 = ''delivered''"
    using T2 [THEN conjunct2, THEN conjunct1, rule_format, of "hd (cl_Drugs sample_cl)"]
    by (simp add: cascade_world_facts) blast
  obtain drug0 where drug0: "GetDrug ''D1'' cascade_world = Inr drug0"
    using GetDrug_cascade_world by blast
  have dsu0: "Supabase cascade_world ''drug_status_updates'' = []"
    by (simp add: cascade_world_def empty_world_def)
  have e: "fst (manager_UpdateShipmentStatus toy_hash toy_marshal noon two_uuids
          (sample_update ''delivered'') cascade_world) = None \<and>
   list_all (\<lambda>row. row_eq row (''drug_id'', ''D1'') \<longrightarrow> as_string row ''status'' = Some ''delivered'')
     (Supabase
        (snd (manager_UpdateShipmentStatus toy_hash toy_marshal noon two_uuids
                (sample_update ''delivered'') cascade_world)) ''drugs'') \<and>
   map (\<lambda>row. as_string row ''status'')
     (Supabase
        (snd (manager_UpdateShipmentStatus toy_hash toy_marshal noon two_uuids
                (sample_update ''delivered'') cascade_world)) ''drug_status_updates'') =
     [Some ''delivered'']"
    using T2 [THEN conjunct2, THEN conjunct2, THEN conjunct1] drug0
    by (auto simp: cascade_world_facts list_all_iff dsu0 encode_DrugStatusUpdate_def
        as_string_def)
  have c3: "\<exists>ml1 d1.
      ManufacturerLedgersDir
        (snd (manager_UpdateShipmentStatus toy_hash toy_marshal noon two_uuids
                (sample_update ''delivered'') stored_world)) ''M1'' = Some ml1 \<and>
      find_first (\<lambda>d. dr_DrugID d = ''D1'') (ml_Drugs ml1) = Some d1 \<and>
      dr_Status d1 = ''delivered''"
    using T3 [THEN conjunct1, rule_format, of sample_ml "hd (ml_Drugs sample_ml)"]
    by (simp add: cascade_world_facts stored_world_facts) blast
  have n3: "list_all (\<lambda>row. \<not> row_eq row (''drug_id'', sh_DrugID sample_shipment))
     (Supabase stored_world ''drugs'')"
    by (simp add: stored_world_facts cascade_world_facts)
  have f: "fst (manager_UpdateShipmentStatus toy_hash toy_marshal noon two_uuids
          (sample_update ''delivered'') stored_world) = None \<and>
      GetDrug (sh_DrugID sample_shipment)
        (snd (manager_UpdateShipmentStatus toy_hash toy_marshal noon two_uuids
             (sample_update ''delivered'') stored_world)) = Inr sample_drug"
    using T3 [THEN conjunct2, THEN conjunct2, THEN conjunct2] n3
    by (simp add: stored_world_facts cascade_world_facts list_all_iff)
  have st: "d_Status sample_drug = ''created''"
    by (simp add: sample_drug_def)
  show ?thesis
    using g1 g2 g3 s1 s2 T1 [THEN conjunct1] a b c d e c3 n3 f st cascade_world_facts(1,3,6,7)
      stored_world_facts(2,3)
    by simp
qed

section \<open>Operations on a manufacturer ledger that may be new\<close>


lemma GetManufacturerLedger_eq:
  "GetManufacturerLedger now m w =
     (ledger_or_new now m (ManufacturerLedgersDir w m),
      (case ManufacturerLedgersDir w m of
         None \<Rightarrow> SaveManufacturerLedger (ledger_or_new now m None) w
       | Some l \<Rightarrow> w))"
  by (simp add: GetManufacturerLedger_def ledger_or_new_def Let_def split: option.splits)

lemma ledger_or_new_fields:
  "ml_Drugs (ledger_or_new now m f) = drugs_of f"
  "ml_Shipments (ledger_or_new now m f) = shipments_of f"
  by (simp_all add: ledger_or_new_def drugs_of_def shipments_of_def split: option.splits)

lemma ledger_or_new_id:
  "\<forall>l. f = Some l \<longrightarrow> ml_ManufacturerID l = m \<Longrightarrow> ml_ManufacturerID (ledger_or_new now m f) = m"
  by (simp add: ledger_or_new_def split: option.splits)





section \<open>Status updates on a record the ledgers do not hold\<close>









section \<open>Histories only grow\<close>

lemma grows_refl: "grows key hist xs xs"
  by (simp add: grows_def)

lemma grows_trans: "grows key hist xs ys \<Longrightarrow> grows key hist ys zs \<Longrightarrow> grows key hist xs zs"
  unfolding grows_def
  by (metis (no_types, lifting) le_trans less_le_trans prefix_order.order_trans)

lemma grows_append: "grows key hist xs (xs @ zs)"
  by (simp add: grows_def nth_append)

lemma grows_Nil: "grows key hist [] ys"
  by (simp add: grows_def)

lemma grows_update_first:
  assumes "update_first p f xs = Some ys"
    and "\<And>x. key (f x) = key x \<and> prefix (hist x) (hist (f x))"
  shows "grows key hist xs ys"
proof -
  from update_first_Some[OF assms(1)] obtain pre x post where
    xs: "xs = pre @ x # post" and ys: "ys = pre @ f x # post"
    by blast
  show ?thesis
    unfolding grows_def xs ys using assms(2)
    by (auto simp: nth_append nth_Cons split: nat.splits)
qed

lemma grows_modify_first:
  assumes "\<And>x. key (f x) = key x \<and> prefix (hist x) (hist (f x))"
  shows "grows key hist xs (modify_first p f xs)"
  using grows_update_first[where key = key and hist = hist and f = f, OF _ assms]
  by (auto simp: modify_first_def grows_refl split: option.splits)

lemma hist_ext_refl: "hist_ext w w"
  by (simp add: hist_ext_def grows_refl)

lemma hist_ext_trans: "hist_ext w w1 \<Longrightarrow> hist_ext w1 w2 \<Longrightarrow> hist_ext w w2"
  unfolding hist_ext_def by (blast intro: grows_trans)

lemma hist_ext_same_ledgers:
  "ManufacturerLedgersDir w' = ManufacturerLedgersDir w \<Longrightarrow>
   CommonLedgerFile w' = CommonLedgerFile w \<Longrightarrow> hist_ext w w'"
  by (simp add: hist_ext_def grows_refl)

lemma wf_ledgers_same:
  "ManufacturerLedgersDir w' = ManufacturerLedgersDir w \<Longrightarrow> wf_ledgers w' = wf_ledgers w"
  by (simp add: wf_ledgers_def)

text \<open>One write of a manufacturer ledger and of the common ledger.\<close>

lemma hist_ext_write:
  assumes wf: "wf_ledgers w"
    and idm: "ml_ManufacturerID L' = m"
    and cs: "grows cs_ShipmentID cs_History (cl_Shipments (CommonLedgerFile w))
               (cl_Shipments (CommonLedgerFile w'))"
    and cd: "grows cd_DrugID cd_History (cl_Drugs (CommonLedgerFile w)) (cl_Drugs (CommonLedgerFile w'))"
    and ships: "grows sr_ShipmentID sr_History (shipments_of (ManufacturerLedgersDir w m))
                  (ml_Shipments L')"
    and drugs: "grows dr_DrugID dr_History (drugs_of (ManufacturerLedgersDir w m)) (ml_Drugs L')"
    and dir: "ManufacturerLedgersDir w' = (ManufacturerLedgersDir w)(m \<mapsto> L')"
  shows "hist_ext w w' \<and> wf_ledgers w'"
  using assms
  by (auto simp: hist_ext_def wf_ledgers_def drugs_of_def shipments_of_def grows_refl)

lemma wf_ledger_or_new:
  "wf_ledgers w \<Longrightarrow> ml_ManufacturerID (ledger_or_new now m (ManufacturerLedgersDir w m)) = m"
  by (rule ledger_or_new_id) (simp add: wf_ledgers_def)

lemma dir_after_Get:
  "wf_ledgers w \<Longrightarrow>
   ManufacturerLedgersDir (snd (GetManufacturerLedger now m w)) =
     (ManufacturerLedgersDir w)(m \<mapsto> ledger_or_new now m (ManufacturerLedgersDir w m))"
  by (auto simp: GetManufacturerLedger_eq SaveManufacturerLedger_def ledger_or_new_def
      split: option.splits)

lemma other_after_Get:
  "CommonLedgerFile (snd (GetManufacturerLedger now m w)) = CommonLedgerFile w"
  "fst (GetManufacturerLedger now m w) = ledger_or_new now m (ManufacturerLedgersDir w m)"
  by (simp_all add: GetManufacturerLedger_eq SaveManufacturerLedger_def split: option.splits)

lemma prefix_snoc: "prefix xs (xs @ ys)"
  by simp

lemma set_status_grows:
  "dr_DrugID (set_drug_status s t d x) = dr_DrugID x \<and>
     prefix (dr_History x) (dr_History (set_drug_status s t d x))"
  "dr_DrugID ((set_drug_status s t d x)\<lparr>dr_RevertedAt := r\<rparr>) = dr_DrugID x \<and>
     prefix (dr_History x) (dr_History ((set_drug_status s t d x)\<lparr>dr_RevertedAt := r\<rparr>))"
  "cd_DrugID (set_common_drug_status s t d c) = cd_DrugID c \<and>
     prefix (cd_History c) (cd_History (set_common_drug_status s t d c))"
  "sr_ShipmentID (set_shipment_status s t d y) = sr_ShipmentID y \<and>
     prefix (sr_History y) (sr_History (set_shipment_status s t d y))"
  "cs_ShipmentID (set_common_shipment_status s t d z) = cs_ShipmentID z \<and>
     prefix (cs_History z) (cs_History (set_common_shipment_status s t d z))"
  by (simp_all add: set_drug_status_def set_common_drug_status_def set_shipment_status_def
      set_common_shipment_status_def)

lemmas grows_intros =
  grows_refl grows_append grows_Nil
  grows_modify_first[where key = dr_DrugID and hist = dr_History, OF set_status_grows(1)]
  grows_modify_first[where key = dr_DrugID and hist = dr_History, OF set_status_grows(2)]
  grows_modify_first[where key = cd_DrugID and hist = cd_History, OF set_status_grows(3)]
  grows_modify_first[where key = sr_ShipmentID and hist = sr_History, OF set_status_grows(4)]
  grows_modify_first[where key = cs_ShipmentID and hist = cs_History, OF set_status_grows(5)]

lemmas ledger_steps =
  split_beta Let_def SaveCommonLedger_def SaveManufacturerLedger_def GetCommonLedger_def
  other_after_Get ledger_or_new_fields grows_intros

lemma blockchain_UpdateDrugStatus_ext:
  assumes wf: "wf_ledgers w"
  shows "hist_ext w (snd (blockchain_UpdateDrugStatus clk m drugID status details w)) \<and>
         wf_ledgers (snd (blockchain_UpdateDrugStatus clk m drugID status details w))"
  by (rule hist_ext_write[OF wf, where m = m])
     (simp_all add: blockchain_UpdateDrugStatus_def ledger_steps dir_after_Get[OF wf]
        wf_ledger_or_new[OF wf])

lemma blockchain_UpdateShipmentStatus_ext:
  assumes wf: "wf_ledgers w"
  shows "hist_ext w (snd (blockchain_UpdateShipmentStatus clk m shipmentID status details w)) \<and>
         wf_ledgers (snd (blockchain_UpdateShipmentStatus clk m shipmentID status details w))"
  by (rule hist_ext_write[OF wf, where m = m])
     (simp_all add: blockchain_UpdateShipmentStatus_def ledger_steps dir_after_Get[OF wf]
        wf_ledger_or_new[OF wf])

lemma blockchain_RevertDrug_ext:
  assumes wf: "wf_ledgers w"
  shows "hist_ext w (snd (blockchain_RevertDrug clk params w)) \<and>
         wf_ledgers (snd (blockchain_RevertDrug clk params w))"
  by (rule hist_ext_write[OF wf, where m = "rdp_ManufacturerID params"])
     (simp_all add: blockchain_RevertDrug_def ledger_steps dir_after_Get[OF wf]
        wf_ledger_or_new[OF wf])

lemma blockchain_CreateDrug_ext:
  assumes wf: "wf_ledgers w"
  shows "hist_ext w (snd (blockchain_CreateDrug clk params w)) \<and>
         wf_ledgers (snd (blockchain_CreateDrug clk params w))"
  by (rule hist_ext_write[OF wf, where m = "cdp_ManufacturerID params"])
     (simp_all add: blockchain_CreateDrug_def ledger_steps dir_after_Get[OF wf]
        wf_ledger_or_new[OF wf])

lemma blockchain_CreateShipment_ext:
  assumes wf: "wf_ledgers w"
  shows "hist_ext w (snd (blockchain_CreateShipment clk params w)) \<and>
         wf_ledgers (snd (blockchain_CreateShipment clk params w))"
  by (rule hist_ext_write[OF wf, where m = "csp_ManufacturerID params"])
     (simp_all add: blockchain_CreateShipment_def ledger_steps dir_after_Get[OF wf]
        wf_ledger_or_new[OF wf])

lemma add_drug_to_ledgers_ext:
  assumes wf: "wf_ledgers w"
  shows "hist_ext w (add_drug_to_ledgers clk drugID m txHash w) \<and>
         wf_ledgers (add_drug_to_ledgers clk drugID m txHash w)"
  by (rule hist_ext_write[OF wf, where m = m])
     (simp_all add: add_drug_to_ledgers_def ledger_steps dir_after_Get[OF wf]
        wf_ledger_or_new[OF wf])

lemma ext_frame:
  assumes "wf_ledgers w"
    and "ManufacturerLedgersDir v = ManufacturerLedgersDir w"
    and "CommonLedgerFile v = CommonLedgerFile w"
    and "wf_ledgers v \<Longrightarrow> hist_ext v v' \<and> wf_ledgers v'"
  shows "hist_ext w v' \<and> wf_ledgers v'"
  using assms by (simp add: hist_ext_def wf_ledgers_def)

lemma ext_same:
  assumes "wf_ledgers w"
    and "ManufacturerLedgersDir v = ManufacturerLedgersDir w"
    and "CommonLedgerFile v = CommonLedgerFile w"
  shows "hist_ext w v \<and> wf_ledgers v"
  using assms by (simp add: hist_ext_def wf_ledgers_def grows_refl)

lemma AddTransactionToBlockchain_ext:
  assumes wf: "wf_ledgers w"
  shows "hist_ext w (AddTransactionToBlockchain clk txData txHash w) \<and>
         wf_ledgers (AddTransactionToBlockchain clk txData txHash w)"
proof -
  have add: "hist_ext w (add_drug_to_ledgers c d m h v) \<and> wf_ledgers (add_drug_to_ledgers c d m h v)"
    if "ManufacturerLedgersDir v = ManufacturerLedgersDir w"
      and "CommonLedgerFile v = CommonLedgerFile w" for c d m h v
    using wf that add_drug_to_ledgers_ext by (rule ext_frame)
  have same: "hist_ext w v \<and> wf_ledgers v"
    if "ManufacturerLedgersDir v = ManufacturerLedgersDir w"
      and "CommonLedgerFile v = CommonLedgerFile w" for v
    using wf that by (rule ext_same)
  show ?thesis
    by (simp add: AddTransactionToBlockchain_def GetBlockchainLedger_def WriteFile_def Let_def
        add same split: option.splits)
qed

lemma CreateTransaction_ext:
  assumes wf: "wf_ledgers w"
  shows "hist_ext w (snd (CreateTransaction H J clk uuid txType data w)) \<and>
         wf_ledgers (snd (CreateTransaction H J clk uuid txType data w))"
  by (subst (1 2) CreateTransaction_eq) (simp add: AddTransactionToBlockchain_ext[OF wf])

lemma ext_refl: "wf_ledgers w \<Longrightarrow> ledgers_extend w w"
  by (simp add: ledgers_extend_def hist_ext_refl)

lemma ext_step:
  assumes "ledgers_extend w v" and "wf_ledgers v \<Longrightarrow> hist_ext v v' \<and> wf_ledgers v'"
  shows "ledgers_extend w v'"
  using assms unfolding ledgers_extend_def by (blast intro: hist_ext_trans)

lemma ext_frame_step:
  assumes "ledgers_extend w v"
    and "ManufacturerLedgersDir v' = ManufacturerLedgersDir v"
    and "CommonLedgerFile v' = CommonLedgerFile v"
  shows "ledgers_extend w v'"
  using assms(1) by (rule ext_step) (simp add: ext_same assms(2,3))

lemma ext_store:
  assumes "ledgers_extend w v"
  shows "ledgers_extend w (InsertDrug d v)" "ledgers_extend w (UpdateDrug d v)"
    "ledgers_extend w (InsertDrugStatusUpdate du v)"
    "ledgers_extend w (InsertShipment s v)" "ledgers_extend w (UpdateShipment s v)"
    "ledgers_extend w (InsertShipmentStatusUpdate su v)"
  by (rule ext_frame_step[OF assms];
      simp add: InsertDrug_def UpdateDrug_def InsertDrugStatusUpdate_def InsertShipment_def
        UpdateShipment_def InsertShipmentStatusUpdate_def)+

lemma ext_CreateTransaction:
  "ledgers_extend w v \<Longrightarrow> ledgers_extend w (snd (CreateTransaction H J clk uuid txType data v))"
  by (erule ext_step) (rule CreateTransaction_ext)

lemma ext_RecordDrugStatusUpdate:
  "ledgers_extend w v \<Longrightarrow>
   ledgers_extend w (snd (RecordDrugStatusUpdate H J clk uuid drugID status updatedBy timestamp v))"
  by (simp add: RecordDrugStatusUpdate_def ext_CreateTransaction)

lemma ext_write:
  assumes "ledgers_extend w v"
    and "ml_ManufacturerID L' = ml_ManufacturerID (ledger_or_new now m (ManufacturerLedgersDir v m))"
    and "grows dr_DrugID dr_History (ml_Drugs (ledger_or_new now m (ManufacturerLedgersDir v m)))
           (ml_Drugs L')"
    and "grows sr_ShipmentID sr_History
           (ml_Shipments (ledger_or_new now m (ManufacturerLedgersDir v m))) (ml_Shipments L')"
    and "grows cd_DrugID cd_History (cl_Drugs (CommonLedgerFile v)) (cl_Drugs C')"
    and "grows cs_ShipmentID cs_History (cl_Shipments (CommonLedgerFile v)) (cl_Shipments C')"
  shows "ledgers_extend w
           (SaveCommonLedger C' (SaveManufacturerLedger L' (snd (GetManufacturerLedger now m v))))"
  using assms(1)
proof (rule ext_step)
  assume wf: "wf_ledgers v"
  show "hist_ext v (SaveCommonLedger C' (SaveManufacturerLedger L'
            (snd (GetManufacturerLedger now m v)))) \<and>
        wf_ledgers (SaveCommonLedger C' (SaveManufacturerLedger L'
            (snd (GetManufacturerLedger now m v))))"
    using assms(2-)
    by (intro hist_ext_write[OF wf, where m = m and L' = L'])
       (simp_all add: SaveCommonLedger_def SaveManufacturerLedger_def dir_after_Get[OF wf]
          wf_ledger_or_new[OF wf] ledger_or_new_fields)
qed

lemmas ext_intros =
  ext_store ext_CreateTransaction ext_RecordDrugStatusUpdate ext_write

lemmas ext_side =
  other_after_Get GetCommonLedger_def SaveManufacturerLedger_def grows_intros

lemma manager_CreateDrug_ext:
  assumes "ledgers_extend w0 w"
  shows "ledgers_extend w0 (snd (manager_CreateDrug H J clk uuid params w))"
  unfolding manager_CreateDrug_def Let_def split_beta snd_conv
  by (intro ext_intros assms) (simp_all add: ext_side)

lemma manager_CreateShipment_ext:
  assumes "ledgers_extend w0 w"
  shows "ledgers_extend w0 (snd (manager_CreateShipment H J clk uuid params w))"
  unfolding manager_CreateShipment_def Let_def split_beta
  apply (simp only: split: sum.split)
  apply (intro conjI allI impI)
   apply (simp_all only: snd_conv)
   apply (intro ext_intros assms; simp add: ext_side)+
  done

lemma manager_RevertDrug_ext:
  assumes "ledgers_extend w0 w"
  shows "ledgers_extend w0 (snd (manager_RevertDrug H J clk uuid params w))"
  unfolding manager_RevertDrug_def Let_def split_beta
  apply (simp only: split: sum.split)
  apply (intro conjI allI impI)
   apply (simp_all only: snd_conv)
   apply (intro ext_intros assms; simp add: ext_side)+
  done

lemma manager_UpdateShipmentStatus_ext:
  assumes "ledgers_extend w0 w"
  shows "ledgers_extend w0 (snd (manager_UpdateShipmentStatus H J clk uuid params w))"
  unfolding manager_UpdateShipmentStatus_def Let_def split_beta
  apply (simp only: split: sum.split if_split)
  apply (intro conjI allI impI)
   apply (simp_all only: snd_conv)
   apply (intro ext_intros assms; simp add: ext_side)+
  done

lemma run_op_ext:
  assumes "ledgers_extend w0 w"
  shows "ledgers_extend w0 (run_op H J op w)"
proof (cases op)
  case (Op_AddTransactionToBlockchain clk txData txHash)
  then show ?thesis
    using ext_step[OF assms AddTransactionToBlockchain_ext] by simp
next
  case (Op_CreateTransaction clk uuid txType data)
  then show ?thesis by (simp add: ext_CreateTransaction[OF assms])
next
  case (Op_UpdateDrugStatus clk m drugID status details)
  then show ?thesis using ext_step[OF assms blockchain_UpdateDrugStatus_ext] by simp
next
  case (Op_UpdateShipmentStatus clk m shipmentID status details)
  then show ?thesis using ext_step[OF assms blockchain_UpdateShipmentStatus_ext] by simp
next
  case (Op_CreateDrug clk params)
  then show ?thesis using ext_step[OF assms blockchain_CreateDrug_ext] by simp
next
  case (Op_CreateShipment clk params)
  then show ?thesis using ext_step[OF assms blockchain_CreateShipment_ext] by simp
next
  case (Op_RevertDrug clk params)
  then show ?thesis using ext_step[OF assms blockchain_RevertDrug_ext] by simp
next
  case (Op_manager_CreateDrug clk uuid params)
  then show ?thesis by (simp add: manager_CreateDrug_ext[OF assms])
next
  case (Op_manager_CreateShipment clk uuid params)
  then show ?thesis by (simp add: manager_CreateShipment_ext[OF assms])
next
  case (Op_manager_UpdateShipmentStatus clk uuid params)
  then show ?thesis by (simp add: manager_UpdateShipmentStatus_ext[OF assms])
next
  case (Op_manager_RevertDrug clk uuid params)
  then show ?thesis by (simp add: manager_RevertDrug_ext[OF assms])
qed

lemma run_ops_ext: "ledgers_extend w0 w \<Longrightarrow> ledgers_extend w0 (run_ops H J ops w)"
  unfolding run_ops_def
  by (induction ops arbitrary: w) (simp_all add: run_op_ext)

lemma method_appends:
  "dr_DrugID (drug\<lparr>dr_CurrentStatus := s, dr_History := dr_History drug @ es\<rparr>) = dr_DrugID drug \<and>
     prefix (dr_History drug)
       (dr_History (drug\<lparr>dr_CurrentStatus := s, dr_History := dr_History drug @ es\<rparr>))"
  "sr_ShipmentID (shipment\<lparr>sr_CurrentStatus := s, sr_History := sr_History shipment @ es\<rparr>) =
     sr_ShipmentID shipment \<and>
     prefix (sr_History shipment)
       (sr_History (shipment\<lparr>sr_CurrentStatus := s, sr_History := sr_History shipment @ es\<rparr>))"
  "cd_DrugID (cdrug\<lparr>cd_CurrentStatus := s, cd_History := cd_History cdrug @ es\<rparr>) =
     cd_DrugID cdrug \<and>
     prefix (cd_History cdrug)
       (cd_History (cdrug\<lparr>cd_CurrentStatus := s, cd_History := cd_History cdrug @ es\<rparr>))"
  "cs_ShipmentID (cshipment\<lparr>cs_CurrentStatus := s, cs_History := cs_History cshipment @ es\<rparr>) =
     cs_ShipmentID cshipment \<and>
     prefix (cs_History cshipment)
       (cs_History (cshipment\<lparr>cs_CurrentStatus := s, cs_History := cs_History cshipment @ es\<rparr>))"
  by simp_all

lemma run_ml_call_grows:
  "grows dr_DrugID dr_History (ml_Drugs ml) (ml_Drugs (run_ml_call c ml)) \<and>
   grows sr_ShipmentID sr_History (ml_Shipments ml) (ml_Shipments (run_ml_call c ml))"
proof (cases c)
  case (Call_AddDrugRecord clk drugID status)
  then show ?thesis by (simp add: AddDrugRecord_def grows_refl grows_append)
next
  case (Call_UpdateDrugStatus clk drugID newStatus details)
  then show ?thesis
    using grows_update_first[where key = dr_DrugID and hist = dr_History, OF _ method_appends(1)]
    by (auto simp: UpdateDrugStatus_def grows_refl split: option.splits)
next
  case (Call_AddShipmentRecord clk shipmentID drugID status)
  then show ?thesis by (simp add: AddShipmentRecord_def grows_refl grows_append)
next
  case (Call_UpdateShipmentStatus clk shipmentID newStatus details)
  then show ?thesis
    using grows_update_first[where key = sr_ShipmentID and hist = sr_History,
        OF _ method_appends(2)]
    by (auto simp: UpdateShipmentStatus_def grows_refl split: option.splits)
qed

lemma run_cl_call_grows:
  "grows cd_DrugID cd_History (cl_Drugs cl) (cl_Drugs (run_cl_call c cl)) \<and>
   grows cs_ShipmentID cs_History (cl_Shipments cl) (cl_Shipments (run_cl_call c cl))"
proof (cases c)
  case (Call_AddDrugRecord_cl clk drugID manufacturerID status verificationHash)
  then show ?thesis by (simp add: AddDrugRecord_cl_def grows_refl grows_append)
next
  case (Call_UpdateDrugStatus_cl clk drugID newStatus details)
  then show ?thesis
    using grows_update_first[where key = cd_DrugID and hist = cd_History, OF _ method_appends(3)]
    by (auto simp: UpdateDrugStatus_cl_def grows_refl split: option.splits)
next
  case (Call_AddShipmentRecord_cl clk shipmentID drugID manufacturerID distributorID status)
  then show ?thesis by (simp add: AddShipmentRecord_cl_def grows_refl grows_append)
next
  case (Call_UpdateShipmentStatus_cl clk shipmentID newStatus details)
  then show ?thesis
    using grows_update_first[where key = cs_ShipmentID and hist = cs_History,
        OF _ method_appends(4)]
    by (auto simp: UpdateShipmentStatus_cl_def grows_refl split: option.splits)
qed

lemma fold_ml_calls_grows:
  "grows dr_DrugID dr_History (ml_Drugs ml) (ml_Drugs (fold run_ml_call cs ml)) \<and>
   grows sr_ShipmentID sr_History (ml_Shipments ml) (ml_Shipments (fold run_ml_call cs ml))"
proof (induction cs arbitrary: ml)
  case Nil
  show ?case by (simp add: grows_refl)
next
  case (Cons c cs)
  show ?case
    using run_ml_call_grows[of ml c] Cons.IH[of "run_ml_call c ml"]
    by (auto intro: grows_trans)
qed

lemma fold_cl_calls_grows:
  "grows cd_DrugID cd_History (cl_Drugs cl) (cl_Drugs (fold run_cl_call cs cl)) \<and>
   grows cs_ShipmentID cs_History (cl_Shipments cl) (cl_Shipments (fold run_cl_call cs cl))"
proof (induction cs arbitrary: cl)
  case Nil
  show ?case by (simp add: grows_refl)
next
  case (Cons c cs)
  show ?case
    using run_cl_call_grows[of cl c] Cons.IH[of "run_cl_call c cl"]
    by (auto intro: grows_trans)
qed

lemma replaced_from_refl: "replaced_from key {} xs xs"
  by (simp add: replaced_from_def)

lemma replaced_from_trans:
  assumes "replaced_from key A xs ys" and "replaced_from key B ys zs"
  shows "replaced_from key (A \<union> B) xs zs"
  unfolding replaced_from_def
proof (intro conjI allI impI)
  show "length xs \<le> length zs"
    using assms by (simp add: replaced_from_def)
next
  fix i assume i: "i < length zs"
  from assms have len: "length xs \<le> length ys" "length ys \<le> length zs"
    by (simp_all add: replaced_from_def)
  from assms(2) i have z: "if i < length ys
      then key (zs ! i) = key (ys ! i) \<and> (zs ! i = ys ! i \<or> zs ! i \<in> B) else zs ! i \<in> B"
    by (simp add: replaced_from_def)
  show "if i < length xs
      then key (zs ! i) = key (xs ! i) \<and> (zs ! i = xs ! i \<or> zs ! i \<in> A \<union> B)
      else zs ! i \<in> A \<union> B"
  proof (cases "i < length ys")
    case True
    with assms(1) have y: "if i < length xs
        then key (ys ! i) = key (xs ! i) \<and> (ys ! i = xs ! i \<or> ys ! i \<in> A) else ys ! i \<in> A"
      by (simp add: replaced_from_def)
    from True z have z': "key (zs ! i) = key (ys ! i)" "zs ! i = ys ! i \<or> zs ! i \<in> B"
      by simp_all
    show ?thesis
      using y z' by (auto split: if_splits)
  next
    case False
    with z len show ?thesis by auto
  qed
qed

lemma replaced_from_step:
  assumes "\<And>x. p x \<Longrightarrow> key x = key y"
  shows "replaced_from key {y}
           xs (case update_first p (\<lambda>x. y) xs of Some replaced \<Rightarrow> replaced | None \<Rightarrow> xs @ [y])"
proof (cases "update_first p (\<lambda>x. y) xs")
  case None
  then show ?thesis
    by (auto simp: replaced_from_def nth_append less_Suc_eq)
next
  case (Some ys)
  from update_first_Some[OF Some] obtain pre x post where
    xs: "xs = pre @ x # post" and px: "p x" and ys: "ys = pre @ y # post"
    by blast
  have "replaced_from key {y} xs ys"
    using assms[OF px] by (auto simp: xs ys replaced_from_def nth_append nth_Cons split: nat.splits)
  then show ?thesis
    by (simp add: Some)
qed

lemma replaced_from_fold:
  assumes "\<And>d xs. replaced_from key {g d} xs (step d xs)"
  shows "replaced_from key (g ` set ds) xs (fold step ds xs)"
proof (induction ds arbitrary: xs)
  case Nil
  show ?case by (simp add: replaced_from_refl)
next
  case (Cons d ds)
  have "replaced_from key ({g d} \<union> g ` set ds) xs (fold step ds (step d xs))"
    using assms[of d xs] Cons.IH[of "step d xs"] by (rule replaced_from_trans)
  then show ?case by simp
qed

lemma SyncManufacturerLedger_shape:
  "drugs_of (ManufacturerLedgersDir (snd (SyncManufacturerLedger clk m w)) m') =
     drugs_of (ManufacturerLedgersDir w m') \<and>
   shipments_of (ManufacturerLedgersDir (snd (SyncManufacturerLedger clk m w)) m') =
     shipments_of (ManufacturerLedgersDir w m') \<and>
   replaced_from cd_DrugID (to_common_drug m ` set (drugs_of (ManufacturerLedgersDir w m)))
     (cl_Drugs (CommonLedgerFile w))
     (cl_Drugs (CommonLedgerFile (snd (SyncManufacturerLedger clk m w)))) \<and>
   replaced_from cs_ShipmentID
     (to_common_shipment m ` set (shipments_of (ManufacturerLedgersDir w m)))
     (cl_Shipments (CommonLedgerFile w))
     (cl_Shipments (CommonLedgerFile (snd (SyncManufacturerLedger clk m w))))"
proof -
  have d: "replaced_from cd_DrugID {to_common_drug m d} xs (sync_drug m d xs)" for d xs
    unfolding sync_drug_def by (rule replaced_from_step) (simp add: to_common_drug_def)
  have s: "replaced_from cs_ShipmentID {to_common_shipment m d} xs (sync_shipment m d xs)" for d xs
    unfolding sync_shipment_def by (rule replaced_from_step) (simp add: to_common_shipment_def)
  have dir: "drugs_of (ManufacturerLedgersDir (snd (SyncManufacturerLedger clk m w)) m') =
        drugs_of (ManufacturerLedgersDir w m') \<and>
      shipments_of (ManufacturerLedgersDir (snd (SyncManufacturerLedger clk m w)) m') =
        shipments_of (ManufacturerLedgersDir w m')"
    by (simp add: SyncManufacturerLedger_def GetManufacturerLedger_def SaveManufacturerLedger_def
        SaveCommonLedger_def GetCommonLedger_def drugs_of_def shipments_of_def Let_def
        split: option.splits)
  have cl: "CommonLedgerFile (snd (SyncManufacturerLedger clk m w)) =
      (CommonLedgerFile w)
        \<lparr>cl_Drugs := fold (sync_drug m) (drugs_of (ManufacturerLedgersDir w m))
                       (cl_Drugs (CommonLedgerFile w)),
         cl_Shipments := fold (sync_shipment m) (shipments_of (ManufacturerLedgersDir w m))
                           (cl_Shipments (CommonLedgerFile w))\<rparr>"
    by (simp add: SyncManufacturerLedger_def GetManufacturerLedger_def SaveManufacturerLedger_def
        SaveCommonLedger_def GetCommonLedger_def drugs_of_def shipments_of_def Let_def
        split: option.splits)
  show ?thesis
    using dir replaced_from_fold[where step = "sync_drug m" and g = "to_common_drug m", OF d]
      replaced_from_fold[where step = "sync_shipment m" and g = "to_common_shipment m", OF s]
    by (simp add: cl)
qed

text \<open>
  Claim C8, amended. \<^verbatim>\<open>SyncManufacturerLedger\<close> apart, every sequence of operations that
  write the ledgers (the chain append of the storage, the operations of both ledger
  managers) started where every manufacturer ledger file names the manufacturer it is filed
  under leaves every drug and shipment record of every manufacturer ledger and of the common
  ledger at its place with its id, and the history the record had is an initial part of
  the history it has afterwards: the history is at least as long and no entry of it has
  changed. The same holds for every sequence of calls of the writing methods of a
  manufacturer ledger and of a common ledger. \<^verbatim>\<open>SyncManufacturerLedger\<close> leaves the records
  of the manufacturer ledgers as they are and keeps the place and the id of every common
  record, but a common record is either left as it is or replaced, history included, by the
  copy of a record of the manufacturer; the records added behind are such copies.
\<close>

theorem histories_only_grow:
  "(wf_ledgers w \<longrightarrow>
      hist_ext w (run_ops H J ops w) \<and> wf_ledgers (run_ops H J ops w)) \<and>
   grows dr_DrugID dr_History (ml_Drugs ml) (ml_Drugs (fold run_ml_call mcalls ml)) \<and>
   grows sr_ShipmentID sr_History (ml_Shipments ml) (ml_Shipments (fold run_ml_call mcalls ml)) \<and>
   grows cd_DrugID cd_History (cl_Drugs cl) (cl_Drugs (fold run_cl_call ccalls cl)) \<and>
   grows cs_ShipmentID cs_History (cl_Shipments cl) (cl_Shipments (fold run_cl_call ccalls cl)) \<and>
   drugs_of (ManufacturerLedgersDir (snd (SyncManufacturerLedger clk m w)) m') =
     drugs_of (ManufacturerLedgersDir w m') \<and>
   shipments_of (ManufacturerLedgersDir (snd (SyncManufacturerLedger clk m w)) m') =
     shipments_of (ManufacturerLedgersDir w m') \<and>
   replaced_from cd_DrugID (to_common_drug m ` set (drugs_of (ManufacturerLedgersDir w m)))
     (cl_Drugs (CommonLedgerFile w))
     (cl_Drugs (CommonLedgerFile (snd (SyncManufacturerLedger clk m w)))) \<and>
   replaced_from cs_ShipmentID
     (to_common_shipment m ` set (shipments_of (ManufacturerLedgersDir w m)))
     (cl_Shipments (CommonLedgerFile w))
     (cl_Shipments (CommonLedgerFile (snd (SyncManufacturerLedger clk m w))))"
  using run_ops_ext[OF ext_refl, of w H J ops] fold_ml_calls_grows[of ml mcalls]
    fold_cl_calls_grows[of cl ccalls] SyncManufacturerLedger_shape[of clk m w m']
  by (simp add: ledgers_extend_def)

lemma update_then_sync:
  "CommonLedgerFile
     (snd (blockchain_UpdateDrugStatus ticking m ''D1'' ''recalled'' ''batch recall''
             cascade_world)) =
   sample_cl\<lparr>cl_Drugs :=
     [(hd (cl_Drugs sample_cl))
        \<lparr>cd_Status := ''recalled'', cd_CurrentStatus := ''recalled'',
         cd_History := cd_History (hd (cl_Drugs sample_cl)) @
           [\<lparr>st_Status = ''recalled'', st_Timestamp = ''2024-05-01T12:00:02Z'',
             st_Details = ''batch recall''\<rparr>]\<rparr>]\<rparr>"
  "ManufacturerLedgersDir
     (snd (blockchain_UpdateDrugStatus ticking ''M1'' ''D1'' ''recalled'' ''batch recall''
             cascade_world)) ''M1'' =
   Some (sample_ml\<lparr>ml_Drugs :=
     [(hd (ml_Drugs sample_ml))
        \<lparr>dr_Status := ''recalled'', dr_CurrentStatus := ''recalled'',
         dr_History := dr_History (hd (ml_Drugs sample_ml)) @
           [\<lparr>st_Status = ''recalled'', st_Timestamp = ''2024-05-01T12:00:01Z'',
             st_Details = ''batch recall''\<rparr>]\<rparr>]\<rparr>)"
  "ManufacturerLedgersDir
     (snd (blockchain_UpdateDrugStatus ticking ''M2'' ''D1'' ''recalled'' ''batch recall''
             cascade_world)) ''M1'' = Some sample_ml"
  by (simp_all add: blockchain_UpdateDrugStatus_def GetManufacturerLedger_def
      SaveManufacturerLedger_def SaveCommonLedger_def GetCommonLedger_def cascade_world_def
      empty_world_def sample_ml_def sample_cl_def modify_first_def set_drug_status_def
      set_common_drug_status_def ticking_def Let_def)

lemma sync_after:
  assumes "ManufacturerLedgersDir w ''M1'' = Some l" and "ml_Drugs l = [d]"
    and "dr_DrugID d = ''D1''" and "cl_Drugs (CommonLedgerFile w) = [c]" and "cd_DrugID c = ''D1''"
  shows "cl_Drugs (CommonLedgerFile (snd (SyncManufacturerLedger clk ''M1'' w))) =
         [to_common_drug ''M1'' d]"
  using assms
  by (simp add: SyncManufacturerLedger_def GetManufacturerLedger_def SaveCommonLedger_def
      GetCommonLedger_def sync_drug_def Let_def)

lemma wf_ledgers_cascade_world: "wf_ledgers cascade_world"
  by (simp add: wf_ledgers_def cascade_world_def empty_world_def sample_ml_def)

lemma hist_ext_common_head:
  assumes "hist_ext w w'" and "cl_Drugs (CommonLedgerFile w) = [c]"
    and "cl_Drugs (CommonLedgerFile w') = [c']"
  shows "prefix (cd_History c) (cd_History c')"
  using assms by (simp add: hist_ext_def grows_def)

text \<open>
  The claim as stated fails for \<^verbatim>\<open>SyncManufacturerLedger\<close>. \<^verbatim>\<open>UpdateDrugStatus\<close> of the
  ledger manager reads the clock once for the entry of the manufacturer ledger and once more
  for the entry of the common ledger; the synchronisation then replaces the common entry by
  the manufacturer's, so the timestamp of a written entry changes. And after an update that
  names another manufacturer, which reaches the common record only, the synchronisation
  shortens the history of the common record from two entries to one.
\<close>

theorem sync_rewrites_history:
  "wf_ledgers cascade_world \<and>
   map st_Timestamp (cd_History (hd (cl_Drugs (CommonLedgerFile
     (snd (blockchain_UpdateDrugStatus ticking ''M1'' ''D1'' ''recalled'' ''batch recall''
             cascade_world)))))) =
     [''2024-04-30T09:00:00Z'', ''2024-05-01T12:00:02Z''] \<and>
   map st_Timestamp (cd_History (hd (cl_Drugs (CommonLedgerFile
     (snd (SyncManufacturerLedger ticking ''M1''
        (snd (blockchain_UpdateDrugStatus ticking ''M1'' ''D1'' ''recalled'' ''batch recall''
                cascade_world)))))))) =
     [''2024-04-30T09:00:00Z'', ''2024-05-01T12:00:01Z''] \<and>
   \<not> hist_ext
       (snd (blockchain_UpdateDrugStatus ticking ''M1'' ''D1'' ''recalled'' ''batch recall''
               cascade_world))
       (snd (SyncManufacturerLedger ticking ''M1''
          (snd (blockchain_UpdateDrugStatus ticking ''M1'' ''D1'' ''recalled'' ''batch recall''
                  cascade_world)))) \<and>
   length (cd_History (hd (cl_Drugs (CommonLedgerFile
     (snd (blockchain_UpdateDrugStatus ticking ''M2'' ''D1'' ''recalled'' ''batch recall''
             cascade_world)))))) = 2 \<and>
   length (cd_History (hd (cl_Drugs (CommonLedgerFile
     (snd (SyncManufacturerLedger ticking ''M1''
        (snd (blockchain_UpdateDrugStatus ticking ''M2'' ''D1'' ''recalled'' ''batch recall''
                cascade_world)))))))) = 1 \<and>
   \<not> hist_ext
       (snd (blockchain_UpdateDrugStatus ticking ''M2'' ''D1'' ''recalled'' ''batch recall''
               cascade_world))
       (snd (SyncManufacturerLedger ticking ''M1''
          (snd (blockchain_UpdateDrugStatus ticking ''M2'' ''D1'' ''recalled'' ''batch recall''
                  cascade_world))))"
proof -
  define w1 where "w1 = snd (blockchain_UpdateDrugStatus ticking ''M1'' ''D1'' ''recalled''
    ''batch recall'' cascade_world)"
  define w3 where "w3 = snd (blockchain_UpdateDrugStatus ticking ''M2'' ''D1'' ''recalled''
    ''batch recall'' cascade_world)"
  define d1 where "d1 = (hd (ml_Drugs sample_ml))
        \<lparr>dr_Status := ''recalled'', dr_CurrentStatus := ''recalled'',
         dr_History := dr_History (hd (ml_Drugs sample_ml)) @
           [\<lparr>st_Status = ''recalled'', st_Timestamp = ''2024-05-01T12:00:01Z'',
             st_Details = ''batch recall''\<rparr>]\<rparr>"
  define c1 where "c1 = (hd (cl_Drugs sample_cl))
        \<lparr>cd_Status := ''recalled'', cd_CurrentStatus := ''recalled'',
         cd_History := cd_History (hd (cl_Drugs sample_cl)) @
           [\<lparr>st_Status = ''recalled'', st_Timestamp = ''2024-05-01T12:00:02Z'',
             st_Details = ''batch recall''\<rparr>]\<rparr>"
  have c1: "cl_Drugs (CommonLedgerFile w1) = [c1]" "cl_Drugs (CommonLedgerFile w3) = [c1]"
    by (simp_all add: w1_def w3_def c1_def update_then_sync(1))
  have m1: "ManufacturerLedgersDir w1 ''M1'' = Some (sample_ml\<lparr>ml_Drugs := [d1]\<rparr>)"
    by (simp add: w1_def d1_def update_then_sync(2))
  have m3: "ManufacturerLedgersDir w3 ''M1'' = Some sample_ml"
    by (simp add: w3_def update_then_sync(3))
  have ids: "cd_DrugID c1 = ''D1''" "dr_DrugID d1 = ''D1''"
    "dr_DrugID (hd (ml_Drugs sample_ml)) = ''D1''" "ml_Drugs sample_ml = [hd (ml_Drugs sample_ml)]"
    by (simp_all add: c1_def d1_def sample_cl_def sample_ml_def)
  have s1: "cl_Drugs (CommonLedgerFile (snd (SyncManufacturerLedger ticking ''M1'' w1))) =
      [to_common_drug ''M1'' d1]"
    by (rule sync_after[OF m1 _ ids(2) c1(1) ids(1)]) simp
  have s3: "cl_Drugs (CommonLedgerFile (snd (SyncManufacturerLedger ticking ''M1'' w3))) =
      [to_common_drug ''M1'' (hd (ml_Drugs sample_ml))]"
    by (rule sync_after[OF m3 ids(4) ids(3) c1(2) ids(1)])
  have n1: "\<not> prefix (cd_History c1) (cd_History (to_common_drug ''M1'' d1))"
    by (simp add: c1_def d1_def to_common_drug_def sample_cl_def sample_ml_def)
  have n3: "\<not> prefix (cd_History c1)
      (cd_History (to_common_drug ''M1'' (hd (ml_Drugs sample_ml))))"
    by (simp add: c1_def to_common_drug_def sample_cl_def sample_ml_def)
  have h1: "\<not> hist_ext w1 (snd (SyncManufacturerLedger ticking ''M1'' w1))"
    using hist_ext_common_head[OF _ c1(1) s1] n1 by blast
  have h3: "\<not> hist_ext w3 (snd (SyncManufacturerLedger ticking ''M1'' w3))"
    using hist_ext_common_head[OF _ c1(2) s3] n3 by blast
  have vals: "map st_Timestamp (cd_History c1) = [''2024-04-30T09:00:00Z'', ''2024-05-01T12:00:02Z'']"
    "map st_Timestamp (cd_History (to_common_drug ''M1'' d1)) =
       [''2024-04-30T09:00:00Z'', ''2024-05-01T12:00:01Z'']"
    "length (cd_History c1) = 2"
    "length (cd_History (to_common_drug ''M1'' (hd (ml_Drugs sample_ml)))) = 1"
    by (simp_all add: c1_def d1_def to_common_drug_def sample_cl_def sample_ml_def)
  show ?thesis
    using wf_ledgers_cascade_world h1 h3 vals
    by (simp add: c1 s1 s3 w1_def[symmetric] w3_def[symmetric])
qed

lemma sample_run:
  "map st_Status (dr_History (hd (drugs_of (ManufacturerLedgersDir
     (run_ops toy_hash toy_marshal
        [Op_UpdateDrugStatus ticking ''M1'' ''D1'' ''recalled'' ''batch recall'',
         Op_RevertDrug ticking sample_revert] cascade_world) ''M1'')))) =
     [''created'', ''recalled'', ''reverted'']"
  "map st_Status (dr_History (hd (drugs_of (ManufacturerLedgersDir cascade_world ''M1'')))) =
     [''created'']"
  by (simp_all add: run_ops_def blockchain_UpdateDrugStatus_def blockchain_RevertDrug_def
      GetManufacturerLedger_def SaveManufacturerLedger_def SaveCommonLedger_def
      GetCommonLedger_def cascade_world_def empty_world_def sample_ml_def sample_cl_def
      modify_first_def set_drug_status_def set_common_drug_status_def sample_revert_def
      drugs_of_def Let_def)

theorem histories_only_grow_witness:
  "wf_ledgers cascade_world \<and>
   hist_ext cascade_world
     (run_ops toy_hash toy_marshal
        [Op_UpdateDrugStatus ticking ''M1'' ''D1'' ''recalled'' ''batch recall'',
         Op_RevertDrug ticking sample_revert] cascade_world) \<and>
   wf_ledgers
     (run_ops toy_hash toy_marshal
        [Op_UpdateDrugStatus ticking ''M1'' ''D1'' ''recalled'' ''batch recall'',
         Op_RevertDrug ticking sample_revert] cascade_world) \<and>
   map st_Status (dr_History (hd (drugs_of (ManufacturerLedgersDir cascade_world ''M1'')))) =
     [''created''] \<and>
   map st_Status (dr_History (hd (drugs_of (ManufacturerLedgersDir
     (run_ops toy_hash toy_marshal
        [Op_UpdateDrugStatus ticking ''M1'' ''D1'' ''recalled'' ''batch recall'',
         Op_RevertDrug ticking sample_revert] cascade_world) ''M1'')))) =
     [''created'', ''recalled'', ''reverted''] \<and>
   grows dr_DrugID dr_History (ml_Drugs sample_ml)
     (ml_Drugs (fold run_ml_call
        [Call_UpdateDrugStatus ticking ''D1'' ''recalled'' ''batch recall''] sample_ml)) \<and>
   grows cd_DrugID cd_History (cl_Drugs sample_cl)
     (cl_Drugs (fold run_cl_call
        [Call_UpdateDrugStatus_cl ticking ''D1'' ''recalled'' ''batch recall''] sample_cl)) \<and>
   replaced_from cd_DrugID
     (to_common_drug ''M1'' ` set (drugs_of (ManufacturerLedgersDir cascade_world ''M1'')))
     (cl_Drugs (CommonLedgerFile cascade_world))
     (cl_Drugs (CommonLedgerFile (snd (SyncManufacturerLedger ticking ''M1'' cascade_world))))"
proof -
  note T = histories_only_grow[of cascade_world toy_hash toy_marshal
      "[Op_UpdateDrugStatus ticking ''M1'' ''D1'' ''recalled'' ''batch recall'',
        Op_RevertDrug ticking sample_revert]"
      sample_ml "[Call_UpdateDrugStatus ticking ''D1'' ''recalled'' ''batch recall'']"
      sample_cl "[Call_UpdateDrugStatus_cl ticking ''D1'' ''recalled'' ''batch recall'']"
      ticking "''M1''" "''M1''"]
  from T wf_ledgers_cascade_world
  have a: "hist_ext cascade_world
     (run_ops toy_hash toy_marshal
        [Op_UpdateDrugStatus ticking ''M1'' ''D1'' ''recalled'' ''batch recall'',
         Op_RevertDrug ticking sample_revert] cascade_world) \<and>
   wf_ledgers
     (run_ops toy_hash toy_marshal
        [Op_UpdateDrugStatus ticking ''M1'' ''D1'' ''recalled'' ''batch recall'',
         Op_RevertDrug ticking sample_revert] cascade_world)"
    by blast
  show ?thesis
    using a wf_ledgers_cascade_world sample_run
      T[THEN conjunct2, THEN conjunct1]
      T[THEN conjunct2, THEN conjunct2, THEN conjunct2, THEN conjunct1]
      T[THEN conjunct2, THEN conjunct2, THEN conjunct2, THEN conjunct2, THEN conjunct2,
        THEN conjunct2, THEN conjunct2, THEN conjunct1]
    by blast
qed

section \<open>The sync cycle\<close>













lemma performSync_panics:
  assumes "Supabase w ''drugs'' = r # rs" and "lacks_tx r" and "as_string r ''drug_id'' = None"
  shows "fst (performSync H J clk uuid w) = Inl Panic"
  using assms
  by (auto simp: performSync_def pullChangesFromSupabase_def Supabase_Select_def lacks_tx_def
      split_beta split: option.splits)



end
